theory Spec2Isabelle
  imports Complex_Main "HOL-Library.AList"
begin

section \<open>Conventions of the embedding\<close>

text \<open>
  The program is \<^verbatim>\<open>Numpy_NN.py\<close>: a dense multi-layer classifier written on numpy arrays.

  \<^item> A float64 is modelled by the real number it approximates: rounding, overflow, \<open>inf\<close> and
    \<open>nan\<close> are outside the model. numpy's division of arrays does not raise at a divisor 0:
    it warns and stores \<open>inf\<close> or \<open>nan\<close>. The reals have no such value, so the model leaves
    the computation there with \<open>NonFinite\<close>, and states nothing about a run past such a
    division. Python's own \<open>1/m\<close> on integers does raise, and is an error branch of the model.
  \<^item> A two-dimensional array is its column count and its list of rows; the row count is the
    length of that list, so the shapes \<open>(0, c)\<close> and \<open>(r, 0)\<close> are both represented. A
    one-dimensional array of length \<open>c\<close> (the result of a reduction along axis 0) is
    modelled as the \<open>(1, c)\<close> array it is broadcast as.
  \<^item> Every exception of the source is a value \<open>Inl e\<close> of the result type \<open>error + 'a\<close>;
    \<open>NonFinite\<close> is the one value \<open>Inl e\<close> that is not an exception.
  \<^item> A dict is an association list with string keys, in insertion order.
\<close>

datatype error =
  ValueError | AssertionError | ZeroDivisionError | UnboundLocalError
  | KeyError | IndexError | OverflowError | NonFinite

definition ebind :: "error + 'a \<Rightarrow> ('a \<Rightarrow> error + 'b) \<Rightarrow> error + 'b" where
  "ebind m f = (case m of Inl e \<Rightarrow> Inl e | Inr x \<Rightarrow> f x)"

definition py_assert :: "bool \<Rightarrow> error + unit" where
  "py_assert c = (if c then Inr () else Inl AssertionError)"

section \<open>Arrays\<close>

datatype 'a ndarray = NDArray (ncols: nat) (rows: "'a list list")

definition nrows :: "'a ndarray \<Rightarrow> nat" where
  "nrows A = length (rows A)"

definition shape :: "'a ndarray \<Rightarrow> nat \<times> nat" where
  "shape A = (nrows A, ncols A)"

definition wf_array :: "'a ndarray \<Rightarrow> bool" where
  "wf_array A = list_all (\<lambda>r. length r = ncols A) (rows A)"

definition cell :: "'a ndarray \<Rightarrow> nat \<Rightarrow> nat \<Rightarrow> 'a" where
  "cell A i j = rows A ! i ! j"

text \<open>The array of shape \<open>(r, c)\<close> whose cell \<open>(i, j)\<close> is \<open>f i j\<close>.\<close>

definition tabulate :: "nat \<Rightarrow> nat \<Rightarrow> (nat \<Rightarrow> nat \<Rightarrow> 'a) \<Rightarrow> 'a ndarray" where
  "tabulate r c f = NDArray c (map (\<lambda>i. map (\<lambda>j. f i j) [0..<c]) [0..<r])"

text \<open>An elementwise operation with a scalar: \<open>c * A\<close>, \<open>1 - A\<close>, \<open>A <= 0\<close>, \<open>np.exp(A)\<close>.\<close>

definition nd_map :: "('a \<Rightarrow> 'b) \<Rightarrow> 'a ndarray \<Rightarrow> 'b ndarray" where
  "nd_map f A = NDArray (ncols A) (map (map f) (rows A))"

definition nd_T :: "'a ndarray \<Rightarrow> 'a ndarray" where
  "nd_T A = tabulate (ncols A) (nrows A) (\<lambda>i j. cell A j i)"

text \<open>
  Broadcasting of two axes of lengths \<open>a\<close> and \<open>b\<close>: they must be equal or one of them 1,
  and an axis of length 1 is read at index 0 whatever the index of the result.
\<close>

definition bdim :: "nat \<Rightarrow> nat \<Rightarrow> nat option" where
  "bdim a b = (if a = b then Some a else if a = 1 then Some b else if b = 1 then Some a else None)"

definition bidx :: "nat \<Rightarrow> nat \<Rightarrow> nat" where
  "bidx d i = (if d = 1 then 0 else i)"

definition broadcast2 ::
  "('a \<Rightarrow> 'b \<Rightarrow> 'c) \<Rightarrow> 'a ndarray \<Rightarrow> 'b ndarray \<Rightarrow> error + 'c ndarray" where
  "broadcast2 f A B =
     (case bdim (nrows A) (nrows B) of
        None \<Rightarrow> Inl ValueError
      | Some r \<Rightarrow>
          (case bdim (ncols A) (ncols B) of
             None \<Rightarrow> Inl ValueError
           | Some c \<Rightarrow>
               Inr (tabulate r c (\<lambda>i j.
                 f (cell A (bidx (nrows A) i) (bidx (ncols A) j))
                   (cell B (bidx (nrows B) i) (bidx (ncols B) j))))))"

definition nd_add :: "real ndarray \<Rightarrow> real ndarray \<Rightarrow> error + real ndarray" where
  "nd_add = broadcast2 (+)"

definition nd_sub :: "real ndarray \<Rightarrow> real ndarray \<Rightarrow> error + real ndarray" where
  "nd_sub = broadcast2 (-)"

definition nd_mul :: "real ndarray \<Rightarrow> real ndarray \<Rightarrow> error + real ndarray" where
  "nd_mul = broadcast2 (*)"

text \<open>
  \<^verbatim>\<open>A / B\<close> and \<^verbatim>\<open>np.divide(A, B)\<close>: the operands are broadcast, and an entry of the result
  whose divisor is 0 would be \<open>inf\<close> or \<open>nan\<close>.
\<close>

definition nd_div :: "real ndarray \<Rightarrow> real ndarray \<Rightarrow> error + real ndarray" where
  "nd_div A B =
     ebind (broadcast2 Pair A B) (\<lambda>P.
       if list_all (list_all (\<lambda>p. snd p \<noteq> 0)) (rows P)
       then Inr (nd_map (\<lambda>p. fst p / snd p) P)
       else Inl NonFinite)"

text \<open>\<^verbatim>\<open>np.dot\<close> of two-dimensional arrays: ValueError unless the inner dimensions agree.\<close>

definition np_dot :: "real ndarray \<Rightarrow> real ndarray \<Rightarrow> error + real ndarray" where
  "np_dot A B =
     (if ncols A \<noteq> nrows B then Inl ValueError
      else Inr (tabulate (nrows A) (ncols B)
             (\<lambda>i j. \<Sum>k\<leftarrow>[0..<ncols A]. cell A i k * cell B k j)))"

definition np_sum :: "real ndarray \<Rightarrow> real" where
  "np_sum A = sum_list (map sum_list (rows A))"

definition np_sum_axis0 :: "real ndarray \<Rightarrow> real ndarray" where
  "np_sum_axis0 A = tabulate 1 (ncols A) (\<lambda>i j. \<Sum>k\<leftarrow>[0..<nrows A]. cell A k j)"

definition np_sum_axis1_keepdims :: "real ndarray \<Rightarrow> real ndarray" where
  "np_sum_axis1_keepdims A = NDArray 1 (map (\<lambda>r. [sum_list r]) (rows A))"

definition np_mean_axis0 :: "real ndarray \<Rightarrow> real ndarray" where
  "np_mean_axis0 A =
     tabulate 1 (ncols A) (\<lambda>i j. (\<Sum>k\<leftarrow>[0..<nrows A]. cell A k j) / real (nrows A))"

text \<open>\<^verbatim>\<open>np.std\<close>: the population standard deviation (no Bessel correction).\<close>

definition np_std_axis0 :: "real ndarray \<Rightarrow> real ndarray" where
  "np_std_axis0 A =
     tabulate 1 (ncols A) (\<lambda>i j.
       sqrt ((\<Sum>k\<leftarrow>[0..<nrows A]. (cell A k j - cell (np_mean_axis0 A) 0 j)\<^sup>2) / real (nrows A)))"

definition np_clip :: "real ndarray \<Rightarrow> real \<Rightarrow> real \<Rightarrow> real ndarray" where
  "np_clip A lo hi = nd_map (\<lambda>x. min (max x lo) hi) A"

text \<open>
  \<^verbatim>\<open>Y.reshape(shape)\<close>: the cells in row-major order, cut into the new rows; ValueError when
  the number of cells differs.
\<close>

definition reshape :: "'a ndarray \<Rightarrow> nat \<times> nat \<Rightarrow> error + 'a ndarray" where
  "reshape A sh =
     (if nrows A * ncols A \<noteq> fst sh * snd sh then Inl ValueError
      else Inr (tabulate (fst sh) (snd sh) (\<lambda>i j. concat (rows A) ! (i * snd sh + j))))"

text \<open>
  Python's true division of a number by the integer sample count: \<^verbatim>\<open>1/m\<close>, \<^verbatim>\<open>-1/m\<close>.
\<close>

definition py_truediv :: "real \<Rightarrow> nat \<Rightarrow> error + real" where
  "py_truediv x m = (if m = 0 then Inl ZeroDivisionError else Inr (x / real m))"

section \<open>Dictionaries and their keys\<close>

definition digit_char :: "nat \<Rightarrow> char" where
  "digit_char d = char_of (48 + d)"

fun str :: "nat \<Rightarrow> string" where
  "str n = (if n < 10 then [digit_char n] else str (n div 10) @ [digit_char (n mod 10)])"

type_synonym 'v dict = "(string \<times> 'v) list"

definition getitem :: "'v dict \<Rightarrow> string \<Rightarrow> error + 'v" where
  "getitem d k = (case map_of d k of None \<Rightarrow> Inl KeyError | Some v \<Rightarrow> Inr v)"

definition setitem :: "'v dict \<Rightarrow> string \<Rightarrow> 'v \<Rightarrow> 'v dict" where
  "setitem d k v = AList.update k v d"

text \<open>A \<^verbatim>\<open>for\<close> loop over a list of indices, left at the first exception.\<close>

fun for_loop :: "nat list \<Rightarrow> (nat \<Rightarrow> 's \<Rightarrow> error + 's) \<Rightarrow> 's \<Rightarrow> error + 's" where
  "for_loop [] body s = Inr s"
| "for_loop (i # more) body s = ebind (body i s) (for_loop more body)"

section \<open>Forward propagation\<close>

text \<open>
  \<^verbatim>\<open>np.random.uniform(low, high, (r, c))\<close>. The generator is a stream \<open>rnd\<close> of samples of
  \<open>[0, 1)\<close> and a position in it; a cell is \<open>low + (high - low) * sample\<close>, the cells are
  filled in row-major order. A negative dimension raises ValueError.
\<close>

definition np_random_uniform ::
  "(nat \<Rightarrow> real) \<Rightarrow> nat \<Rightarrow> real \<Rightarrow> real \<Rightarrow> int \<Rightarrow> int \<Rightarrow> error + (real ndarray \<times> nat)" where
  "np_random_uniform rnd pos low high r c =
     (if r < 0 \<or> c < 0 then Inl ValueError
      else Inr (tabulate (nat r) (nat c) (\<lambda>i j. low + (high - low) * rnd (pos + i * nat c + j)),
                pos + nat r * nat c))"

text \<open>
  The body of the loop of \<^verbatim>\<open>initialize_parameters\<close>. \<^verbatim>\<open>1 / np.sqrt(layers_dim[i])\<close> is
  \<open>inf\<close> for a width 0 and \<open>nan\<close> for a negative one (numpy warns, it does not raise), and
  \<^verbatim>\<open>uniform\<close> raises OverflowError when \<open>high - low\<close> is not finite.
\<close>

definition init_layer ::
  "(nat \<Rightarrow> real) \<Rightarrow> int list \<Rightarrow> nat \<Rightarrow> nat \<times> real ndarray dict
     \<Rightarrow> error + (nat \<times> real ndarray dict)" where
  "init_layer rnd layers_dim i st =
     (let (pos, W_b_dict) = st; units = layers_dim ! i in
      if units \<le> 0 then Inl OverflowError
      else
        ebind (np_random_uniform rnd pos (- (1 / sqrt (real_of_int units)))
                 (1 / sqrt (real_of_int units)) units (layers_dim ! (i - 1)))
          (\<lambda>(Wi, pos').
             let W_b_dict = setitem W_b_dict (''W'' @ str i) Wi;
                 bi = tabulate (nat units) 1 (\<lambda>r c. 0);
                 W_b_dict = setitem W_b_dict (''b'' @ str i) bi
             in
             ebind (py_assert (shape Wi = (nat units, nat (layers_dim ! (i - 1)))))
               (\<lambda>_. ebind (py_assert (shape bi = (nat units, 1)))
                  (\<lambda>_. Inr (pos', W_b_dict)))))"

definition initialize_parameters ::
  "(nat \<Rightarrow> real) \<Rightarrow> nat \<Rightarrow> int list \<Rightarrow> error + (nat \<times> real ndarray dict)" where
  "initialize_parameters rnd pos layers_dim =
     for_loop [1..<length layers_dim] (init_layer rnd layers_dim) (pos, [])"

type_synonym linear_cache = "real ndarray \<times> real ndarray \<times> real ndarray"
type_synonym cache = "linear_cache \<times> real ndarray"

definition linear_forward ::
  "real ndarray \<Rightarrow> real ndarray \<Rightarrow> real ndarray \<Rightarrow> error + (real ndarray \<times> linear_cache)" where
  "linear_forward A W b =
     ebind (np_dot W A) (\<lambda>WA.
     ebind (nd_add WA b) (\<lambda>Z.
     ebind (py_assert (shape Z = (nrows W, ncols A))) (\<lambda>_.
     Inr (Z, (A, W, b)))))"

definition softmax :: "real ndarray \<Rightarrow> error + (real ndarray \<times> real ndarray)" where
  "softmax Z =
     ebind (nd_div (nd_map exp Z) (np_sum_axis0 (nd_map exp Z))) (\<lambda>A. Inr (A, Z))"

definition relu :: "real ndarray \<Rightarrow> error + (real ndarray \<times> real ndarray)" where
  "relu Z =
     (let A = nd_map (max 0) Z in
      ebind (py_assert (shape A = shape Z)) (\<lambda>_. Inr (A, Z)))"

text \<open>
  The activation is chosen by a string. With any other string neither branch assigns \<^verbatim>\<open>A\<close>,
  and the assertion that reads it raises UnboundLocalError.
\<close>

definition linear_activation_forward ::
  "real ndarray \<Rightarrow> real ndarray \<Rightarrow> real ndarray \<Rightarrow> string \<Rightarrow> error + (real ndarray \<times> cache)" where
  "linear_activation_forward A_prev W b activation =
     ebind (linear_forward A_prev W b) (\<lambda>(Z, linear_cache).
     ebind (if activation = ''softmax'' then softmax Z
            else if activation = ''relu'' then relu Z
            else Inl UnboundLocalError) (\<lambda>(A, activation_cache).
     ebind (py_assert (shape A = (nrows W, ncols A_prev))) (\<lambda>_.
     Inr (A, (linear_cache, activation_cache)))))"

definition batchnorm :: "real ndarray \<Rightarrow> error + real ndarray" where
  "batchnorm A =
     (let means = np_mean_axis0 (nd_T A);
          std_vat = np_std_axis0 (nd_T A)
      in
      ebind (nd_sub (nd_T A) means) (\<lambda>centred.
      ebind (nd_div centred (nd_map (\<lambda>s. s + 0.0001) std_vat)) (\<lambda>NA.
      ebind (py_assert (shape (nd_T NA) = shape A)) (\<lambda>_.
      Inr (nd_T NA)))))"

text \<open>The body of the loop over the ReLU layers \<open>1 .. layers_num - 1\<close>.\<close>

definition forward_layer ::
  "real ndarray dict \<Rightarrow> bool \<Rightarrow> nat \<Rightarrow> real ndarray \<times> cache list
     \<Rightarrow> error + (real ndarray \<times> cache list)" where
  "forward_layer W_b_dict use_batchnorm l st =
     (let (A, caches) = st; A_prev = A in
      ebind (getitem W_b_dict (''W'' @ str l)) (\<lambda>W.
      ebind (getitem W_b_dict (''b'' @ str l)) (\<lambda>b.
      ebind (linear_activation_forward A_prev W b ''relu'') (\<lambda>(A, cache).
      ebind (if use_batchnorm then batchnorm A else Inr A) (\<lambda>A.
      Inr (A, caches @ [cache]))))))"

text \<open>
  After the loop the last layer is addressed as \<^verbatim>\<open>l+1\<close>, with the loop variable. When the
  loop body never ran (\<open>layers_num \<le> 1\<close>) the variable \<^verbatim>\<open>l\<close> is unbound and reading it
  raises UnboundLocalError; otherwise its value is \<open>layers_num - 1\<close>.
\<close>

definition L_model_forward ::
  "real ndarray \<Rightarrow> real ndarray dict \<Rightarrow> bool \<Rightarrow> error + (real ndarray \<times> cache list)" where
  "L_model_forward X W_b_dict use_batchnorm =
     (let layers_num = length W_b_dict div 2 in
      ebind (for_loop [1..<layers_num] (forward_layer W_b_dict use_batchnorm) (X, []))
        (\<lambda>(A, caches).
           if layers_num \<le> 1 then Inl UnboundLocalError
           else
             let l = layers_num - 1 in
             ebind (getitem W_b_dict (''W'' @ str (l + 1))) (\<lambda>W.
             ebind (getitem W_b_dict (''b'' @ str (l + 1))) (\<lambda>b.
             ebind (linear_activation_forward A W b ''softmax'') (\<lambda>(AL, cache).
             ebind (py_assert (shape AL = (nrows W, ncols X))) (\<lambda>_.
             Inr (AL, caches @ [cache])))))))"

definition compute_cost :: "real ndarray \<Rightarrow> real ndarray \<Rightarrow> error + real" where
  "compute_cost AL Y =
     ebind (py_assert (shape AL = shape Y)) (\<lambda>_.
       let epsilon = 1 / 10 ^ 10;
           pred = np_clip AL epsilon (1 - epsilon);
           m = ncols Y
       in
       ebind (py_truediv (- 1) m) (\<lambda>c.
       ebind (nd_mul Y (nd_map ln pred)) (\<lambda>P.
       Inr (c * np_sum P))))"

section \<open>Backward propagation\<close>

definition linear_backward ::
  "real ndarray \<Rightarrow> linear_cache \<Rightarrow> error + (real ndarray \<times> real ndarray \<times> real ndarray)" where
  "linear_backward dZ cache =
     (let (A_prev, W, b) = cache; m = ncols A_prev in
      ebind (np_dot (nd_T W) dZ) (\<lambda>dA_prev.
      ebind (py_truediv 1 m) (\<lambda>c.
      ebind (np_dot dZ (nd_T A_prev)) (\<lambda>P.
        let dW = nd_map (\<lambda>x. c * x) P;
            db = nd_map (\<lambda>x. c * x) (np_sum_axis1_keepdims dZ)
        in
        ebind (py_assert (shape dA_prev = shape A_prev)) (\<lambda>_.
        ebind (py_assert (shape dW = shape W)) (\<lambda>_.
        ebind (py_assert (shape db = shape b)) (\<lambda>_.
        Inr (dA_prev, dW, db))))))))"

text \<open>
  \<^verbatim>\<open>dA[activation_cache <= 0] = 0; return dA\<close>. The comparison builds a boolean array of the
  shape of the cache; assignment through a boolean index needs the mask to have the shape
  of \<open>dA\<close> and raises IndexError otherwise. The array \<open>dA\<close> is changed in place and is also
  the value returned.
\<close>

definition mask_assign :: "real ndarray \<Rightarrow> bool ndarray \<Rightarrow> real \<Rightarrow> error + real ndarray" where
  "mask_assign A M v =
     (if shape M \<noteq> shape A then Inl IndexError
      else Inr (NDArray (ncols A)
             (map2 (\<lambda>r m. map2 (\<lambda>x hit. if hit then v else x) r m) (rows A) (rows M))))"

definition relu_backward :: "real ndarray \<Rightarrow> real ndarray \<Rightarrow> error + real ndarray" where
  "relu_backward dA activation_cache =
     mask_assign dA (nd_map (\<lambda>z. z \<le> 0) activation_cache) 0"

definition softmax_backward :: "real ndarray \<Rightarrow> real ndarray \<Rightarrow> error + real ndarray" where
  "softmax_backward dA activation_cache =
     (let Z = activation_cache; T = nd_map exp Z in
      ebind (nd_div T (np_sum_axis0 T)) (\<lambda>A.
      ebind (nd_mul dA A) (\<lambda>dA_A.
      ebind (nd_mul dA_A (nd_map (\<lambda>a. 1 - a) A)) (\<lambda>dZ.
      ebind (py_assert (shape dZ = shape Z)) (\<lambda>_.
      Inr dZ)))))"

text \<open>
  The result is the array \<open>dA\<close> as the call leaves it (the ReLU branch overwrites it in
  place, the softmax branch does not touch it), then \<open>dA_prev\<close>, \<open>dW\<close> and \<open>db\<close>. With an
  activation other than the two, \<^verbatim>\<open>dZ\<close> is unbound.
\<close>

definition linear_activation_backward ::
  "real ndarray \<Rightarrow> cache \<Rightarrow> string
     \<Rightarrow> error + (real ndarray \<times> real ndarray \<times> real ndarray \<times> real ndarray)" where
  "linear_activation_backward dA cache activation =
     (let (linear_cache, activation_cache) = cache in
      ebind (if activation = ''relu'' then relu_backward dA activation_cache
             else if activation = ''softmax'' then softmax_backward dA activation_cache
             else Inl UnboundLocalError) (\<lambda>dZ.
      ebind (linear_backward dZ linear_cache) (\<lambda>(dA_prev, dW, db).
      Inr (if activation = ''relu'' then dZ else dA, dA_prev, dW, db))))"

text \<open>
  The body of the loop over \<^verbatim>\<open>reversed(range(num_layers-1))\<close>. The array stored under
  \<^verbatim>\<open>"dA" + str(i + 2)\<close> is the one \<^verbatim>\<open>relu_backward\<close> overwrites, so the entry of the
  dictionary changes with it.
\<close>

definition backward_layer ::
  "cache list \<Rightarrow> nat \<Rightarrow> real ndarray dict \<Rightarrow> error + real ndarray dict" where
  "backward_layer caches i grads =
     (let last_cache = caches ! i in
      ebind (getitem grads (''dA'' @ str (i + 2))) (\<lambda>dA.
      ebind (linear_activation_backward dA last_cache ''relu'') (\<lambda>(dA, dA_prev_temp, dW_temp, db_temp).
        let grads = setitem grads (''dA'' @ str (i + 2)) dA;
            grads = setitem grads (''dA'' @ str (i + 1)) dA_prev_temp;
            grads = setitem grads (''dW'' @ str (i + 1)) dW_temp;
            grads = setitem grads (''db'' @ str (i + 1)) db_temp
        in Inr grads)))"

text \<open>
  The first lines of \<^verbatim>\<open>L_model_backward\<close>: \<^verbatim>\<open>Y\<close> is reshaped to the shape of \<^verbatim>\<open>AL\<close> and
  \<^verbatim>\<open>dAL = - (np.divide(Y, AL) - np.divide(1 - Y, 1 - AL))\<close>.
\<close>

definition initial_gradient :: "real ndarray \<Rightarrow> real ndarray \<Rightarrow> error + real ndarray" where
  "initial_gradient AL Y =
     ebind (reshape Y (shape AL)) (\<lambda>Y.
     ebind (nd_div Y AL) (\<lambda>Q1.
     ebind (nd_div (nd_map (\<lambda>y. 1 - y) Y) (nd_map (\<lambda>a. 1 - a) AL)) (\<lambda>Q2.
     ebind (nd_sub Q1 Q2) (\<lambda>D.
     Inr (nd_map uminus D)))))"

definition L_model_backward ::
  "real ndarray \<Rightarrow> real ndarray \<Rightarrow> cache list \<Rightarrow> error + real ndarray dict" where
  "L_model_backward AL Y caches =
     (let num_layers = length caches in
      ebind (initial_gradient AL Y) (\<lambda>dAL.
        if caches = [] then Inl IndexError
        else
          let last_cache = last caches in
          ebind (linear_activation_backward dAL last_cache ''softmax'') (\<lambda>(dAL, dA_prev, dW, db).
            let grads = setitem [] (''dA'' @ str num_layers) dA_prev;
                grads = setitem grads (''dW'' @ str num_layers) dW;
                grads = setitem grads (''db'' @ str num_layers) db
            in for_loop (rev [0..<num_layers - 1]) (backward_layer caches) grads)))"

section \<open>Parameter update, prediction, training\<close>

definition update_layer ::
  "real ndarray dict \<Rightarrow> real \<Rightarrow> bool \<Rightarrow> nat \<Rightarrow> real ndarray dict \<Rightarrow> error + real ndarray dict" where
  "update_layer grads learning_rate L2_norm l W_b_dict =
     ebind (getitem W_b_dict (''W'' @ str l)) (\<lambda>W.
     ebind (getitem grads (''dW'' @ str l)) (\<lambda>dW.
     ebind (if L2_norm then
              ebind (getitem W_b_dict (''W'' @ str l)) (\<lambda>W'.
              ebind (nd_add dW (nd_map (\<lambda>x. learning_rate * x) W')) (\<lambda>G.
              nd_sub W (nd_map (\<lambda>x. learning_rate * x) G)))
            else nd_sub W (nd_map (\<lambda>x. learning_rate * x) dW)) (\<lambda>W_new.
       let W_b_dict = setitem W_b_dict (''W'' @ str l) W_new in
       ebind (getitem W_b_dict (''b'' @ str l)) (\<lambda>b.
       ebind (getitem grads (''db'' @ str l)) (\<lambda>db.
       ebind (nd_sub b (nd_map (\<lambda>x. learning_rate * x) db)) (\<lambda>b_new.
       Inr (setitem W_b_dict (''b'' @ str l) b_new)))))))"

definition update_parameters ::
  "real ndarray dict \<Rightarrow> real ndarray dict \<Rightarrow> real \<Rightarrow> bool \<Rightarrow> error + real ndarray dict" where
  "update_parameters W_b_dict grads learning_rate L2_norm =
     (let len_layers = length W_b_dict div 2 in
      for_loop [1..<len_layers + 1] (update_layer grads learning_rate L2_norm) W_b_dict)"

text \<open>
  \<^verbatim>\<open>np.argmax(A, keepdims=True, axis=0)\<close>: for every column the first row index that holds
  its maximum, as a \<open>(1, c)\<close> array; ValueError for an array without rows.
\<close>

definition argmax_list :: "real list \<Rightarrow> nat" where
  "argmax_list xs =
     fst (foldl (\<lambda>(bi, bv) (i, v). if bv < v then (i, v) else (bi, bv))
            (0, hd xs) (zip [0..<length xs] xs))"

definition np_argmax_axis0 :: "real ndarray \<Rightarrow> error + nat ndarray" where
  "np_argmax_axis0 A =
     (if nrows A = 0 then Inl ValueError
      else Inr (tabulate 1 (ncols A) (\<lambda>i j. argmax_list (map (\<lambda>r. r ! j) (rows A)))))"

definition count_true :: "bool ndarray \<Rightarrow> nat" where
  "count_true E = sum_list (map (\<lambda>r. length (filter id r)) (rows E))"

text \<open>
  The accuracy is the one float the program computes from integers: \<^verbatim>\<open>correct/N_sampels\<close>
  divides a numpy integer, which does not raise for \<open>N_sampels = 0\<close> but yields \<open>nan\<close>. That
  \<open>nan\<close> is the value \<open>None\<close> of an accuracy. The comparison of the two argmax arrays
  broadcasts, and raises ValueError for column counts that do not broadcast.
\<close>

definition predict ::
  "real ndarray \<Rightarrow> real ndarray \<Rightarrow> real ndarray dict \<Rightarrow> bool \<Rightarrow> error + real option" where
  "predict X Y W_b_dict use_batchnorm =
     (let N_sampels = ncols X in
      ebind (L_model_forward X W_b_dict use_batchnorm) (\<lambda>(probs, _).
      ebind (np_argmax_axis0 probs) (\<lambda>P.
      ebind (np_argmax_axis0 Y) (\<lambda>Q.
      ebind (broadcast2 (=) P Q) (\<lambda>E.
        let correct = count_true E in
        Inr (if N_sampels = 0 then None else Some (real correct / real N_sampels)))))))"

text \<open>
  The state of the loop over the epochs of \<^verbatim>\<open>L_layer_model\<close>: what the batches change
  (\<open>trained\<close>: the parameters, the recorded costs and the batch counter), the two
  accuracies, the flag, and the loop variable \<^verbatim>\<open>i\<close> (unbound before the first iteration).
\<close>

record 's epoch_state =
  trained :: 's
  current_accuracy :: "real option"
  prev_accuracy :: "real option"
  stop_sign :: bool
  iteration :: "nat option"

text \<open>
  \<^verbatim>\<open>current_accuracy - prev_accuracy < 0.00000001\<close>; a comparison with \<open>nan\<close> is false.
\<close>

definition not_improving :: "real option \<Rightarrow> real option \<Rightarrow> bool" where
  "not_improving cur prev =
     (case cur of None \<Rightarrow> False
      | Some c \<Rightarrow> (case prev of None \<Rightarrow> False | Some p \<Rightarrow> c - p < 1 / 10 ^ 8))"

text \<open>
  The loop \<^verbatim>\<open>for i in range(num_iterations)\<close>, with what it calls as parameters:
  \<open>train_batches\<close> is the inner loop over the mini-batches and \<open>validate\<close> is
  \<^verbatim>\<open>predict\<close> on the validation set. The \<^verbatim>\<open>break\<close> leaves the loop with
  \<^verbatim>\<open>prev_accuracy\<close> not yet updated.
\<close>

fun epoch_loop ::
  "('s \<Rightarrow> error + 's) \<Rightarrow> ('s \<Rightarrow> error + real option) \<Rightarrow> nat list
     \<Rightarrow> 's epoch_state \<Rightarrow> error + 's epoch_state" where
  "epoch_loop train_batches validate [] st = Inr st"
| "epoch_loop train_batches validate (i # later) st =
     (if stop_sign st then epoch_loop train_batches validate later (st\<lparr>iteration := Some i\<rparr>)
      else
        ebind (train_batches (trained st)) (\<lambda>s.
        ebind (validate s) (\<lambda>acc.
          if not_improving acc (prev_accuracy st)
          then Inr (st\<lparr>trained := s, current_accuracy := acc, stop_sign := True,
                        iteration := Some i\<rparr>)
          else epoch_loop train_batches validate later
                 (st\<lparr>trained := s, current_accuracy := acc, prev_accuracy := acc,
                      iteration := Some i\<rparr>))))"

text \<open>
  The body of the loop over the mini-batches: forward, backward, update, and on every
  100th batch the cost (with the L2 term added to the recorded value only).
\<close>

definition train_batch ::
  "real ndarray list \<Rightarrow> real ndarray list \<Rightarrow> int list \<Rightarrow> real \<Rightarrow> bool \<Rightarrow> bool \<Rightarrow> nat
     \<Rightarrow> real ndarray dict \<times> real list \<times> nat
     \<Rightarrow> error + (real ndarray dict \<times> real list \<times> nat)" where
  "train_batch X_batches Y_batches layers_dims learning_rate use_batchnorm L2_norm j st =
     (let (W_b_dict, costs, batch_so_far) = st in
      ebind (L_model_forward (X_batches ! j) W_b_dict use_batchnorm) (\<lambda>(AL, caches).
      ebind (L_model_backward AL (Y_batches ! j) caches) (\<lambda>grads.
      ebind (update_parameters W_b_dict grads learning_rate L2_norm) (\<lambda>W_b_dict.
        let batch_so_far = batch_so_far + 1 in
        if batch_so_far mod 100 = 0 then
          ebind (compute_cost AL (Y_batches ! j)) (\<lambda>cost.
          ebind (if L2_norm then
                   for_loop [0..<length layers_dims - 1]
                     (\<lambda>k cost.
                        ebind (getitem W_b_dict (''W'' @ str (k + 1))) (\<lambda>w.
                        ebind (nd_mul w w) (\<lambda>ww.
                        Inr (cost + learning_rate / 2 * np_sum ww))))
                     cost
                 else Inr cost) (\<lambda>cost.
          Inr (W_b_dict, costs @ [cost], batch_so_far)))
        else Inr (W_b_dict, costs, batch_so_far)))))"

text \<open>\<^verbatim>\<open>X[idx, :]\<close>: the rows at the given indices, IndexError for an index out of range.\<close>

definition take_rows :: "'a ndarray \<Rightarrow> nat list \<Rightarrow> error + 'a ndarray" where
  "take_rows A idx =
     (if list_all (\<lambda>i. i < nrows A) idx then Inr (NDArray (ncols A) (map (\<lambda>i. rows A ! i) idx))
      else Inl IndexError)"

text \<open>\<^verbatim>\<open>X[a:b, :]\<close> for \<open>0 \<le> a \<le> b\<close>.\<close>

definition slice_rows :: "'a ndarray \<Rightarrow> nat \<Rightarrow> nat \<Rightarrow> 'a ndarray" where
  "slice_rows A a b = NDArray (ncols A) (take (b - a) (drop a (rows A)))"

text \<open>
  The first lines of \<^verbatim>\<open>L_layer_model\<close> (293 to 300): both arrays are transposed, and the
  rows (the samples) are split along a permutation: the first \<^verbatim>\<open>math.ceil(0.8 * n)\<close> indices
  are the training set, the others the validation set. The permutation \<open>indices\<close> drawn by
  the random generator is a parameter; \<^verbatim>\<open>math.ceil(0.8 * n)\<close> is the ceiling of the exact
  product.
\<close>

definition split_data ::
  "nat list \<Rightarrow> real ndarray \<Rightarrow> real ndarray
     \<Rightarrow> error + (real ndarray \<times> real ndarray \<times> real ndarray \<times> real ndarray
                 \<times> real ndarray \<times> real ndarray)" where
  "split_data indices X Y =
     (let X = nd_T X; Y = nd_T Y;
          cut = nat \<lceil>0.8 * real (nrows X)\<rceil>;
          training_idx = take cut indices; test_idx = drop cut indices
      in
      ebind (take_rows X training_idx) (\<lambda>X_train.
      ebind (take_rows X test_idx) (\<lambda>X_val.
      ebind (take_rows Y training_idx) (\<lambda>Y_train.
      ebind (take_rows Y test_idx) (\<lambda>Y_val.
      Inr (X, Y, X_train, X_val, Y_train, Y_val))))))"

text \<open>
  Lines 303 to 309: the training set is cut into mini-batches, each transposed back. The
  batch size is a Python integer; \<^verbatim>\<open>X_train.shape[0]/batch_size\<close> raises ZeroDivisionError for
  a batch size 0, and a range with a non-positive bound is empty.
\<close>

definition cut_batches ::
  "real ndarray \<Rightarrow> real ndarray \<Rightarrow> int \<Rightarrow> error + (real ndarray list \<times> real ndarray list)" where
  "cut_batches X_train Y_train batch_size =
     (if batch_size = 0 then Inl ZeroDivisionError
      else
        let batch_num = nat \<lceil>real (nrows X_train) / real_of_int batch_size\<rceil>;
            bs = nat batch_size
        in
        Inr (map (\<lambda>i. nd_T (slice_rows X_train (i * bs) ((i + 1) * bs))) [0..<batch_num],
             map (\<lambda>i. nd_T (slice_rows Y_train (i * bs) ((i + 1) * bs))) [0..<batch_num]))"

text \<open>
  What one epoch does (lines 312 to 325): the loop over the mini-batches, then \<^verbatim>\<open>predict\<close> on
  the validation set with the parameters the loop leaves.
\<close>

definition epoch_pass ::
  "real ndarray list \<Rightarrow> real ndarray list \<Rightarrow> int list \<Rightarrow> real \<Rightarrow> bool \<Rightarrow> bool
     \<Rightarrow> real ndarray dict \<times> real list \<times> nat
     \<Rightarrow> error + (real ndarray dict \<times> real list \<times> nat)" where
  "epoch_pass X_batches Y_batches layers_dims learning_rate use_batchnorm L2_norm =
     for_loop [0..<length X_batches]
       (train_batch X_batches Y_batches layers_dims learning_rate use_batchnorm L2_norm)"

definition validation ::
  "real ndarray \<Rightarrow> real ndarray \<Rightarrow> bool \<Rightarrow> real ndarray dict \<times> real list \<times> nat
     \<Rightarrow> error + real option" where
  "validation X_val Y_val use_batchnorm s =
     predict (nd_T X_val) (nd_T Y_val) (fst s) use_batchnorm"

text \<open>
  Lines 331 to 334, after the loop over the epochs: the two accuracies of the final
  parameters and the result. The \<^verbatim>\<open>print\<close> reads the loop variable \<^verbatim>\<open>i\<close>.
\<close>

definition final_report ::
  "real ndarray \<Rightarrow> real ndarray \<Rightarrow> real ndarray \<Rightarrow> real ndarray \<Rightarrow> bool
     \<Rightarrow> (real ndarray dict \<times> real list \<times> nat) epoch_state
     \<Rightarrow> error + (real ndarray dict \<times> real list \<times> real option \<times> real option)" where
  "final_report X Y X_val Y_val use_batchnorm fin =
     ebind (predict (nd_T X) (nd_T Y) (fst (trained fin)) use_batchnorm) (\<lambda>training_accuracy.
     ebind (predict (nd_T X_val) (nd_T Y_val) (fst (trained fin)) use_batchnorm) (\<lambda>val_accuracy.
       if iteration fin = None then Inl UnboundLocalError
       else Inr (fst (trained fin), fst (snd (trained fin)), training_accuracy, val_accuracy)))"

text \<open>
  \<^verbatim>\<open>L_layer_model\<close>. The stream \<open>rnd\<close> the weights are drawn from is a parameter, as is the
  permutation. The number of iterations is a Python integer. Both accuracies start at 0,
  and the loop that cuts the batches binds \<^verbatim>\<open>i\<close> as well.
\<close>

definition L_layer_model ::
  "(nat \<Rightarrow> real) \<Rightarrow> nat list \<Rightarrow> real ndarray \<Rightarrow> real ndarray \<Rightarrow> int list \<Rightarrow> real \<Rightarrow> int \<Rightarrow> int
     \<Rightarrow> bool \<Rightarrow> bool
     \<Rightarrow> error + (real ndarray dict \<times> real list \<times> real option \<times> real option)" where
  "L_layer_model rnd indices X Y layers_dims learning_rate num_iterations batch_size
       use_batchnorm L2_norm =
     ebind (split_data indices X Y) (\<lambda>(X, Y, X_train, X_val, Y_train, Y_val).
     ebind (initialize_parameters rnd 0 layers_dims) (\<lambda>(_, W_b_dict).
     ebind (cut_batches X_train Y_train batch_size) (\<lambda>(X_batches, Y_batches).
       let start = \<lparr>trained = (W_b_dict, [], 0), current_accuracy = Some 0,
                     prev_accuracy = Some 0, stop_sign = False,
                     iteration = (if X_batches = [] then None
                                  else Some (length X_batches - 1))\<rparr>
       in
       ebind (epoch_loop
                (epoch_pass X_batches Y_batches layers_dims learning_rate use_batchnorm L2_norm)
                (validation X_val Y_val use_batchnorm)
                [0..<nat num_iterations] start)
         (final_report X Y X_val Y_val use_batchnorm))))"

section \<open>Reference formulas\<close>

text \<open>
  The arrays one iteration of the update loop stores for a layer: the weights with or
  without the decay term, and the bias.
\<close>

definition updated_W :: "real \<Rightarrow> bool \<Rightarrow> real ndarray \<Rightarrow> real ndarray \<Rightarrow> real ndarray" where
  "updated_W lr L2 W dW =
     tabulate (nrows W) (ncols W) (\<lambda>i j.
       if L2 then cell W i j - lr * (cell dW i j + lr * cell W i j)
       else cell W i j - lr * cell dW i j)"

definition updated_b :: "real \<Rightarrow> real ndarray \<Rightarrow> real ndarray \<Rightarrow> real ndarray" where
  "updated_b lr b db = tabulate (nrows b) (ncols b) (\<lambda>i j. cell b i j - lr * cell db i j)"

text \<open>
  A one-hot label matrix: every column has the entry 1 in one row and 0 in all others.
\<close>

definition one_hot :: "real ndarray \<Rightarrow> bool" where
  "one_hot Y = (\<forall>j<ncols Y. \<exists>c<nrows Y. \<forall>i<nrows Y. cell Y i j = (if i = c then 1 else 0))"

text \<open>The clipping of \<^verbatim>\<open>compute_cost\<close>, on one entry.\<close>

definition clipped :: "real \<Rightarrow> real" where
  "clipped x = min (max x (1 / 10 ^ 10)) (1 - 1 / 10 ^ 10)"

text \<open>The weights \<^verbatim>\<open>initialize_parameters\<close> draws for layer \<open>i\<close> from position \<open>pos\<close> of the stream.\<close>

definition initial_W :: "(nat \<Rightarrow> real) \<Rightarrow> nat \<Rightarrow> int list \<Rightarrow> nat \<Rightarrow> real ndarray" where
  "initial_W rnd pos layers_dim i =
     tabulate (nat (layers_dim ! i)) (nat (layers_dim ! (i - 1)))
       (\<lambda>r c. - (1 / sqrt (real_of_int (layers_dim ! i)))
               + (1 / sqrt (real_of_int (layers_dim ! i))
                    - - (1 / sqrt (real_of_int (layers_dim ! i))))
                 * rnd (pos + r * nat (layers_dim ! (i - 1)) + c))"

text \<open>
  The synthetic validation accuracies of section 8 of the specification, by the number of
  epochs trained (1, 2, 3).
\<close>

definition synthetic_accuracy :: "nat \<Rightarrow> real" where
  "synthetic_accuracy k = [0.10, 0.50, 0.50000000005] ! (k - 1)"

text \<open>The accuracy before the first epoch is 0; after \<open>k \<ge> 1\<close> epochs it is the synthetic one.\<close>

definition synthetic_trace :: "nat \<Rightarrow> real option" where
  "synthetic_trace k = (if k = 0 then Some 0 else Some (synthetic_accuracy k))"

text \<open>The column-wise softmax of the pre-activations \<open>Z\<close>, at cell \<open>(i, j)\<close>.\<close>

definition softmax_cell :: "real ndarray \<Rightarrow> nat \<Rightarrow> nat \<Rightarrow> real" where
  "softmax_cell Z i j = exp (cell Z i j) / (\<Sum>l<nrows Z. exp (cell Z l j))"

text \<open>
  For comparison, the Jacobian-vector product of the column-wise softmax at cell \<open>(i, j)\<close>:
  \<open>A\<^sub>i\<^sub>j (dA\<^sub>i\<^sub>j - \<Sum>\<^sub>l dA\<^sub>l\<^sub>j A\<^sub>l\<^sub>j)\<close>.
\<close>

definition softmax_jvp_cell :: "real ndarray \<Rightarrow> real ndarray \<Rightarrow> nat \<Rightarrow> nat \<Rightarrow> real" where
  "softmax_jvp_cell dA Z i j =
     softmax_cell Z i j * (cell dA i j - (\<Sum>l<nrows Z. cell dA l j * softmax_cell Z l j))"

text \<open>
  The population mean and the population standard deviation of row \<open>i\<close> of an array, taken
  across its columns (the batch dimension).
\<close>

definition row_mean :: "real ndarray \<Rightarrow> nat \<Rightarrow> real" where
  "row_mean A i = (\<Sum>j<ncols A. cell A i j) / real (ncols A)"

definition row_std :: "real ndarray \<Rightarrow> nat \<Rightarrow> real" where
  "row_std A i = sqrt ((\<Sum>j<ncols A. (cell A i j - row_mean A i)\<^sup>2) / real (ncols A))"

text \<open>What \<^verbatim>\<open>batchnorm\<close> returns, on an entry.\<close>

definition normalized :: "real ndarray \<Rightarrow> real ndarray" where
  "normalized A =
     tabulate (nrows A) (ncols A)
       (\<lambda>i j. (cell A i j - row_mean A i) / (row_std A i + 1 / 10000))"

text \<open>
  What a ReLU layer with pre-activation \<open>Z\<close> passes on to the next layer: \<open>max(0, Z)\<close>,
  normalized when batch normalization is enabled.
\<close>

definition relu_output :: "bool \<Rightarrow> real ndarray \<Rightarrow> error + real ndarray" where
  "relu_output use_batchnorm Z =
     (if use_batchnorm then batchnorm (nd_map (max 0) Z) else Inr (nd_map (max 0) Z))"

text \<open>
  \<open>relu_trace d bn l A cs A_out\<close>: the list \<open>cs\<close> holds the caches of the ReLU layers
  \<open>l, l + 1, ...\<close> run on the input \<open>A\<close> with the parameters of \<open>d\<close>. Every cache holds the
  input of its layer, the parameters, and the pre-activation \<open>Z = W A + b\<close> as
  \<open>linear_forward\<close> returns it; the input of the next layer is \<open>relu_output\<close> of that \<open>Z\<close>,
  and \<open>A_out\<close> is what the last layer passes on.
\<close>

fun relu_trace ::
  "real ndarray dict \<Rightarrow> bool \<Rightarrow> nat \<Rightarrow> real ndarray \<Rightarrow> cache list \<Rightarrow> real ndarray \<Rightarrow> bool" where
  "relu_trace d bn l A [] A_out = (A_out = A)"
| "relu_trace d bn l A (c # cs) A_out =
     (case c of ((A_prev, W, b), Z) \<Rightarrow>
        A_prev = A \<and> getitem d (''W'' @ str l) = Inr W \<and> getitem d (''b'' @ str l) = Inr b
        \<and> linear_forward A W b = Inr (Z, (A, W, b))
        \<and> (case relu_output bn Z of Inl e \<Rightarrow> False
            | Inr A' \<Rightarrow> relu_trace d bn (Suc l) A' cs A_out))"

text \<open>
  The derivative chain of section 4.6 of the specification below the last layer. It starts
  from the gradient \<open>dA\<close> with respect to the output of the topmost remaining ReLU layer and
  takes the caches of the ReLU layers, topmost first. Every layer masks the gradient with
  its cached pre-activation (\<open>relu_backward\<close>) and applies \<open>linear_backward\<close> to the result;
  the \<open>dA_prev\<close> of a layer is the gradient the layer below starts from. Nothing in the
  chain refers to batch normalization. The result lists, topmost layer first, the masked
  gradient and the three gradients of each layer.
\<close>

datatype layer_gradient =
  Layer_Gradient (grad_dZ: "real ndarray") (grad_dA_prev: "real ndarray")
    (grad_dW: "real ndarray") (grad_db: "real ndarray")

fun relu_chain :: "real ndarray \<Rightarrow> cache list \<Rightarrow> error + layer_gradient list" where
  "relu_chain dA [] = Inr []"
| "relu_chain dA ((linear_cache, Z) # below) =
     ebind (relu_backward dA Z) (\<lambda>dZ.
     ebind (linear_backward dZ linear_cache) (\<lambda>(dA_prev, dW, db).
     ebind (relu_chain dA_prev below) (\<lambda>rest.
     Inr (Layer_Gradient dZ dA_prev dW db # rest))))"

text \<open>
  What the loop of \<open>L_model_backward\<close> over the ReLU layers \<open>n, ..., 1\<close> leaves in the
  dictionary, given the chain's result for these layers.
\<close>

definition chain_stored ::
  "nat \<Rightarrow> layer_gradient list \<Rightarrow> real ndarray dict \<Rightarrow> real ndarray dict \<Rightarrow> bool" where
  "chain_stored n res g g' =
     (length res = n
      \<and> (\<forall>k<n. getitem g' (''dA'' @ str (k + 2)) = Inr (grad_dZ (res ! (n - 1 - k)))
             \<and> getitem g' (''dW'' @ str (k + 1)) = Inr (grad_dW (res ! (n - 1 - k)))
             \<and> getitem g' (''db'' @ str (k + 1)) = Inr (grad_db (res ! (n - 1 - k))))
      \<and> (0 < n \<longrightarrow> getitem g' (''dA'' @ str 1) = Inr (grad_dA_prev (res ! (n - 1))))
      \<and> (\<forall>key. (\<forall>k\<le>n. key \<noteq> ''dA'' @ str (k + 1))
               \<and> (\<forall>k<n. key \<noteq> ''dW'' @ str (k + 1) \<and> key \<noteq> ''db'' @ str (k + 1))
             \<longrightarrow> getitem g' key = getitem g key))"

text \<open>
  A network small enough to train by hand: the layers \<open>[1, 1, 2]\<close> with all weights 0, the
  bias of the hidden unit 0 and the biases \<open>\<beta>\<close> and \<open>-\<beta>\<close> of the two outputs. \<open>first_class m\<close>
  is the one-hot label matrix of \<open>m\<close> samples of the first class. On such labels the
  network gives the first class the share \<open>first_share \<beta>\<close>, and one update with learning
  rate 1 moves \<open>\<beta>\<close> to \<open>bias_step \<beta>\<close> and leaves the weights at 0.
\<close>

definition bias_net :: "real \<Rightarrow> real ndarray dict" where
  "bias_net \<beta> =
     [(''W1'', NDArray 1 [[0]]), (''b1'', NDArray 1 [[0]]),
      (''W2'', NDArray 1 [[0], [0]]), (''b2'', NDArray 1 [[\<beta>], [- \<beta>]])]"

definition first_class :: "nat \<Rightarrow> real ndarray" where
  "first_class m = tabulate 2 m (\<lambda>i j. if i = 0 then 1 else 0)"

definition first_share :: "real \<Rightarrow> real" where
  "first_share \<beta> = exp \<beta> / (exp \<beta> + exp (- \<beta>))"

definition bias_step :: "real \<Rightarrow> real" where
  "bias_step \<beta> = \<beta> + (1 - first_share \<beta>)"

section \<open>Facts about arrays\<close>

lemma shape_eq_iff: "shape A = shape B \<longleftrightarrow> nrows A = nrows B \<and> ncols A = ncols B"
  by (simp add: shape_def)

lemma wf_array_row: "wf_array A \<Longrightarrow> i < nrows A \<Longrightarrow> length (rows A ! i) = ncols A"
  by (simp add: wf_array_def nrows_def list_all_length)

lemma shape_nd_map [simp]: "shape (nd_map f A) = shape A"
  by (simp add: shape_def nrows_def nd_map_def)

lemma wf_nd_map [simp]: "wf_array (nd_map f A) = wf_array A"
  by (simp add: wf_array_def nd_map_def list_all_length)

lemma cell_nd_map:
  "wf_array A \<Longrightarrow> i < nrows A \<Longrightarrow> j < ncols A \<Longrightarrow> cell (nd_map f A) i j = f (cell A i j)"
  by (simp add: cell_def nd_map_def nrows_def wf_array_def list_all_length)

lemma mask_assign_ok:
  assumes "shape M = shape A" "wf_array A" "wf_array M"
  shows "\<exists>B. mask_assign A M v = Inr B \<and> shape B = shape A \<and> wf_array B
           \<and> (\<forall>i<nrows A. \<forall>j<ncols A. cell B i j = (if cell M i j then v else cell A i j))"
  using assms
  by (simp add: mask_assign_def shape_def nrows_def wf_array_def cell_def list_all_length)

lemma ebind_Inl [simp]: "ebind (Inl e) f = Inl e"
  by (simp add: ebind_def)

lemma ebind_Inr [simp]: "ebind (Inr x) f = f x"
  by (simp add: ebind_def)

lemma py_assert_True [simp]: "py_assert True = Inr ()"
  by (simp add: py_assert_def)

lemma py_assert_False [simp]: "py_assert False = Inl AssertionError"
  by (simp add: py_assert_def)

lemma nrows_tabulate [simp]: "nrows (tabulate r c f) = r"
  by (simp add: nrows_def tabulate_def)

lemma ncols_tabulate [simp]: "ncols (tabulate r c f) = c"
  by (simp add: tabulate_def)

lemma shape_tabulate [simp]: "shape (tabulate r c f) = (r, c)"
  by (simp add: shape_def)

lemma wf_tabulate [simp]: "wf_array (tabulate r c f)"
  by (simp add: wf_array_def tabulate_def list_all_length)

lemma cell_tabulate [simp]: "i < r \<Longrightarrow> j < c \<Longrightarrow> cell (tabulate r c f) i j = f i j"
  by (simp add: cell_def tabulate_def)

lemma tabulate_cong:
  "(\<And>i j. i < r \<Longrightarrow> j < c \<Longrightarrow> f i j = g i j) \<Longrightarrow> tabulate r c f = tabulate r c g"
  by (simp add: tabulate_def)

lemma ndarray_eqI:
  assumes "wf_array A" "wf_array B" "shape A = shape B"
    and "\<And>i j. i < nrows A \<Longrightarrow> j < ncols A \<Longrightarrow> cell A i j = cell B i j"
  shows "A = B"
proof -
  have "rows A = rows B"
  proof (rule nth_equalityI)
    show "length (rows A) = length (rows B)"
      using assms(3) by (simp add: shape_def nrows_def)
  next
    fix i assume i: "i < length (rows A)"
    then have iB: "i < nrows B" "i < nrows A" using assms(3) by (simp_all add: shape_def nrows_def)
    show "rows A ! i = rows B ! i"
    proof (rule nth_equalityI)
      show "length (rows A ! i) = length (rows B ! i)"
        using wf_array_row [OF assms(1) iB(2)] wf_array_row [OF assms(2) iB(1)] assms(3)
        by (simp add: shape_def)
    next
      fix j assume "j < length (rows A ! i)"
      then have "j < ncols A" using wf_array_row [OF assms(1) iB(2)] by simp
      from assms(4) [OF iB(2) this] show "rows A ! i ! j = rows B ! i ! j"
        by (simp add: cell_def)
    qed
  qed
  moreover have "ncols A = ncols B" using assms(3) by (simp add: shape_def)
  ultimately show ?thesis by (simp add: ndarray.expand)
qed

lemma tabulate_cells: "wf_array A \<Longrightarrow> tabulate (nrows A) (ncols A) (cell A) = A"
  by (rule ndarray_eqI) (simp_all add: shape_def)

lemma sum_list_upt: "(\<Sum>k\<leftarrow>[0..<n]. f k) = (\<Sum>k<n. f k)"
  by (simp add: interv_sum_list_conv_sum_set_nat atLeast0LessThan)

lemma shape_nd_T [simp]: "shape (nd_T A) = (ncols A, nrows A)"
  by (simp add: nd_T_def)

lemma nrows_nd_T [simp]: "nrows (nd_T A) = ncols A"
  by (simp add: nd_T_def)

lemma ncols_nd_T [simp]: "ncols (nd_T A) = nrows A"
  by (simp add: nd_T_def)

lemma wf_nd_T [simp]: "wf_array (nd_T A)"
  by (simp add: nd_T_def)

lemma cell_nd_T [simp]: "i < ncols A \<Longrightarrow> j < nrows A \<Longrightarrow> cell (nd_T A) i j = cell A j i"
  by (simp add: nd_T_def)

lemma nrows_nd_map [simp]: "nrows (nd_map f A) = nrows A"
  by (simp add: nrows_def nd_map_def)

lemma ncols_nd_map [simp]: "ncols (nd_map f A) = ncols A"
  by (simp add: nd_map_def)

lemma np_dot_ok:
  "ncols A = nrows B \<Longrightarrow>
   np_dot A B = Inr (tabulate (nrows A) (ncols B) (\<lambda>i j. \<Sum>k<ncols A. cell A i k * cell B k j))"
  by (simp add: np_dot_def sum_list_upt)

lemma bdim_same [simp]: "bdim a a = Some a"
  by (simp add: bdim_def)

lemma bidx_lt: "i < d \<Longrightarrow> bidx d i = i"
  by (auto simp: bidx_def)

lemma broadcast2_same_shape:
  "shape A = shape B \<Longrightarrow>
   broadcast2 f A B = Inr (tabulate (nrows A) (ncols A) (\<lambda>i j. f (cell A i j) (cell B i j)))"
  by (auto simp: broadcast2_def shape_def bidx_lt intro!: tabulate_cong)

lemma nrows_sum_axis1 [simp]: "nrows (np_sum_axis1_keepdims A) = nrows A"
  by (simp add: np_sum_axis1_keepdims_def nrows_def)

lemma ncols_sum_axis1 [simp]: "ncols (np_sum_axis1_keepdims A) = 1"
  by (simp add: np_sum_axis1_keepdims_def)

lemma wf_sum_axis1 [simp]: "wf_array (np_sum_axis1_keepdims A)"
  by (simp add: np_sum_axis1_keepdims_def wf_array_def list_all_length)

lemma cell_sum_axis1:
  assumes "wf_array A" "i < nrows A"
  shows "cell (np_sum_axis1_keepdims A) i 0 = (\<Sum>l<ncols A. cell A i l)"
proof -
  have len: "length (rows A ! i) = ncols A"
    using assms by (rule wf_array_row)
  have "sum_list (rows A ! i) = (\<Sum>l\<leftarrow>[0..<length (rows A ! i)]. rows A ! i ! l)"
    by (simp add: sum_list_sum_nth atLeast0LessThan sum_list_upt)
  with len assms(2) show ?thesis
    by (simp add: np_sum_axis1_keepdims_def cell_def nrows_def sum_list_upt)
qed

section \<open>Facts about keys and dictionaries\<close>

declare str.simps [simp del]

lemma digit_char_inj: "a < 10 \<Longrightarrow> b < 10 \<Longrightarrow> digit_char a = digit_char b \<longleftrightarrow> a = b"
  by (auto simp: digit_char_def char_of_quasi_inj)

lemma str_nonempty: "str n \<noteq> []"
  by (subst str.simps) simp

lemma str_inj: "str a = str b \<longleftrightarrow> a = b"
proof (induction a arbitrary: b rule: str.induct)
  case (1 n)
  show ?case
  proof (cases "n < 10")
    case True
    show ?thesis
    proof (cases "b < 10")
      case bs: True
      with True show ?thesis
        by (simp add: str.simps [of n] str.simps [of b] digit_char_inj)
    next
      case False
      with True str_nonempty [of "b div 10"] show ?thesis
        by (auto simp: str.simps [of n] str.simps [of b])
    qed
  next
    case nb: False
    show ?thesis
    proof (cases "b < 10")
      case True
      with nb str_nonempty [of "n div 10"] show ?thesis
        by (auto simp: str.simps [of n] str.simps [of b])
    next
      case False
      have "str n = str b \<longleftrightarrow> str (n div 10) = str (b div 10) \<and> digit_char (n mod 10) = digit_char (b mod 10)"
        using nb False by (simp add: str.simps [of n] str.simps [of b])
      also have "\<dots> \<longleftrightarrow> n div 10 = b div 10 \<and> n mod 10 = b mod 10"
        using "1.IH" [OF nb] by (simp add: digit_char_inj)
      also have "\<dots> \<longleftrightarrow> n = b"
        by (metis div_mult_mod_eq)
      finally show ?thesis .
    qed
  qed
qed

lemma key_eq [simp]: "p @ str a = p @ str b \<longleftrightarrow> a = b"
  by (simp add: str_inj)

lemma getitem_setitem: "getitem (setitem d k v) k' = (if k' = k then Inr v else getitem d k')"
  by (simp add: getitem_def setitem_def update_conv')

lemma getitem_Nil [simp]: "getitem [] k = Inl KeyError"
  by (simp add: getitem_def)

section \<open>Arithmetic on arrays of one shape\<close>

lemma tabulate_cong2:
  "r = r' \<Longrightarrow> c = c' \<Longrightarrow> (\<And>i j. i < r' \<Longrightarrow> j < c' \<Longrightarrow> f i j = g i j)
   \<Longrightarrow> tabulate r c f = tabulate r' c' g"
  by (simp add: tabulate_def)

lemma nd_map_tabulate: "nd_map f (tabulate r c g) = tabulate r c (\<lambda>i j. f (g i j))"
  by (simp add: nd_map_def tabulate_def)

lemma nd_map_as_tabulate:
  "wf_array A \<Longrightarrow> nd_map f A = tabulate (nrows A) (ncols A) (\<lambda>i j. f (cell A i j))"
  by (rule ndarray_eqI) (simp_all add: shape_def cell_nd_map)

lemma nd_sub_same_shape:
  "shape A = shape B \<Longrightarrow>
   nd_sub A B = Inr (tabulate (nrows A) (ncols A) (\<lambda>i j. cell A i j - cell B i j))"
  by (simp add: nd_sub_def broadcast2_same_shape)

lemma nd_add_same_shape:
  "shape A = shape B \<Longrightarrow>
   nd_add A B = Inr (tabulate (nrows A) (ncols A) (\<lambda>i j. cell A i j + cell B i j))"
  by (simp add: nd_add_def broadcast2_same_shape)

lemma nd_mul_same_shape:
  "shape A = shape B \<Longrightarrow>
   nd_mul A B = Inr (tabulate (nrows A) (ncols A) (\<lambda>i j. cell A i j * cell B i j))"
  by (simp add: nd_mul_def broadcast2_same_shape)

lemma list_all_tabulate:
  "list_all (list_all Q) (rows (tabulate r c f)) \<longleftrightarrow> (\<forall>i<r. \<forall>j<c. Q (f i j))"
  by (auto simp: tabulate_def list_all_iff)

lemma nd_div_same_shape:
  assumes "shape A = shape B" "\<And>i j. i < nrows A \<Longrightarrow> j < ncols A \<Longrightarrow> cell B i j \<noteq> 0"
  shows "nd_div A B = Inr (tabulate (nrows A) (ncols A) (\<lambda>i j. cell A i j / cell B i j))"
  using assms by (simp add: nd_div_def broadcast2_same_shape list_all_tabulate nd_map_tabulate)

lemma nd_div_zero_divisor:
  assumes "shape A = shape B" "i < nrows A" "j < ncols A" "cell B i j = 0"
  shows "nd_div A B = Inl NonFinite"
  using assms by (auto simp: nd_div_def broadcast2_same_shape list_all_tabulate)

section \<open>The update loop\<close>

lemma update_layer_ok:
  assumes W: "getitem d (''W'' @ str l) = Inr W" and dW: "getitem grads (''dW'' @ str l) = Inr dW"
    and b: "getitem d (''b'' @ str l) = Inr b" and db: "getitem grads (''db'' @ str l) = Inr db"
    and wf: "wf_array W" "wf_array dW" "wf_array db"
    and sh: "shape dW = shape W" "shape db = shape b"
  shows "update_layer grads lr L2 l d
           = Inr (setitem (setitem d (''W'' @ str l) (updated_W lr L2 W dW))
                    (''b'' @ str l) (updated_b lr b db))"
proof -
  have dims: "nrows dW = nrows W" "ncols dW = ncols W" "nrows db = nrows b" "ncols db = ncols b"
    using sh by (simp_all add: shape_def)
  have b': "getitem (setitem d (''W'' @ str l) V) (''b'' @ str l) = Inr b" for V
    using b by (simp add: getitem_setitem)
  have s1: "nd_sub W (nd_map (\<lambda>x. lr * x) dW) = Inr (updated_W lr False W dW)"
    using wf dims
    by (simp add: nd_sub_same_shape shape_def updated_W_def cell_nd_map cong: tabulate_cong2)
  have a2: "nd_add dW (nd_map (\<lambda>x. lr * x) W)
              = Inr (tabulate (nrows W) (ncols W) (\<lambda>i j. cell dW i j + lr * cell W i j))"
    using wf dims
    by (simp add: nd_add_same_shape shape_def cell_nd_map cong: tabulate_cong2)
  have s2: "nd_sub W (nd_map (\<lambda>x. lr * x)
                 (tabulate (nrows W) (ncols W) (\<lambda>i j. cell dW i j + lr * cell W i j)))
              = Inr (updated_W lr True W dW)"
    by (simp add: nd_sub_same_shape shape_def updated_W_def nd_map_tabulate cong: tabulate_cong2)
  have s3: "nd_sub b (nd_map (\<lambda>x. lr * x) db) = Inr (updated_b lr b db)"
    using wf dims
    by (simp add: nd_sub_same_shape shape_def updated_b_def cell_nd_map cong: tabulate_cong2)
  show ?thesis
    using W dW b' db by (cases L2) (simp_all add: update_layer_def s1 a2 s2 s3)
qed


declare str_inj [simp]

lemma key_neq [simp]:
  "''W'' @ x \<noteq> ''b'' @ y" "''b'' @ x \<noteq> ''W'' @ y"
  "''dA'' @ x \<noteq> ''dW'' @ y" "''dW'' @ x \<noteq> ''dA'' @ y"
  "''dA'' @ x \<noteq> ''db'' @ y" "''db'' @ x \<noteq> ''dA'' @ y"
  "''dW'' @ x \<noteq> ''db'' @ y" "''db'' @ x \<noteq> ''dW'' @ y"
  by simp_all

lemma update_loop:
  assumes "distinct ls"
    and "\<And>l. l \<in> set ls \<Longrightarrow>
           getitem d (''W'' @ str l) = Inr (Ws l) \<and> getitem d (''b'' @ str l) = Inr (bs l)
         \<and> getitem grads (''dW'' @ str l) = Inr (dWs l)
         \<and> getitem grads (''db'' @ str l) = Inr (dbs l)
         \<and> wf_array (Ws l) \<and> wf_array (dWs l) \<and> wf_array (dbs l)
         \<and> shape (dWs l) = shape (Ws l) \<and> shape (dbs l) = shape (bs l)"
  shows "\<exists>d'. for_loop ls (update_layer grads lr L2) d = Inr d'
           \<and> (\<forall>l\<in>set ls. getitem d' (''W'' @ str l) = Inr (updated_W lr L2 (Ws l) (dWs l))
                          \<and> getitem d' (''b'' @ str l) = Inr (updated_b lr (bs l) (dbs l)))
           \<and> (\<forall>k. (\<forall>l\<in>set ls. k \<noteq> ''W'' @ str l \<and> k \<noteq> ''b'' @ str l)
                  \<longrightarrow> getitem d' k = getitem d k)"
  using assms
proof (induction ls arbitrary: d)
  case Nil
  then show ?case by simp
next
  case (Cons l ls)
  let ?d1 = "setitem (setitem d (''W'' @ str l) (updated_W lr L2 (Ws l) (dWs l)))
               (''b'' @ str l) (updated_b lr (bs l) (dbs l))"
  have here: "getitem d (''W'' @ str l) = Inr (Ws l)" "getitem d (''b'' @ str l) = Inr (bs l)"
    "getitem grads (''dW'' @ str l) = Inr (dWs l)" "getitem grads (''db'' @ str l) = Inr (dbs l)"
    "wf_array (Ws l)" "wf_array (dWs l)" "wf_array (dbs l)"
    "shape (dWs l) = shape (Ws l)" "shape (dbs l) = shape (bs l)"
    using Cons.prems(2) [of l] by simp_all
  have step: "update_layer grads lr L2 l d = Inr ?d1"
    using here by (intro update_layer_ok)
  have fresh: "l \<notin> set ls" and dist: "distinct ls"
    using Cons.prems(1) by simp_all
  have pre: "getitem ?d1 (''W'' @ str l') = Inr (Ws l') \<and> getitem ?d1 (''b'' @ str l') = Inr (bs l')
         \<and> getitem grads (''dW'' @ str l') = Inr (dWs l')
         \<and> getitem grads (''db'' @ str l') = Inr (dbs l')
         \<and> wf_array (Ws l') \<and> wf_array (dWs l') \<and> wf_array (dbs l')
         \<and> shape (dWs l') = shape (Ws l') \<and> shape (dbs l') = shape (bs l')"
    if "l' \<in> set ls" for l'
  proof -
    have "l' \<noteq> l" using that fresh by auto
    then show ?thesis
      using Cons.prems(2) [of l'] that by (simp add: getitem_setitem)
  qed
  from Cons.IH [OF dist pre]
  obtain d' where d': "for_loop ls (update_layer grads lr L2) ?d1 = Inr d'"
    and upd: "\<forall>l\<in>set ls. getitem d' (''W'' @ str l) = Inr (updated_W lr L2 (Ws l) (dWs l))
                          \<and> getitem d' (''b'' @ str l) = Inr (updated_b lr (bs l) (dbs l))"
    and frame: "\<forall>k. (\<forall>l\<in>set ls. k \<noteq> ''W'' @ str l \<and> k \<noteq> ''b'' @ str l)
                  \<longrightarrow> getitem d' k = getitem ?d1 k"
    by blast
  have run: "for_loop (l # ls) (update_layer grads lr L2) d = Inr d'"
    using step d' by simp
  have Wl: "getitem d' (''W'' @ str l) = Inr (updated_W lr L2 (Ws l) (dWs l))"
  proof -
    have "\<forall>l'\<in>set ls. ''W'' @ str l \<noteq> ''W'' @ str l' \<and> ''W'' @ str l \<noteq> ''b'' @ str l'"
      using fresh by auto
    with frame have "getitem d' (''W'' @ str l) = getitem ?d1 (''W'' @ str l)"
      by blast
    then show ?thesis by (simp add: getitem_setitem)
  qed
  have bl: "getitem d' (''b'' @ str l) = Inr (updated_b lr (bs l) (dbs l))"
  proof -
    have "\<forall>l'\<in>set ls. ''b'' @ str l \<noteq> ''W'' @ str l' \<and> ''b'' @ str l \<noteq> ''b'' @ str l'"
      using fresh by auto
    with frame have "getitem d' (''b'' @ str l) = getitem ?d1 (''b'' @ str l)"
      by blast
    then show ?thesis by (simp add: getitem_setitem)
  qed
  have fr: "getitem d' k = getitem d k"
    if k: "\<forall>l'\<in>set (l # ls). k \<noteq> ''W'' @ str l' \<and> k \<noteq> ''b'' @ str l'" for k
  proof -
    from k have "\<forall>l'\<in>set ls. k \<noteq> ''W'' @ str l' \<and> k \<noteq> ''b'' @ str l'"
      by simp
    with frame have "getitem d' k = getitem ?d1 k"
      by blast
    moreover from k have "k \<noteq> ''W'' @ str l" "k \<noteq> ''b'' @ str l"
      by simp_all
    ultimately show ?thesis by (simp add: getitem_setitem)
  qed
  show ?case
    using run Wl bl upd fr by auto
qed

lemma str_1: "str 1 = ''1''" and str_2: "str 2 = ''2''" and str_3: "str 3 = ''3''"
  by code_simp+

lemma str_Suc_0: "str (Suc 0) = ''1''"
  using str_1 by simp

section \<open>The cost\<close>

lemma np_sum_tabulate: "np_sum (tabulate r c f) = (\<Sum>i<r. \<Sum>j<c. f i j)"
proof -
  have "np_sum (tabulate r c f) = (\<Sum>i\<leftarrow>[0..<r]. \<Sum>j\<leftarrow>[0..<c]. f i j)"
    by (simp add: np_sum_def tabulate_def o_def)
  then show ?thesis
    by (simp add: sum_list_upt)
qed

lemma compute_cost_sum:
  assumes "wf_array AL" "shape AL = (k, m)" "shape Y = (k, m)" "0 < m"
  shows "compute_cost AL Y
           = Inr (- (1 / real m) * (\<Sum>i<k. \<Sum>j<m. cell Y i j * ln (clipped (cell AL i j))))"
proof -
  have dims: "nrows AL = k" "ncols AL = m" "nrows Y = k" "ncols Y = m"
    using assms by (simp_all add: shape_def)
  let ?pred = "np_clip AL (1 / 10 ^ 10) (1 - 1 / 10 ^ 10)"
  have "shape Y = shape (nd_map ln ?pred)"
    using assms by (simp add: np_clip_def)
  then have "nd_mul Y (nd_map ln ?pred)
               = Inr (tabulate k m (\<lambda>i j. cell Y i j * cell (nd_map ln ?pred) i j))"
    using dims by (simp add: nd_mul_same_shape)
  also have "tabulate k m (\<lambda>i j. cell Y i j * cell (nd_map ln ?pred) i j)
               = tabulate k m (\<lambda>i j. cell Y i j * ln (clipped (cell AL i j)))"
    using assms(1) dims
    by (intro tabulate_cong) (simp add: np_clip_def cell_nd_map clipped_def)
  finally have mul: "nd_mul Y (nd_map ln ?pred)
      = Inr (tabulate k m (\<lambda>i j. cell Y i j * ln (clipped (cell AL i j))))" .
  have "py_truediv (- 1) (ncols Y) = Inr (- (1 / real m))"
    using assms(4) dims by (simp add: py_truediv_def)
  then show ?thesis
    using assms(2,3) mul by (simp add: compute_cost_def Let_def np_sum_tabulate)
qed

lemma one_hot_column_sum:
  assumes "one_hot Y" "j < ncols Y"
  shows "(\<Sum>i<nrows Y. cell Y i j * g i j)
           = (\<Sum>i<nrows Y. if cell Y i j = 1 then g i j else 0)"
    and "(\<Sum>i<nrows Y. cell Y i j) = 1"
    and "\<forall>i<nrows Y. cell Y i j = 0 \<or> cell Y i j = 1"
proof -
  from assms obtain c where c: "c < nrows Y" "\<forall>i<nrows Y. cell Y i j = (if i = c then 1 else 0)"
    by (auto simp: one_hot_def)
  show "(\<Sum>i<nrows Y. cell Y i j * g i j) = (\<Sum>i<nrows Y. if cell Y i j = 1 then g i j else 0)"
    using c by (intro sum.cong) auto
  have "(\<Sum>i<nrows Y. cell Y i j) = (\<Sum>i<nrows Y. if i = c then 1 else 0)"
    using c by (intro sum.cong) auto
  also have "\<dots> = 1"
    using c(1) by simp
  finally show "(\<Sum>i<nrows Y. cell Y i j) = 1" .
  show "\<forall>i<nrows Y. cell Y i j = 0 \<or> cell Y i j = 1"
    using c by auto
qed

lemma clipped_inside: "1 / 10 ^ 10 \<le> x \<Longrightarrow> x \<le> 1 - 1 / 10 ^ 10 \<Longrightarrow> clipped x = x"
  by (simp add: clipped_def)

lemma clipped_one: "clipped 1 = 1 - 1 / 10 ^ 10"
  by (simp add: clipped_def)

lemma neg_ln_floor:
  "0 < - ln (1 - 1 / 10 ^ 10 :: real)" "- ln (1 - 1 / 10 ^ 10 :: real) \<le> 2 / 10 ^ 10"
proof -
  let ?e = "1 / 10 ^ 10 :: real"
  show "0 < - ln (1 - ?e)"
    by (simp add: ln_less_zero)
  have "- ?e - 2 * ?e\<^sup>2 \<le> ln (1 - ?e)"
    by (rule ln_one_minus_pos_lower_bound) simp_all
  moreover have "?e + 2 * ?e\<^sup>2 \<le> 2 * ?e"
    by (simp add: power2_eq_square)
  ultimately show "- ln (1 - ?e) \<le> 2 / 10 ^ 10"
    by linarith
qed


lemma one_hot_column_pick:
  assumes "one_hot Y" "j < ncols Y"
  shows "(\<Sum>i<nrows Y. cell Y i j * h (cell Y i j)) = h 1"
proof -
  from assms obtain c where c: "c < nrows Y" "\<forall>i<nrows Y. cell Y i j = (if i = c then 1 else 0)"
    by (auto simp: one_hot_def)
  have "(\<Sum>i<nrows Y. cell Y i j * h (cell Y i j)) = (\<Sum>i<nrows Y. if i = c then h 1 else 0)"
    using c by (intro sum.cong) auto
  also have "\<dots> = h 1"
    using c(1) by simp
  finally show ?thesis .
qed

lemma one_hot_identity2: "one_hot (NDArray 2 [[1, 0], [0, 1]])"
  unfolding one_hot_def
proof (intro allI impI)
  fix j assume "j < ncols (NDArray 2 [[1, 0], [0, 1 :: real]])"
  then consider "j = 0" | "j = 1" by fastforce
  then show "\<exists>c<nrows (NDArray 2 [[1, 0], [0, 1 :: real]]).
               \<forall>i<nrows (NDArray 2 [[1, 0], [0, 1]]).
                 cell (NDArray 2 [[1, 0], [0, 1]]) i j = (if i = c then 1 else 0)"
  proof cases
    case 1
    then show ?thesis
      by (intro exI [of _ 0]) (auto simp: nrows_def cell_def less_Suc_eq)
  next
    case 2
    then show ?thesis
      by (intro exI [of _ 1]) (auto simp: nrows_def cell_def less_Suc_eq)
  qed
qed

lemma one_hot_single: "one_hot (NDArray 1 [[1]])"
  by (simp add: one_hot_def nrows_def cell_def)

section \<open>Initialization\<close>




lemma init_layer_ok:
  assumes "0 < layers_dim ! i" "0 \<le> layers_dim ! (i - 1)"
  shows "init_layer rnd layers_dim i (pos, d)
           = Inr (pos + nat (layers_dim ! i) * nat (layers_dim ! (i - 1)),
                  setitem (setitem d (''W'' @ str i) (initial_W rnd pos layers_dim i))
                    (''b'' @ str i) (tabulate (nat (layers_dim ! i)) 1 (\<lambda>r c. 0)))"
  using assms
  by (simp add: init_layer_def np_random_uniform_def initial_W_def Let_def)



section \<open>The loop over the epochs\<close>

lemma epoch_loop_converged:
  assumes traj: "\<And>e. k \<le> e \<Longrightarrow> e \<le> e0 \<Longrightarrow>
                   train (s e) = Inr (s (Suc e)) \<and> validate (s (Suc e)) = Inr (a (Suc e))"
    and before: "\<And>e. k \<le> e \<Longrightarrow> e < e0 \<Longrightarrow> \<not> not_improving (a (Suc e)) (a e)"
    and at: "not_improving (a (Suc e0)) (a e0)"
    and range: "k \<le> e0" "e0 < n"
  shows "epoch_loop train validate [k..<n]
           \<lparr>trained = s k, current_accuracy = c, prev_accuracy = a k, stop_sign = False,
            iteration = it\<rparr>
         = Inr \<lparr>trained = s (Suc e0), current_accuracy = a (Suc e0), prev_accuracy = a e0,
                stop_sign = True, iteration = Some e0\<rparr>"
  using assms
proof (induction "e0 - k" arbitrary: k c it)
  case 0
  then have k: "k = e0" by simp
  have list: "[k..<n] = k # [Suc k..<n]"
    using "0.prems"(5) k by (simp add: upt_conv_Cons)
  have "train (s k) = Inr (s (Suc k))" "validate (s (Suc k)) = Inr (a (Suc k))"
    using "0.prems"(1) [of k] k by simp_all
  then show ?case
    unfolding list using "0.prems"(3) k by simp
next
  case (Suc d)
  then have lt: "k < e0" by simp
  have list: "[k..<n] = k # [Suc k..<n]"
    using lt Suc.prems(5) by (simp add: upt_conv_Cons)
  have step: "train (s k) = Inr (s (Suc k))" "validate (s (Suc k)) = Inr (a (Suc k))"
    using Suc.prems(1) [of k] lt by simp_all
  have go: "\<not> not_improving (a (Suc k)) (a k)"
    using Suc.prems(2) [of k] lt by simp
  have d: "d = e0 - Suc k" using Suc.hyps(2) by simp
  have rest: "epoch_loop train validate [Suc k..<n]
           \<lparr>trained = s (Suc k), current_accuracy = a (Suc k), prev_accuracy = a (Suc k),
            stop_sign = False, iteration = Some k\<rparr>
         = Inr \<lparr>trained = s (Suc e0), current_accuracy = a (Suc e0), prev_accuracy = a e0,
                stop_sign = True, iteration = Some e0\<rparr>"
  proof (rule Suc.hyps(1) [OF d])
    show "train (s e) = Inr (s (Suc e)) \<and> validate (s (Suc e)) = Inr (a (Suc e))"
      if "Suc k \<le> e" "e \<le> e0" for e
      using Suc.prems(1) [of e] that by simp
    show "\<not> not_improving (a (Suc e)) (a e)" if "Suc k \<le> e" "e < e0" for e
      using Suc.prems(2) [of e] that by simp
    show "not_improving (a (Suc e0)) (a e0)" by (rule Suc.prems(3))
    show "Suc k \<le> e0" using lt by simp
    show "e0 < n" by (rule Suc.prems(5))
  qed
  show ?case
    unfolding list using step go rest by simp
qed

lemma epoch_loop_exhausted:
  assumes traj: "\<And>e. k \<le> e \<Longrightarrow> e < n \<Longrightarrow>
                   train (s e) = Inr (s (Suc e)) \<and> validate (s (Suc e)) = Inr (a (Suc e))"
    and never: "\<And>e. k \<le> e \<Longrightarrow> e < n \<Longrightarrow> \<not> not_improving (a (Suc e)) (a e)"
    and range: "k < n"
  shows "epoch_loop train validate [k..<n]
           \<lparr>trained = s k, current_accuracy = c, prev_accuracy = a k, stop_sign = False,
            iteration = it\<rparr>
         = Inr \<lparr>trained = s n, current_accuracy = a n, prev_accuracy = a n,
                stop_sign = False, iteration = Some (n - 1)\<rparr>"
  using assms
proof (induction "n - k" arbitrary: k c it)
  case 0
  then show ?case by simp
next
  case (Suc d)
  have list: "[k..<n] = k # [Suc k..<n]"
    using Suc.prems(3) by (simp add: upt_conv_Cons)
  have step: "train (s k) = Inr (s (Suc k))" "validate (s (Suc k)) = Inr (a (Suc k))"
    using Suc.prems(1) [of k] Suc.prems(3) by simp_all
  have go: "\<not> not_improving (a (Suc k)) (a k)"
    using Suc.prems(2) [of k] Suc.prems(3) by simp
  show ?case
  proof (cases "Suc k < n")
    case True
    have d: "d = n - Suc k" using Suc.hyps(2) by simp
    have "epoch_loop train validate [Suc k..<n]
           \<lparr>trained = s (Suc k), current_accuracy = a (Suc k), prev_accuracy = a (Suc k),
            stop_sign = False, iteration = Some k\<rparr>
         = Inr \<lparr>trained = s n, current_accuracy = a n, prev_accuracy = a n,
                stop_sign = False, iteration = Some (n - 1)\<rparr>"
    proof (rule Suc.hyps(1) [OF d])
      show "train (s e) = Inr (s (Suc e)) \<and> validate (s (Suc e)) = Inr (a (Suc e))"
        if "Suc k \<le> e" "e < n" for e
        using Suc.prems(1) [of e] that by simp
      show "\<not> not_improving (a (Suc e)) (a e)" if "Suc k \<le> e" "e < n" for e
        using Suc.prems(2) [of e] that by simp
      show "Suc k < n" by (rule True)
    qed
    then show ?thesis
      unfolding list using step go by simp
  next
    case False
    then have n: "n = Suc k" using Suc.prems(3) by simp
    show ?thesis
      unfolding list using step go by (simp add: n)
  qed
qed


lemma synthetic_steps:
  "\<not> not_improving (Some (synthetic_accuracy 1)) (Some 0)"
  "\<not> not_improving (Some (synthetic_accuracy 2)) (Some (synthetic_accuracy 1))"
  "not_improving (Some (synthetic_accuracy 3)) (Some (synthetic_accuracy 2))"
  by (simp_all add: not_improving_def synthetic_accuracy_def)

lemma synthetic_run:
  assumes "3 \<le> m"
  shows "epoch_loop (\<lambda>k. Inr (Suc k)) (\<lambda>k. Inr (Some (synthetic_accuracy k))) [0..<m]
           \<lparr>trained = 0, current_accuracy = Some 0, prev_accuracy = Some 0, stop_sign = False,
            iteration = it\<rparr>
         = Inr \<lparr>trained = 3, current_accuracy = Some (synthetic_accuracy 3),
                prev_accuracy = Some (synthetic_accuracy 2), stop_sign = True,
                iteration = Some 2\<rparr>"
proof -
  have "epoch_loop (\<lambda>k. Inr (Suc k)) (\<lambda>k. Inr (Some (synthetic_accuracy k))) [0..<m]
           \<lparr>trained = id 0, current_accuracy = Some 0, prev_accuracy = synthetic_trace 0,
            stop_sign = False, iteration = it\<rparr>
         = Inr \<lparr>trained = id (Suc 2), current_accuracy = synthetic_trace (Suc 2),
                prev_accuracy = synthetic_trace 2, stop_sign = True, iteration = Some 2\<rparr>"
  proof (rule epoch_loop_converged)
    show "Inr (Suc (id e)) = Inr (id (Suc e))
            \<and> Inr (Some (synthetic_accuracy (id (Suc e)))) = Inr (synthetic_trace (Suc e))" for e
      by (simp add: synthetic_trace_def)
    show "\<not> not_improving (synthetic_trace (Suc e)) (synthetic_trace e)" if "e < 2" for e
    proof -
      from that consider "e = 0" | "e = 1" by fastforce
      then show ?thesis
        using synthetic_steps by cases (simp_all add: synthetic_trace_def numeral_2_eq_2)
    qed
    show "not_improving (synthetic_trace (Suc 2)) (synthetic_trace 2)"
      using synthetic_steps(3) by (simp add: synthetic_trace_def numeral_3_eq_3)
    show "(0 :: nat) \<le> 2" by simp
    show "2 < m" using assms by simp
  qed
  then show ?thesis
    by (simp add: synthetic_trace_def numeral_3_eq_3)
qed

lemma synthetic_short_run:
  assumes "0 < m" "m < 3"
  shows "epoch_loop (\<lambda>k. Inr (Suc k)) (\<lambda>k. Inr (Some (synthetic_accuracy k))) [0..<m]
           \<lparr>trained = 0, current_accuracy = Some 0, prev_accuracy = Some 0, stop_sign = False,
            iteration = it\<rparr>
         = Inr \<lparr>trained = m, current_accuracy = Some (synthetic_accuracy m),
                prev_accuracy = Some (synthetic_accuracy m), stop_sign = False,
                iteration = Some (m - 1)\<rparr>"
proof -
  have "epoch_loop (\<lambda>k. Inr (Suc k)) (\<lambda>k. Inr (Some (synthetic_accuracy k))) [0..<m]
           \<lparr>trained = id 0, current_accuracy = Some 0, prev_accuracy = synthetic_trace 0,
            stop_sign = False, iteration = it\<rparr>
         = Inr \<lparr>trained = id m, current_accuracy = synthetic_trace m,
                prev_accuracy = synthetic_trace m, stop_sign = False, iteration = Some (m - 1)\<rparr>"
  proof (rule epoch_loop_exhausted)
    show "Inr (Suc (id e)) = Inr (id (Suc e))
            \<and> Inr (Some (synthetic_accuracy (id (Suc e)))) = Inr (synthetic_trace (Suc e))" for e
      by (simp add: synthetic_trace_def)
    show "\<not> not_improving (synthetic_trace (Suc e)) (synthetic_trace e)" if "e < m" for e
    proof -
      from that assms consider "e = 0" | "e = 1" by fastforce
      then show ?thesis
        using synthetic_steps by cases (simp_all add: synthetic_trace_def numeral_2_eq_2)
    qed
    show "0 < m" by (rule assms)
  qed
  then show ?thesis
    using assms by (simp add: synthetic_trace_def)
qed

section \<open>The output gradient and the softmax step\<close>

lemma bdim_one_right [simp]: "bdim a (Suc 0) = Some a"
  by (simp add: bdim_def)

lemma bidx_one [simp]: "bidx (Suc 0) i = 0"
  by (simp add: bidx_def)

lemma broadcast2_row:
  assumes "nrows B = 1" "ncols B = ncols A"
  shows "broadcast2 f A B
           = Inr (tabulate (nrows A) (ncols A) (\<lambda>i j. f (cell A i j) (cell B 0 j)))"
  using assms by (auto simp: broadcast2_def bidx_lt intro!: tabulate_cong)

lemma nd_div_row:
  assumes "nrows B = 1" "ncols B = ncols A"
    and "\<And>j. 0 < nrows A \<Longrightarrow> j < ncols A \<Longrightarrow> cell B 0 j \<noteq> 0"
  shows "nd_div A B = Inr (tabulate (nrows A) (ncols A) (\<lambda>i j. cell A i j / cell B 0 j))"
proof -
  have "\<forall>i<nrows A. \<forall>j<ncols A. cell B 0 j \<noteq> 0"
    using assms(3) by auto
  then show ?thesis
    using assms(1,2) by (simp add: nd_div_def broadcast2_row list_all_tabulate nd_map_tabulate)
qed

lemma concat_nth_uniform:
  assumes "list_all (\<lambda>r. length r = c) xss" "i < length xss" "j < c"
  shows "concat xss ! (i * c + j) = xss ! i ! j"
  using assms
proof (induction xss arbitrary: i)
  case Nil
  then show ?case by simp
next
  case (Cons x xss)
  show ?case
  proof (cases i)
    case 0
    then show ?thesis using Cons.prems by (simp add: nth_append)
  next
    case (Suc i')
    have "concat (x # xss) ! (i * c + j) = (x @ concat xss) ! (c + (i' * c + j))"
      using Suc by (simp add: algebra_simps)
    also have "\<dots> = concat xss ! (i' * c + j)"
      using Cons.prems(1) by (simp add: nth_append)
    also have "\<dots> = xss ! i' ! j"
      using Cons.prems Suc by (intro Cons.IH) simp_all
    finally show ?thesis using Suc by simp
  qed
qed

lemma reshape_same: "wf_array A \<Longrightarrow> reshape A (shape A) = Inr A"
proof -
  assume wf: "wf_array A"
  have "tabulate (nrows A) (ncols A) (\<lambda>i j. concat (rows A) ! (i * ncols A + j))
          = tabulate (nrows A) (ncols A) (cell A)"
    using wf
    by (intro tabulate_cong) (simp add: concat_nth_uniform wf_array_def nrows_def cell_def)
  then show ?thesis
    using wf by (simp add: reshape_def shape_def tabulate_cells)
qed

lemma initial_gradient_cells:
  assumes "wf_array AL" "wf_array Y" "shape AL = (k, m)" "shape Y = (k, m)"
    and inside: "\<And>i j. i < k \<Longrightarrow> j < m \<Longrightarrow> cell AL i j \<noteq> 0 \<and> cell AL i j \<noteq> 1"
  shows "initial_gradient AL Y
           = Inr (tabulate k m
                   (\<lambda>i j. - (cell Y i j / cell AL i j - (1 - cell Y i j) / (1 - cell AL i j))))"
proof -
  have dims: "nrows AL = k" "ncols AL = m" "nrows Y = k" "ncols Y = m"
    using assms by (simp_all add: shape_def)
  have r: "reshape Y (shape AL) = Inr Y"
    using reshape_same [OF assms(2)] assms(3,4) by simp
  have q1: "nd_div Y AL = Inr (tabulate k m (\<lambda>i j. cell Y i j / cell AL i j))"
    using nd_div_same_shape [of Y AL] assms(1-4) inside dims by simp
  have "nd_div (nd_map (\<lambda>y. 1 - y) Y) (nd_map (\<lambda>a. 1 - a) AL)
          = Inr (tabulate k m
                  (\<lambda>i j. cell (nd_map (\<lambda>y. 1 - y) Y) i j / cell (nd_map (\<lambda>a. 1 - a) AL) i j))"
    using nd_div_same_shape [of "nd_map (\<lambda>y. 1 - y) Y" "nd_map (\<lambda>a. 1 - a) AL"]
      assms(1-4) inside dims
    by (simp add: cell_nd_map)
  also have "tabulate k m
               (\<lambda>i j. cell (nd_map (\<lambda>y. 1 - y) Y) i j / cell (nd_map (\<lambda>a. 1 - a) AL) i j)
             = tabulate k m (\<lambda>i j. (1 - cell Y i j) / (1 - cell AL i j))"
    using assms(1,2) dims by (intro tabulate_cong2) (simp_all add: cell_nd_map)
  finally have q2: "nd_div (nd_map (\<lambda>y. 1 - y) Y) (nd_map (\<lambda>a. 1 - a) AL)
              = Inr (tabulate k m (\<lambda>i j. (1 - cell Y i j) / (1 - cell AL i j)))" .
  have d: "nd_sub (tabulate k m (\<lambda>i j. cell Y i j / cell AL i j))
                  (tabulate k m (\<lambda>i j. (1 - cell Y i j) / (1 - cell AL i j)))
             = Inr (tabulate k m
                     (\<lambda>i j. cell Y i j / cell AL i j - (1 - cell Y i j) / (1 - cell AL i j)))"
    by (simp add: nd_sub_same_shape cong: tabulate_cong2)
  show ?thesis
    by (simp add: initial_gradient_def r q1 q2 d nd_map_tabulate)
qed

lemma initial_gradient_nonfinite:
  assumes "wf_array AL" "wf_array Y" "shape AL = (k, m)" "shape Y = (k, m)"
    and "i < k" "j < m" "cell AL i j = 0 \<or> cell AL i j = 1"
  shows "initial_gradient AL Y = Inl NonFinite"
proof -
  have dims: "nrows AL = k" "ncols AL = m" "nrows Y = k" "ncols Y = m"
    using assms by (simp_all add: shape_def)
  have r: "reshape Y (shape AL) = Inr Y"
    using reshape_same [OF assms(2)] assms(3,4) by simp
  show ?thesis
  proof (cases "\<exists>i<k. \<exists>j<m. cell AL i j = 0")
    case True
    then obtain i' j' where "i' < k" "j' < m" "cell AL i' j' = 0"
      by blast
    then have "nd_div Y AL = Inl NonFinite"
      using nd_div_zero_divisor [of Y AL i' j'] assms(3,4) dims by simp
    then show ?thesis
      by (simp add: initial_gradient_def r)
  next
    case False
    then have nz: "cell AL i' j' \<noteq> 0" if "i' < nrows Y" "j' < ncols Y" for i' j'
      using that dims by auto
    have q1: "nd_div Y AL = Inr (tabulate k m (\<lambda>i j. cell Y i j / cell AL i j))"
      using nd_div_same_shape [of Y AL, OF _ nz] assms(3,4) dims by simp
    from False assms(5-7) have one: "cell AL i j = 1"
      by blast
    have "cell (nd_map (\<lambda>a. 1 - a) AL) i j = 0"
      using one assms(1,5,6) dims by (simp add: cell_nd_map)
    then have "nd_div (nd_map (\<lambda>y. 1 - y) Y) (nd_map (\<lambda>a. 1 - a) AL) = Inl NonFinite"
      using nd_div_zero_divisor [of "nd_map (\<lambda>y. 1 - y) Y" "nd_map (\<lambda>a. 1 - a) AL" i j]
        assms(3-6) dims
      by simp
    then show ?thesis
      by (simp add: initial_gradient_def r q1)
  qed
qed

lemma softmax_forward_cells:
  assumes "wf_array Z"
  shows "nd_div (nd_map exp Z) (np_sum_axis0 (nd_map exp Z))
           = Inr (tabulate (nrows Z) (ncols Z) (softmax_cell Z))"
proof -
  have s: "np_sum_axis0 (nd_map exp Z)
             = tabulate 1 (ncols Z) (\<lambda>i j. \<Sum>l<nrows Z. exp (cell Z l j))"
    using assms
    by (auto simp: np_sum_axis0_def sum_list_upt cell_nd_map intro!: tabulate_cong2 sum.cong)
  have pos: "(\<Sum>l<nrows Z. exp (cell Z l j)) \<noteq> 0" if "0 < nrows Z" for j
  proof -
    have "0 < (\<Sum>l<nrows Z. exp (cell Z l j))"
      using that by (intro sum_pos) auto
    then show ?thesis by simp
  qed
  have "nd_div (nd_map exp Z) (tabulate 1 (ncols Z) (\<lambda>i j. \<Sum>l<nrows Z. exp (cell Z l j)))
          = Inr (tabulate (nrows Z) (ncols Z)
                  (\<lambda>i j. cell (nd_map exp Z) i j
                     / cell (tabulate 1 (ncols Z) (\<lambda>i j. \<Sum>l<nrows Z. exp (cell Z l j))) 0 j))"
    using nd_div_row [of "tabulate 1 (ncols Z) (\<lambda>i j. \<Sum>l<nrows Z. exp (cell Z l j))"
                        "nd_map exp Z"] pos
    by simp
  also have "tabulate (nrows Z) (ncols Z)
                  (\<lambda>i j. cell (nd_map exp Z) i j
                     / cell (tabulate 1 (ncols Z) (\<lambda>i j. \<Sum>l<nrows Z. exp (cell Z l j))) 0 j)
             = tabulate (nrows Z) (ncols Z) (softmax_cell Z)"
    using assms by (intro tabulate_cong2) (simp_all add: cell_nd_map softmax_cell_def)
  finally show ?thesis
    unfolding s .
qed

lemma softmax_backward_cells:
  assumes "wf_array Z" "shape dA = shape Z"
  shows "softmax_backward dA Z
           = Inr (tabulate (nrows Z) (ncols Z)
                   (\<lambda>i j. cell dA i j * softmax_cell Z i j * (1 - softmax_cell Z i j)))"
proof -
  let ?A = "tabulate (nrows Z) (ncols Z) (softmax_cell Z)"
  have dims: "nrows dA = nrows Z" "ncols dA = ncols Z"
    using assms(2) by (simp_all add: shape_def)
  have m1: "nd_mul dA ?A
              = Inr (tabulate (nrows Z) (ncols Z) (\<lambda>i j. cell dA i j * softmax_cell Z i j))"
    using dims by (simp add: nd_mul_same_shape shape_def cong: tabulate_cong2)
  have m2: "nd_mul (tabulate (nrows Z) (ncols Z) (\<lambda>i j. cell dA i j * softmax_cell Z i j))
                   (nd_map (\<lambda>a. 1 - a) ?A)
              = Inr (tabulate (nrows Z) (ncols Z)
                      (\<lambda>i j. cell dA i j * softmax_cell Z i j * (1 - softmax_cell Z i j)))"
    by (simp add: nd_mul_same_shape nd_map_tabulate cong: tabulate_cong2)
  show ?thesis
    by (simp add: softmax_backward_def Let_def softmax_forward_cells [OF assms(1)] m1 m2 shape_def)
qed


lemma L_model_backward_last_layer:
  assumes "initial_gradient AL Y = Inr dAL" "softmax_backward dAL Z = Inr dZ"
    and "caches \<noteq> []" "last caches = (linear_cache, Z)"
  shows "L_model_backward AL Y caches =
           ebind (linear_backward dZ linear_cache) (\<lambda>(dA_prev, dW, db).
             for_loop (rev [0..<length caches - 1]) (backward_layer caches)
               (setitem (setitem (setitem [] (''dA'' @ str (length caches)) dA_prev)
                  (''dW'' @ str (length caches)) dW) (''db'' @ str (length caches)) db))"
proof (cases "linear_backward dZ linear_cache")
  case (Inl e)
  then show ?thesis
    using assms by (simp add: L_model_backward_def linear_activation_backward_def Let_def)
next
  case (Inr r)
  then show ?thesis
    using assms
    by (cases r) (simp add: L_model_backward_def linear_activation_backward_def Let_def)
qed

section \<open>Batch normalization\<close>

lemma row_std_nonneg: "0 \<le> row_std A i"
  by (simp add: row_std_def sum_nonneg)

lemma batchnorm_cells:
  assumes "wf_array A"
  shows "batchnorm A = Inr (normalized A)"
proof -
  let ?T = "nd_T A"
  let ?n = "nrows A" and ?m = "ncols A"
  have mean: "np_mean_axis0 ?T = tabulate 1 ?n (\<lambda>i j. row_mean A j)"
    unfolding np_mean_axis0_def
    by (auto simp: sum_list_upt row_mean_def intro!: tabulate_cong2 sum.cong)
  have std: "np_std_axis0 ?T = tabulate 1 ?n (\<lambda>i j. row_std A j)"
    unfolding np_std_axis0_def mean
    by (auto simp: sum_list_upt row_std_def intro!: tabulate_cong2 sum.cong
          arg_cong [where f = sqrt] arg_cong2 [where f = "(/)"])
  have sub: "nd_sub ?T (tabulate 1 ?n (\<lambda>i j. row_mean A j))
               = Inr (tabulate ?m ?n (\<lambda>i j. cell A j i - row_mean A j))"
    by (auto simp: nd_sub_def broadcast2_row intro!: tabulate_cong2)
  have sd: "row_std A j + 1 / 10000 \<noteq> 0" for j
    using row_std_nonneg [of A j] by simp
  have "nd_div (tabulate ?m ?n (\<lambda>i j. cell A j i - row_mean A j))
               (tabulate 1 ?n (\<lambda>i j. row_std A j + 1 / 10000))
          = Inr (tabulate ?m ?n
                  (\<lambda>i j. cell (tabulate ?m ?n (\<lambda>i j. cell A j i - row_mean A j)) i j
                     / cell (tabulate 1 ?n (\<lambda>i j. row_std A j + 1 / 10000)) 0 j))"
    using nd_div_row [of "tabulate 1 ?n (\<lambda>i j. row_std A j + 1 / 10000)"
                        "tabulate ?m ?n (\<lambda>i j. cell A j i - row_mean A j)"] sd
    by simp
  also have "tabulate ?m ?n
                  (\<lambda>i j. cell (tabulate ?m ?n (\<lambda>i j. cell A j i - row_mean A j)) i j
                     / cell (tabulate 1 ?n (\<lambda>i j. row_std A j + 1 / 10000)) 0 j)
             = tabulate ?m ?n (\<lambda>i j. (cell A j i - row_mean A j) / (row_std A j + 1 / 10000))"
    by (intro tabulate_cong2) simp_all
  finally have dv: "nd_div (tabulate ?m ?n (\<lambda>i j. cell A j i - row_mean A j))
               (nd_map (\<lambda>s. s + 0.0001) (tabulate 1 ?n (\<lambda>i j. row_std A j)))
             = Inr (tabulate ?m ?n (\<lambda>i j. (cell A j i - row_mean A j) / (row_std A j + 1 / 10000)))"
    by (simp add: nd_map_tabulate)
  have tr: "nd_T (tabulate ?m ?n (\<lambda>i j. (cell A j i - row_mean A j) / (row_std A j + 1 / 10000)))
             = normalized A"
    by (auto simp: nd_T_def normalized_def intro!: tabulate_cong2)
  show ?thesis
    using sub dv tr by (simp add: batchnorm_def Let_def mean std shape_def)
qed

lemma normalized_stats:
  assumes "0 < ncols A" "i < nrows A"
  shows "row_mean (normalized A) i = 0"
    and "row_std (normalized A) i = row_std A i / (row_std A i + 1 / 10000)"
proof -
  define m where "m = ncols A"
  define mu where "mu = row_mean A i"
  define sd where "sd = row_std A i"
  define q where "q = sd + 1 / 10000"
  have m: "0 < m" using assms(1) by (simp add: m_def)
  have q: "0 < q" using row_std_nonneg [of A i] by (simp add: q_def sd_def)
  have cells: "cell (normalized A) i j = (cell A i j - mu) / q" if "j < m" for j
    using that assms(2) by (simp add: normalized_def m_def mu_def q_def sd_def)
  have mu: "(\<Sum>j<m. cell A i j) = real m * mu"
    using m by (simp add: mu_def row_mean_def m_def)
  have "(\<Sum>j<m. cell (normalized A) i j) = (\<Sum>j<m. (cell A i j - mu) / q)"
    using cells by (intro sum.cong) simp_all
  also have "\<dots> = ((\<Sum>j<m. cell A i j) - real m * mu) / q"
    by (simp add: sum_divide_distrib [symmetric] sum_subtractf)
  also have "\<dots> = 0"
    using mu by simp
  finally have zero: "(\<Sum>j<m. cell (normalized A) i j) = 0" .
  have nc: "ncols (normalized A) = m"
    by (simp add: normalized_def m_def)
  show mean0: "row_mean (normalized A) i = 0"
    using zero by (simp add: row_mean_def nc)
  have "(\<Sum>j<m. (cell (normalized A) i j - 0)\<^sup>2) = (\<Sum>j<m. (cell A i j - mu)\<^sup>2 / q\<^sup>2)"
    using cells by (intro sum.cong) (simp_all add: power_divide)
  also have "\<dots> = (\<Sum>j<m. (cell A i j - mu)\<^sup>2) / q\<^sup>2"
    by (simp add: sum_divide_distrib)
  finally have "row_std (normalized A) i
                  = sqrt ((\<Sum>j<m. (cell A i j - mu)\<^sup>2) / q\<^sup>2 / real m)"
    by (simp add: row_std_def nc mean0)
  also have "\<dots> = sqrt ((\<Sum>j<m. (cell A i j - mu)\<^sup>2) / real m / q\<^sup>2)"
    by (simp add: field_simps)
  also have "\<dots> = sqrt ((\<Sum>j<m. (cell A i j - mu)\<^sup>2) / real m) / sqrt (q\<^sup>2)"
    by (rule real_sqrt_divide)
  also have "\<dots> = sd / q"
    using q by (simp add: sd_def row_std_def m_def mu_def)
  finally show "row_std (normalized A) i = row_std A i / (row_std A i + 1 / 10000)"
    by (simp add: sd_def q_def)
qed


lemma linear_forward_Inr:
  "linear_forward A W b = Inr r \<Longrightarrow> \<exists>Z. r = (Z, (A, W, b))"
  by (auto simp: linear_forward_def ebind_def py_assert_def split: sum.splits if_splits)

lemma relu_Inr: "relu Z = Inr (nd_map (max 0) Z, Z)"
  by (simp add: relu_def Let_def)

lemma forward_layer_step:
  assumes "forward_layer d bn l (A, acc) = Inr (A', acc')"
  shows "\<exists>W b Z. getitem d (''W'' @ str l) = Inr W \<and> getitem d (''b'' @ str l) = Inr b
           \<and> linear_forward A W b = Inr (Z, (A, W, b))
           \<and> relu_output bn Z = Inr A' \<and> acc' = acc @ [((A, W, b), Z)]"
proof -
  from assms obtain W where W: "getitem d (''W'' @ str l) = Inr W"
    by (cases "getitem d (''W'' @ str l)") (simp_all add: forward_layer_def)
  from assms W obtain b where b: "getitem d (''b'' @ str l) = Inr b"
    by (cases "getitem d (''b'' @ str l)") (simp_all add: forward_layer_def)
  from assms W b obtain r where r: "linear_forward A W b = Inr r"
    by (cases "linear_forward A W b")
       (simp_all add: forward_layer_def linear_activation_forward_def)
  then obtain Z where Z: "linear_forward A W b = Inr (Z, (A, W, b))"
    using linear_forward_Inr by blast
  have ok: "shape (nd_map (max 0) Z) = (nrows W, ncols A)"
    using assms W b Z
    by (simp add: forward_layer_def linear_activation_forward_def relu_Inr py_assert_def
          split: if_splits)
  have "relu_output bn Z = Inr A' \<and> acc' = acc @ [((A, W, b), Z)]"
    using assms W b Z ok
    by (cases bn; cases "batchnorm (nd_map (max 0) Z)")
       (simp_all add: forward_layer_def linear_activation_forward_def relu_Inr relu_output_def)
  with W b Z show ?thesis by blast
qed

lemma forward_loop_trace:
  assumes "for_loop [l..<n] (forward_layer d bn) (A, acc) = Inr (A', acc')"
  shows "\<exists>cs. acc' = acc @ cs \<and> length cs = n - l \<and> relu_trace d bn l A cs A'"
  using assms
proof (induction "n - l" arbitrary: l A acc)
  case 0
  then show ?case by simp
next
  case (Suc k)
  then have lt: "l < n" by simp
  have list: "[l..<n] = l # [Suc l..<n]"
    using lt by (simp add: upt_conv_Cons)
  from Suc.prems obtain A1 acc1 where
    step: "forward_layer d bn l (A, acc) = Inr (A1, acc1)"
    and rest: "for_loop [Suc l..<n] (forward_layer d bn) (A1, acc1) = Inr (A', acc')"
    unfolding list by (cases "forward_layer d bn l (A, acc)") auto
  from forward_layer_step [OF step] obtain W b Z where
    W: "getitem d (''W'' @ str l) = Inr W" and b: "getitem d (''b'' @ str l) = Inr b"
    and Z: "linear_forward A W b = Inr (Z, (A, W, b))"
    and out: "relu_output bn Z = Inr A1" and acc1: "acc1 = acc @ [((A, W, b), Z)]"
    by blast
  have k: "k = n - Suc l" using Suc.hyps(2) by simp
  from Suc.hyps(1) [OF k rest] obtain cs where
    cs: "acc' = acc1 @ cs" "length cs = n - Suc l" "relu_trace d bn (Suc l) A1 cs A'"
    by blast
  have "acc' = acc @ (((A, W, b), Z) # cs)"
    using cs(1) acc1 by simp
  moreover have "length (((A, W, b), Z) # cs) = n - l"
    using cs(2) lt by simp
  moreover have "relu_trace d bn l A (((A, W, b), Z) # cs) A'"
    using W b Z out cs(3) by simp
  ultimately show ?case by blast
qed

lemma softmax_Inr: "softmax Z = Inr r \<Longrightarrow> snd r = Z"
  by (auto simp: softmax_def ebind_def split: sum.splits)

lemma L_model_forward_trace:
  assumes "L_model_forward X d bn = Inr (AL, caches)"
  shows "\<exists>cs A W b Z. caches = cs @ [((A, W, b), Z)] \<and> length cs = length d div 2 - 1
           \<and> 2 \<le> length d div 2
           \<and> relu_trace d bn 1 X cs A
           \<and> getitem d (''W'' @ str (length d div 2)) = Inr W
           \<and> getitem d (''b'' @ str (length d div 2)) = Inr b
           \<and> linear_forward A W b = Inr (Z, (A, W, b)) \<and> softmax Z = Inr (AL, Z)"
proof -
  let ?L = "length d div 2"
  from assms obtain A cs where
    loop: "for_loop [1..<?L] (forward_layer d bn) (X, []) = Inr (A, cs)"
    by (cases "for_loop [1..<?L] (forward_layer d bn) (X, [])")
       (auto simp: L_model_forward_def Let_def)
  have L: "2 \<le> ?L"
    using assms loop by (simp add: L_model_forward_def Let_def split: if_splits)
  then have L1: "?L - 1 + 1 = ?L" "\<not> ?L \<le> 1" by simp_all
  from forward_loop_trace [OF loop] have
    tr: "length cs = ?L - 1" "relu_trace d bn 1 X cs A"
    by auto
  from assms loop L1 obtain W where W: "getitem d (''W'' @ str ?L) = Inr W"
    by (cases "getitem d (''W'' @ str ?L)") (simp_all add: L_model_forward_def Let_def)
  from assms loop L1 W obtain b where b: "getitem d (''b'' @ str ?L) = Inr b"
    by (cases "getitem d (''b'' @ str ?L)") (simp_all add: L_model_forward_def Let_def)
  from assms loop L1 W b obtain r where "linear_forward A W b = Inr r"
    by (cases "linear_forward A W b")
       (simp_all add: L_model_forward_def Let_def linear_activation_forward_def)
  then obtain Z where Z: "linear_forward A W b = Inr (Z, (A, W, b))"
    using linear_forward_Inr by blast
  from assms loop L1 W b Z obtain s where s: "softmax Z = Inr s"
    by (cases "softmax Z")
       (simp_all add: L_model_forward_def Let_def linear_activation_forward_def)
  obtain P Q where PQ: "s = (P, Q)" by (cases s)
  have Q: "Q = Z" using softmax_Inr [OF s] PQ by simp
  have "AL = P \<and> caches = cs @ [((A, W, b), Z)]"
    using assms loop L1 W b Z s PQ Q
    by (simp add: L_model_forward_def Let_def linear_activation_forward_def py_assert_def
          split: if_splits)
  then show ?thesis
    using tr L W b Z s PQ Q by blast
qed


section \<open>A network of two layers, evaluated\<close>

lemma tabulate_1_2: "tabulate (Suc 0) 2 f = NDArray 2 [[f 0 0, f 0 1]]"
  by (simp add: tabulate_def upt_rec)

lemma tabulate_2_2: "tabulate 2 2 f = NDArray 2 [[f 0 0, f 0 1], [f 1 0, f 1 1]]"
  by (simp add: tabulate_def upt_rec)

lemma tabulate_2_1: "tabulate 2 (Suc 0) f = NDArray 1 [[f 0 0], [f 1 0]]"
  by (simp add: tabulate_def upt_rec)

lemma tabulate_1_1: "tabulate (Suc 0) (Suc 0) f = NDArray 1 [[f 0 0]]"
  by (simp add: tabulate_def upt_rec)

lemma two_set: "{..<2 :: nat} = {0, 1}"
  by auto

lemma normalized_example:
  "normalized (NDArray 2 [[1, 3]]) = NDArray 2 [[- (10000 / 10001), 10000 / 10001]]"
proof -
  have m: "row_mean (NDArray 2 [[1, 3]]) 0 = 2"
    by (simp add: row_mean_def two_set cell_def)
  have "row_std (NDArray 2 [[1, 3]]) 0 = sqrt 1"
    unfolding row_std_def m by (simp add: two_set cell_def)
  then have s: "row_std (NDArray 2 [[1, 3]]) 0 = 1" by simp
  show ?thesis
    by (simp add: normalized_def nrows_def tabulate_1_2 m s cell_def)
qed


lemma nrows_NDArray [simp]: "nrows (NDArray c rs) = length rs"
  by (simp add: nrows_def)

lemma cell_NDArray [simp]: "cell (NDArray c rs) i j = rs ! i ! j"
  by (simp add: cell_def)

lemma broadcast2_col:
  assumes "ncols B = 1" "nrows B = nrows A"
  shows "broadcast2 f A B
           = Inr (tabulate (nrows A) (ncols A) (\<lambda>i j. f (cell A i j) (cell B i 0)))"
  using assms by (auto simp: broadcast2_def bidx_lt intro!: tabulate_cong)

lemma linear_forward_ok:
  assumes "shape W = (n, k)" "shape A = (k, m)" "shape b = (n, 1)"
  shows "linear_forward A W b
           = Inr (tabulate n m (\<lambda>i j. (\<Sum>l<k. cell W i l * cell A l j) + cell b i 0), (A, W, b))"
proof -
  have dims: "nrows W = n" "ncols W = k" "nrows A = k" "ncols A = m" "nrows b = n" "ncols b = 1"
    using assms by (simp_all add: shape_def)
  have d: "np_dot W A = Inr (tabulate n m (\<lambda>i j. \<Sum>l<k. cell W i l * cell A l j))"
    using np_dot_ok [of W A] dims by simp
  have a: "nd_add (tabulate n m (\<lambda>i j. \<Sum>l<k. cell W i l * cell A l j)) b
             = Inr (tabulate n m (\<lambda>i j. (\<Sum>l<k. cell W i l * cell A l j) + cell b i 0))"
    unfolding nd_add_def using dims
    by (subst broadcast2_col) (auto intro!: tabulate_cong2)
  show ?thesis
    using dims by (simp add: linear_forward_def d a)
qed

lemma one_set: "{..<Suc 0} = {0}"
  by auto

lemma tabulate_SS_2: "tabulate (Suc (Suc 0)) 2 f = NDArray 2 [[f 0 0, f 0 1], [f 1 0, f 1 1]]"
  using tabulate_2_2 [of f] by (simp add: numeral_2_eq_2)

lemma str_Suc_Suc_0: "str (Suc (Suc 0)) = ''2''"
  using str_2 by (simp add: numeral_2_eq_2)

lemma softmax_zero_example:
  "softmax (NDArray 2 [[0, 0], [0, 0]])
     = Inr (NDArray 2 [[1 / 2, 1 / 2], [1 / 2, 1 / 2]], NDArray 2 [[0, 0], [0, 0]])"
proof -
  have "wf_array (NDArray 2 [[0, 0], [0, 0 :: real]])"
    by (simp add: wf_array_def)
  from softmax_forward_cells [OF this] show ?thesis
    by (simp add: softmax_def tabulate_SS_2 softmax_cell_def two_set)
qed

lemma forward_example:
  "L_model_forward (NDArray 2 [[1, 3]])
     [(''W1'', NDArray 1 [[1]]), (''b1'', NDArray 1 [[0]]),
      (''W2'', NDArray 1 [[0], [0]]), (''b2'', NDArray 1 [[0], [0]])] True
   = Inr (NDArray 2 [[1 / 2, 1 / 2], [1 / 2, 1 / 2]],
          [((NDArray 2 [[1, 3]], NDArray 1 [[1]], NDArray 1 [[0]]), NDArray 2 [[1, 3]]),
           ((NDArray 2 [[- (10000 / 10001), 10000 / 10001]], NDArray 1 [[0], [0]],
             NDArray 1 [[0], [0]]), NDArray 2 [[0, 0], [0, 0]])])"
proof -
  let ?d = "[(''W1'', NDArray 1 [[1 :: real]]), (''b1'', NDArray 1 [[0 :: real]]),
        (''W2'', NDArray 1 [[0], [0 :: real]]), (''b2'', NDArray 1 [[0], [0 :: real]])]"
  let ?X = "NDArray 2 [[1, 3 :: real]]"
  let ?N = "NDArray 2 [[- (10000 / 10001), 10000 / 10001 :: real]]"
  let ?W1 = "NDArray 1 [[1 :: real]]" and ?b1 = "NDArray 1 [[0 :: real]]"
  let ?W2 = "NDArray 1 [[0], [0 :: real]]" and ?b2 = "NDArray 1 [[0], [0 :: real]]"
  let ?Z2 = "NDArray 2 [[0, 0], [0, 0 :: real]]"
  have keys: "getitem ?d (''W'' @ str 1) = Inr ?W1" "getitem ?d (''b'' @ str 1) = Inr ?b1"
    by (simp_all add: getitem_def str_Suc_0)
  have lf1: "linear_forward ?X ?W1 ?b1 = Inr (?X, (?X, ?W1, ?b1))"
    using linear_forward_ok [of ?W1 1 1 ?X 2 ?b1]
    by (simp add: shape_def tabulate_1_2 one_set)
  have bn: "batchnorm (nd_map (max 0) ?X) = Inr ?N"
  proof -
    have "nd_map (max 0) ?X = ?X" by (simp add: nd_map_def)
    moreover have "wf_array ?X" by (simp add: wf_array_def)
    ultimately show ?thesis
      using batchnorm_cells [of ?X] normalized_example by simp
  qed
  have lf2: "linear_forward ?N ?W2 ?b2 = Inr (?Z2, (?N, ?W2, ?b2))"
    using linear_forward_ok [of ?W2 2 1 ?N 2 ?b2]
    by (simp add: shape_def tabulate_2_2 one_set)
  have step: "forward_layer ?d True 1 (?X, []) = Inr (?N, [((?X, ?W1, ?b1), ?X)])"
    using keys lf1 bn
    by (simp add: forward_layer_def linear_activation_forward_def relu_Inr shape_def)
  show ?thesis
    using step lf2 softmax_zero_example
    by (simp add: L_model_forward_def Let_def linear_activation_forward_def shape_def
          getitem_def str_Suc_Suc_0)
qed

lemma predict_example:
  "predict (NDArray 2 [[1, 3]]) (NDArray 2 [[1, 0], [0, 1]])
     [(''W1'', NDArray 1 [[1]]), (''b1'', NDArray 1 [[0]]),
      (''W2'', NDArray 1 [[0], [0]]), (''b2'', NDArray 1 [[0], [0]])] True
   = Inr (Some (1 / 2))"
proof -
  have am1: "np_argmax_axis0 (NDArray 2 [[1 / 2, 1 / 2], [1 / 2, 1 / 2]]) = Inr (NDArray 2 [[0, 0]])"
    by (simp add: np_argmax_axis0_def tabulate_1_2 argmax_list_def upt_rec)
  have am2: "np_argmax_axis0 (NDArray 2 [[1, 0], [0, 1]]) = Inr (NDArray 2 [[0, 1]])"
    by (simp add: np_argmax_axis0_def tabulate_1_2 argmax_list_def upt_rec)
  have eq: "broadcast2 (=) (NDArray 2 [[0, 0 :: nat]]) (NDArray 2 [[0, 1 :: nat]])
              = Inr (NDArray 2 [[True, False]])"
    by (simp add: broadcast2_def bidx_def tabulate_1_2)
  have cnt: "count_true (NDArray 2 [[True, False]]) = 1"
    by (simp add: count_true_def)
  show ?thesis
    using forward_example am1 am2 eq cnt by (simp add: predict_def Let_def)
qed

section \<open>The loop of the backward pass\<close>

lemma backward_layer_unfold:
  assumes "getitem g (''dA'' @ str (i + 2)) = Inr dA" "caches ! i = (lin, Z)"
  shows "backward_layer caches i g =
           ebind (relu_backward dA Z) (\<lambda>dZ.
           ebind (linear_backward dZ lin) (\<lambda>(dA_prev, dW, db).
           Inr (setitem (setitem (setitem (setitem g (''dA'' @ str (i + 2)) dZ)
                  (''dA'' @ str (i + 1)) dA_prev) (''dW'' @ str (i + 1)) dW)
                  (''db'' @ str (i + 1)) db)))"
proof (cases "relu_backward dA Z")
  case (Inl e)
  then show ?thesis
    using assms by (simp add: backward_layer_def linear_activation_backward_def Let_def)
next
  case (Inr dZ)
  show ?thesis
  proof (cases "linear_backward dZ lin")
    case (Inl e)
    then show ?thesis
      using assms Inr by (simp add: backward_layer_def linear_activation_backward_def Let_def)
  next
    case r: (Inr r)
    then show ?thesis
      using assms Inr
      by (cases r) (simp add: backward_layer_def linear_activation_backward_def Let_def)
  qed
qed


lemma chain_stored_step:
  assumes st: "chain_stored n rest g1 g'"
    and g1: "g1 = setitem (setitem (setitem (setitem g (''dA'' @ str (n + 2)) dZ)
                  (''dA'' @ str (n + 1)) dA_prev) (''dW'' @ str (n + 1)) dW)
                  (''db'' @ str (n + 1)) db"
    and zero: "n = 0 \<Longrightarrow> g' = g1"
  shows "chain_stored (Suc n) (Layer_Gradient dZ dA_prev dW db # rest) g g'"
proof -
  let ?res = "Layer_Gradient dZ dA_prev dW db # rest"
  from st have len: "length rest = n"
    and old: "\<And>k. k < n \<Longrightarrow>
               getitem g' (''dA'' @ str (k + 2)) = Inr (grad_dZ (rest ! (n - 1 - k)))
             \<and> getitem g' (''dW'' @ str (k + 1)) = Inr (grad_dW (rest ! (n - 1 - k)))
             \<and> getitem g' (''db'' @ str (k + 1)) = Inr (grad_db (rest ! (n - 1 - k)))"
    and bottom: "0 < n \<Longrightarrow> getitem g' (''dA'' @ str 1) = Inr (grad_dA_prev (rest ! (n - 1)))"
    and frame: "\<And>key. (\<forall>k\<le>n. key \<noteq> ''dA'' @ str (k + 1))
               \<and> (\<forall>k<n. key \<noteq> ''dW'' @ str (k + 1) \<and> key \<noteq> ''db'' @ str (k + 1))
             \<Longrightarrow> getitem g' key = getitem g1 key"
    by (simp_all add: chain_stored_def)
  have top_dA: "getitem g' (''dA'' @ str (n + 2)) = Inr dZ"
  proof -
    have "getitem g' (''dA'' @ str (n + 2)) = getitem g1 (''dA'' @ str (n + 2))"
      by (rule frame) auto
    then show ?thesis by (simp add: g1 getitem_setitem)
  qed
  have top_dW: "getitem g' (''dW'' @ str (n + 1)) = Inr dW"
  proof -
    have "getitem g' (''dW'' @ str (n + 1)) = getitem g1 (''dW'' @ str (n + 1))"
      by (rule frame) auto
    then show ?thesis by (simp add: g1 getitem_setitem)
  qed
  have top_db: "getitem g' (''db'' @ str (n + 1)) = Inr db"
  proof -
    have "getitem g' (''db'' @ str (n + 1)) = getitem g1 (''db'' @ str (n + 1))"
      by (rule frame) auto
    then show ?thesis by (simp add: g1 getitem_setitem)
  qed
  have layers: "getitem g' (''dA'' @ str (k + 2)) = Inr (grad_dZ (?res ! (Suc n - 1 - k)))
             \<and> getitem g' (''dW'' @ str (k + 1)) = Inr (grad_dW (?res ! (Suc n - 1 - k)))
             \<and> getitem g' (''db'' @ str (k + 1)) = Inr (grad_db (?res ! (Suc n - 1 - k)))"
    if "k < Suc n" for k
  proof (cases "k = n")
    case True
    then show ?thesis using top_dA top_dW top_db by simp
  next
    case False
    with that have k: "k < n" by simp
    then have "?res ! (Suc n - 1 - k) = rest ! (n - 1 - k)"
      by (simp add: nth_Cons')
    then show ?thesis using old [OF k] by simp
  qed
  have first: "getitem g' (''dA'' @ str 1) = Inr (grad_dA_prev (?res ! (Suc n - 1)))"
  proof (cases "n = 0")
    case True
    then show ?thesis using zero by (simp add: g1 getitem_setitem)
  next
    case False
    then have "?res ! (Suc n - 1) = rest ! (n - 1)"
      by (simp add: nth_Cons')
    then show ?thesis using bottom False by simp
  qed
  have fr: "getitem g' key = getitem g key"
    if "(\<forall>k\<le>Suc n. key \<noteq> ''dA'' @ str (k + 1))
        \<and> (\<forall>k<Suc n. key \<noteq> ''dW'' @ str (k + 1) \<and> key \<noteq> ''db'' @ str (k + 1))" for key
  proof -
    from that have a: "\<And>k. k \<le> Suc n \<Longrightarrow> key \<noteq> ''dA'' @ str (k + 1)"
      and b: "\<And>k. k < Suc n \<Longrightarrow> key \<noteq> ''dW'' @ str (k + 1) \<and> key \<noteq> ''db'' @ str (k + 1)"
      by blast+
    have "getitem g' key = getitem g1 key"
      using a b by (intro frame) simp
    moreover have "key \<noteq> ''dA'' @ str (n + 2)" "key \<noteq> ''dA'' @ str (n + 1)"
      "key \<noteq> ''dW'' @ str (n + 1)" "key \<noteq> ''db'' @ str (n + 1)"
      using a [of "Suc n"] a [of n] b [of n] by simp_all
    ultimately show ?thesis by (simp add: g1 getitem_setitem)
  qed
  show ?thesis
    unfolding chain_stored_def using len layers first fr by simp
qed

lemma backward_loop:
  assumes "n \<le> length caches" "getitem g (''dA'' @ str (n + 1)) = Inr dA"
  shows "case relu_chain dA (rev (take n caches)) of
           Inl e \<Rightarrow> for_loop (rev [0..<n]) (backward_layer caches) g = Inl e
         | Inr res \<Rightarrow>
             (\<exists>g'. for_loop (rev [0..<n]) (backward_layer caches) g = Inr g'
                  \<and> chain_stored n res g g')"
  using assms
proof (induction n arbitrary: g dA)
  case 0
  then show ?case by (simp add: chain_stored_def)
next
  case (Suc n)
  obtain lin Z where c: "caches ! n = (lin, Z)"
    by (cases "caches ! n")
  have lt: "n < length caches" using Suc.prems(1) by simp
  have tk: "rev (take (Suc n) caches) = (lin, Z) # rev (take n caches)"
    using lt c by (simp add: take_Suc_conv_app_nth)
  have dA: "getitem g (''dA'' @ str (n + 2)) = Inr dA"
    using Suc.prems(2) by simp
  note body = backward_layer_unfold [OF dA c]
  show ?case
  proof (cases "relu_backward dA Z")
    case (Inl e)
    then show ?thesis by (simp add: tk body)
  next
    case (Inr dZ)
    show ?thesis
    proof (cases "linear_backward dZ lin")
      case (Inl e)
      then show ?thesis using Inr by (simp add: tk body)
    next
      case r: (Inr r)
      obtain dA_prev dW db where r': "r = (dA_prev, dW, db)" by (cases r)
      define g1 where "g1 = setitem (setitem (setitem (setitem g (''dA'' @ str (n + 2)) dZ)
                  (''dA'' @ str (n + 1)) dA_prev) (''dW'' @ str (n + 1)) dW)
                  (''db'' @ str (n + 1)) db"
      have step: "backward_layer caches n g = Inr g1"
        using Inr r r' by (simp add: body g1_def)
      have next_dA: "getitem g1 (''dA'' @ str (n + 1)) = Inr dA_prev"
        by (simp add: g1_def getitem_setitem)
      have le: "n \<le> length caches" using lt by simp
      note IH = Suc.IH [OF le next_dA]
      show ?thesis
      proof (cases "relu_chain dA_prev (rev (take n caches))")
        case (Inl e)
        then show ?thesis
          using IH Inr r r' step by (simp add: tk)
      next
        case rest: (Inr rest)
        with IH obtain g' where g': "for_loop (rev [0..<n]) (backward_layer caches) g1 = Inr g'"
          "chain_stored n rest g1 g'"
          by auto
        have zero: "g' = g1" if "n = 0"
          using g'(1) that by simp
        have "chain_stored (Suc n) (Layer_Gradient dZ dA_prev dW db # rest) g g'"
          using g'(2) g1_def zero by (rule chain_stored_step)
        then show ?thesis
          using Inr r r' rest step g'(1) by (simp add: tk)
      qed
    qed
  qed
qed

lemma linear_backward_ok:
  assumes "shape dZ = (n, m)" "shape A_prev = (k, m)" "shape W = (n, k)" "shape b = (n, 1)"
    and "0 < m"
  shows "linear_backward dZ (A_prev, W, b)
           = Inr (tabulate k m (\<lambda>i j. \<Sum>l<n. cell W l i * cell dZ l j),
                  nd_map (\<lambda>x. 1 / real m * x)
                    (tabulate n k (\<lambda>i j. \<Sum>l<m. cell dZ i l * cell A_prev j l)),
                  nd_map (\<lambda>x. 1 / real m * x) (np_sum_axis1_keepdims dZ))"
proof -
  from assms have dims: "nrows dZ = n" "ncols dZ = m" "nrows A_prev = k" "ncols A_prev = m"
    "nrows W = n" "ncols W = k" "nrows b = n" "ncols b = 1"
    by (simp_all add: shape_def)
  define c where "c = 1 / real m"
  have d1: "np_dot (nd_T W) dZ = Inr (tabulate k m (\<lambda>i j. \<Sum>l<n. cell W l i * cell dZ l j))"
    using np_dot_ok [of "nd_T W" dZ] dims by (auto intro!: tabulate_cong2 sum.cong)
  have d2: "np_dot dZ (nd_T A_prev)
              = Inr (tabulate n k (\<lambda>i j. \<Sum>l<m. cell dZ i l * cell A_prev j l))"
    using np_dot_ok [of dZ "nd_T A_prev"] dims by (auto intro!: tabulate_cong2 sum.cong)
  have d3: "py_truediv 1 m = Inr c"
    using assms(5) by (simp add: py_truediv_def c_def)
  have "linear_backward dZ (A_prev, W, b)
           = Inr (tabulate k m (\<lambda>i j. \<Sum>l<n. cell W l i * cell dZ l j),
                  nd_map (\<lambda>x. c * x)
                    (tabulate n k (\<lambda>i j. \<Sum>l<m. cell dZ i l * cell A_prev j l)),
                  nd_map (\<lambda>x. c * x) (np_sum_axis1_keepdims dZ))"
    using dims by (simp add: linear_backward_def d1 d2 d3 shape_def)
  then show ?thesis by (simp only: c_def)
qed

lemma backward_example:
  "\<exists>grads.
     L_model_backward (NDArray 2 [[1 / 2, 1 / 2], [1 / 2, 1 / 2]]) (NDArray 2 [[1, 0], [0, 1]])
       [((NDArray 2 [[1, 3]], NDArray 1 [[1]], NDArray 1 [[0]]), NDArray 2 [[1, 3]]),
        ((NDArray 2 [[- (10000 / 10001), 10000 / 10001]], NDArray 1 [[0], [0]],
          NDArray 1 [[0], [0]]), NDArray 2 [[0, 0], [0, 0]])]
     = Inr grads"
proof -
  let ?AL = "NDArray 2 [[1 / 2, 1 / 2], [1 / 2, 1 / 2 :: real]]"
  let ?Y = "NDArray 2 [[1, 0], [0, 1 :: real]]"
  let ?X = "NDArray 2 [[1, 3 :: real]]"
  let ?N = "NDArray 2 [[- (10000 / 10001), 10000 / 10001 :: real]]"
  let ?W1 = "NDArray 1 [[1 :: real]]" and ?b1 = "NDArray 1 [[0 :: real]]"
  let ?W2 = "NDArray 1 [[0], [0 :: real]]" and ?b2 = "NDArray 1 [[0], [0 :: real]]"
  let ?Z2 = "NDArray 2 [[0, 0], [0, 0 :: real]]"
  let ?c1 = "((?X, ?W1, ?b1), ?X)" and ?c2 = "((?N, ?W2, ?b2), ?Z2)"
  let ?dAL = "NDArray 2 [[- 2, 2], [2, - 2 :: real]]"
  let ?dZ2 = "NDArray 2 [[- (1 / 2), 1 / 2], [1 / 2, - (1 / 2) :: real]]"
  let ?zero = "NDArray 2 [[0, 0 :: real]]"
  have inside: "cell ?AL i j \<noteq> 0 \<and> cell ?AL i j \<noteq> 1" if "i < 2" "j < 2" for i j
    using that by (auto simp: cell_def less_2_cases_iff)
  have g: "initial_gradient ?AL ?Y = Inr ?dAL"
    using initial_gradient_cells [of ?AL ?Y 2 2, OF _ _ _ _ inside]
    by (simp add: wf_array_def shape_def tabulate_2_2)
  have z: "softmax_backward ?dAL ?Z2 = Inr ?dZ2"
    using softmax_backward_cells [of ?Z2 ?dAL]
    by (simp add: wf_array_def shape_def tabulate_SS_2 softmax_cell_def two_set)
  obtain dW2 db2 where lb2: "linear_backward ?dZ2 (?N, ?W2, ?b2) = Inr (?zero, dW2, db2)"
    using linear_backward_ok [of ?dZ2 2 2 ?N 1 ?W2 ?b2]
    by (simp add: shape_def tabulate_1_2 two_set)
  have rb: "relu_backward ?zero ?X = Inr ?zero"
    by (simp add: relu_backward_def mask_assign_def nd_map_def shape_def)
  obtain dA0 dW1 db1 where lb1: "linear_backward ?zero (?X, ?W1, ?b1) = Inr (dA0, dW1, db1)"
    using linear_backward_ok [of ?zero 1 2 ?X 1 ?W1 ?b1]
    by (simp add: shape_def)
  let ?g0 = "setitem (setitem (setitem [] (''dA'' @ str 2) ?zero) (''dW'' @ str 2) dW2)
               (''db'' @ str 2) db2"
  have start: "getitem ?g0 (''dA'' @ str (0 + 2)) = Inr ?zero"
    by (simp add: getitem_setitem)
  have c: "[?c1, ?c2] ! 0 = ((?X, ?W1, ?b1), ?X)" by simp
  have "\<exists>g1. backward_layer [?c1, ?c2] 0 ?g0 = Inr g1"
    unfolding backward_layer_unfold [OF start c] using rb lb1 by simp
  then obtain g1 where step: "backward_layer [?c1, ?c2] 0 ?g0 = Inr g1" by blast
  have ne: "[?c1, ?c2] \<noteq> []" and lst: "last [?c1, ?c2] = ((?N, ?W2, ?b2), ?Z2)"
    by simp_all
  have "L_model_backward ?AL ?Y [?c1, ?c2] = Inr g1"
    unfolding L_model_backward_last_layer [OF g z ne lst] using lb2 step
    by (simp add: numeral_2_eq_2)
  then show ?thesis by blast
qed

lemma surrogate_is_not_jvp:
  "softmax_backward (NDArray 1 [[1], [1]]) (NDArray 1 [[0], [0]])
     = Inr (NDArray 1 [[1 / 4], [1 / 4]])"
  "softmax_jvp_cell (NDArray 1 [[1], [1]]) (NDArray 1 [[0], [0]]) 0 0 = 0"
proof -
  let ?Z = "NDArray 1 [[0], [0 :: real]]" and ?dA = "NDArray 1 [[1], [1 :: real]]"
  have two: "{..<2 :: nat} = {0, 1}" by auto
  have sm: "softmax_cell ?Z 0 0 = 1 / 2" "softmax_cell ?Z 1 0 = 1 / 2"
    by (simp_all add: softmax_cell_def nrows_def two cell_def)
  have n: "nrows ?Z = 2" "ncols ?Z = Suc 0"
    by (simp_all add: nrows_def)
  have "wf_array ?Z" "shape ?dA = shape ?Z"
    by (simp_all add: wf_array_def shape_def nrows_def)
  from softmax_backward_cells [OF this]
  have "softmax_backward ?dA ?Z
          = Inr (NDArray 1 [[cell ?dA 0 0 * softmax_cell ?Z 0 0 * (1 - softmax_cell ?Z 0 0)],
                            [cell ?dA 1 0 * softmax_cell ?Z 1 0 * (1 - softmax_cell ?Z 1 0)]])"
    unfolding n tabulate_2_1 .
  then show "softmax_backward ?dA ?Z = Inr (NDArray 1 [[1 / 4], [1 / 4]])"
    unfolding sm by (simp add: cell_def)
  have "(\<Sum>l<nrows ?Z. cell ?dA l 0 * softmax_cell ?Z l 0)
          = cell ?dA 0 0 * softmax_cell ?Z 0 0 + cell ?dA 1 0 * softmax_cell ?Z 1 0"
    unfolding n two by simp
  also have "\<dots> = 1"
    unfolding sm by (simp add: cell_def)
  finally show "softmax_jvp_cell ?dA ?Z 0 0 = 0"
    unfolding softmax_jvp_cell_def by (simp add: cell_def)
qed


section \<open>A run of the trainer, evaluated\<close>

lemma first_share_bounds: "0 < first_share \<beta>" "first_share \<beta> < 1"
proof -
  have "0 < exp \<beta> + exp (- \<beta>)"
    by (simp add: add_pos_pos)
  then show "0 < first_share \<beta>" "first_share \<beta> < 1"
    by (simp_all add: first_share_def)
qed

lemma second_share: "exp (- \<beta>) / (exp \<beta> + exp (- \<beta>)) = 1 - first_share \<beta>"
proof -
  have "exp \<beta> + exp (- \<beta>) \<noteq> 0"
    using add_pos_pos [of "exp \<beta>" "exp (- \<beta>)"] by simp
  then show ?thesis
    by (simp add: first_share_def field_simps)
qed

lemma batchnorm_zero:
  "batchnorm (tabulate r c (\<lambda>i j. 0)) = Inr (tabulate r c (\<lambda>i j. 0))"
proof -
  let ?Z = "tabulate r c (\<lambda>i j. 0 :: real)"
  have "row_mean ?Z i = 0" if "i < r" for i
    using that by (simp add: row_mean_def)
  then have "normalized ?Z = ?Z"
    unfolding normalized_def by (intro tabulate_cong2) simp_all
  then show ?thesis
    using batchnorm_cells [of ?Z] by simp
qed

lemma bias_net_forward:
  assumes "shape X = (1, m)"
  shows "L_model_forward X (bias_net \<beta>) bn
           = Inr (tabulate 2 m (\<lambda>i j. if i = 0 then first_share \<beta> else 1 - first_share \<beta>),
                  [((X, NDArray 1 [[0]], NDArray 1 [[0]]), tabulate 1 m (\<lambda>i j. 0)),
                   ((tabulate 1 m (\<lambda>i j. 0), NDArray 1 [[0], [0]], NDArray 1 [[\<beta>], [- \<beta>]]),
                    tabulate 2 m (\<lambda>i j. if i = 0 then \<beta> else - \<beta>))])"
proof -
  let ?W1 = "NDArray 1 [[0 :: real]]" and ?b1 = "NDArray 1 [[0 :: real]]"
  let ?W2 = "NDArray 1 [[0], [0 :: real]]" and ?b2 = "NDArray 1 [[\<beta>], [- \<beta>]]"
  let ?Z1 = "tabulate 1 m (\<lambda>i j. 0 :: real)"
  let ?Z2 = "tabulate 2 m (\<lambda>i j. if i = 0 then \<beta> else - \<beta>)"
  let ?AL = "tabulate 2 m (\<lambda>i j. if i = 0 then first_share \<beta> else 1 - first_share \<beta>)"
  have dims: "nrows X = 1" "ncols X = m"
    using assms by (simp_all add: shape_def)
  have keys: "getitem (bias_net \<beta>) (''W'' @ str 1) = Inr ?W1"
    "getitem (bias_net \<beta>) (''b'' @ str 1) = Inr ?b1"
    "getitem (bias_net \<beta>) (''W'' @ str (Suc (Suc 0))) = Inr ?W2"
    "getitem (bias_net \<beta>) (''b'' @ str (Suc (Suc 0))) = Inr ?b2"
    by (simp_all add: getitem_def bias_net_def str_Suc_0 str_Suc_Suc_0)
  have "linear_forward X ?W1 ?b1
          = Inr (tabulate 1 m (\<lambda>i j. (\<Sum>l<1. cell ?W1 i l * cell X l j) + cell ?b1 i 0),
                 (X, ?W1, ?b1))"
    using assms by (intro linear_forward_ok) (simp_all add: shape_def)
  also have "tabulate 1 m (\<lambda>i j. (\<Sum>l<1. cell ?W1 i l * cell X l j) + cell ?b1 i 0) = ?Z1"
    by (intro tabulate_cong2) simp_all
  finally have lf1: "linear_forward X ?W1 ?b1 = Inr (?Z1, (X, ?W1, ?b1))" .
  have step: "forward_layer (bias_net \<beta>) bn 1 (X, []) = Inr (?Z1, [((X, ?W1, ?b1), ?Z1)])"
    using keys(1,2) lf1 dims batchnorm_zero [of 1 m]
    by (simp add: forward_layer_def linear_activation_forward_def relu_Inr shape_def
          nd_map_tabulate)
  have "linear_forward ?Z1 ?W2 ?b2
          = Inr (tabulate 2 m (\<lambda>i j. (\<Sum>l<1. cell ?W2 i l * cell ?Z1 l j) + cell ?b2 i 0),
                 (?Z1, ?W2, ?b2))"
    by (intro linear_forward_ok) (simp_all add: shape_def)
  also have "tabulate 2 m (\<lambda>i j. (\<Sum>l<1. cell ?W2 i l * cell ?Z1 l j) + cell ?b2 i 0) = ?Z2"
    by (intro tabulate_cong2) (auto simp: less_2_cases_iff)
  finally have lf2: "linear_forward ?Z1 ?W2 ?b2 = Inr (?Z2, (?Z1, ?W2, ?b2))" .
  have "softmax_cell ?Z2 i j = (if i = 0 then first_share \<beta> else 1 - first_share \<beta>)"
    if "i < 2" "j < m" for i j
    using that by (auto simp: softmax_cell_def two_set less_2_cases_iff first_share_def
        second_share [unfolded first_share_def])
  then have "tabulate 2 m (softmax_cell ?Z2) = ?AL"
    by (intro tabulate_cong2) simp_all
  then have sm: "softmax ?Z2 = Inr (?AL, ?Z2)"
    using softmax_forward_cells [of ?Z2] by (simp add: softmax_def)
  have loop: "for_loop [1..<2] (forward_layer (bias_net \<beta>) bn) (X, [])
                = Inr (?Z1, [((X, ?W1, ?b1), ?Z1)])"
    using step by (simp add: upt_rec)
  have len: "length (bias_net \<beta>) div 2 = 2"
    by (simp add: bias_net_def)
  show ?thesis
    unfolding L_model_forward_def Let_def len loop
    using keys(3,4) lf2 sm dims
    by (simp add: linear_activation_forward_def shape_def)
qed

lemma argmax_pair: "argmax_list [a, b] = (if a < b then 1 else 0)"
  by (simp add: argmax_list_def upt_rec)

lemma np_argmax_two_rows:
  "np_argmax_axis0 (tabulate 2 m f) = Inr (tabulate 1 m (\<lambda>i j. if f 0 j < f 1 j then 1 else 0))"
proof -
  have "map (\<lambda>r. r ! j) (rows (tabulate 2 m f)) = [f 0 j, f 1 j]" if "j < m" for j
    using that by (simp add: tabulate_def numeral_2_eq_2)
  then have "tabulate 1 m (\<lambda>i j. argmax_list (map (\<lambda>r. r ! j) (rows (tabulate 2 m f))))
               = tabulate 1 m (\<lambda>i j. if f 0 j < f 1 j then 1 else 0)"
    by (intro tabulate_cong2) (simp_all add: argmax_pair)
  then show ?thesis
    by (simp add: np_argmax_axis0_def)
qed

lemma count_true_row: "count_true (tabulate (Suc 0) m (\<lambda>i j. True)) = m"
  by (simp add: count_true_def tabulate_def)

lemma bias_net_predict:
  assumes "shape X = (1, m)" "0 < m" "0 \<le> \<beta>"
  shows "predict X (first_class m) (bias_net \<beta>) bn = Inr (Some 1)"
proof -
  have "exp (- \<beta>) \<le> exp \<beta>"
    using assms(3) by simp
  then have "exp (- \<beta>) / (exp \<beta> + exp (- \<beta>)) \<le> exp \<beta> / (exp \<beta> + exp (- \<beta>))"
    by (intro divide_right_mono) (simp_all add: add_nonneg_nonneg)
  then have ord: "\<not> first_share \<beta> < 1 - first_share \<beta>"
    unfolding second_share by (simp add: first_share_def)
  have p: "np_argmax_axis0
             (tabulate 2 m (\<lambda>i j. if i = 0 then first_share \<beta> else 1 - first_share \<beta>))
           = Inr (tabulate 1 m (\<lambda>i j. 0))"
    using ord by (simp add: np_argmax_two_rows)
  have q: "np_argmax_axis0 (first_class m) = Inr (tabulate 1 m (\<lambda>i j. 0))"
    by (simp add: first_class_def np_argmax_two_rows)
  have e: "broadcast2 (=) (tabulate (Suc 0) m (\<lambda>i j. 0 :: nat))
                (tabulate (Suc 0) m (\<lambda>i j. 0 :: nat))
             = Inr (tabulate (Suc 0) m (\<lambda>i j. True))"
    by (simp add: broadcast2_same_shape)
  have m: "ncols X = m"
    using assms(1) by (simp add: shape_def)
  show ?thesis
    using assms(2)
    by (simp add: predict_def Let_def bias_net_forward [OF assms(1)] p q e count_true_row m)
qed

lemma relu_backward_zero:
  "relu_backward (tabulate r c (\<lambda>i j. 0)) (tabulate r c (\<lambda>i j. 0)) = Inr (tabulate r c (\<lambda>i j. 0))"
proof -
  let ?Z = "tabulate r c (\<lambda>i j. 0 :: real)"
  have "shape (nd_map (\<lambda>z. z \<le> 0) ?Z) = shape ?Z" "wf_array ?Z" "wf_array (nd_map (\<lambda>z. z \<le> 0) ?Z)"
    by simp_all
  from mask_assign_ok [OF this, of 0] obtain B where
    B: "mask_assign ?Z (nd_map (\<lambda>z. z \<le> 0) ?Z) 0 = Inr B" "shape B = shape ?Z" "wf_array B"
    and cells: "\<forall>i<nrows ?Z. \<forall>j<ncols ?Z.
                  cell B i j = (if cell (nd_map (\<lambda>z. z \<le> 0) ?Z) i j then 0 else cell ?Z i j)"
    by blast
  have "B = ?Z"
  proof (rule ndarray_eqI)
    show "wf_array B" "wf_array ?Z" "shape B = shape ?Z"
      using B by simp_all
    show "cell B i j = cell ?Z i j" if "i < nrows B" "j < ncols B" for i j
    proof -
      have "i < r" "j < c"
        using that B(2) by (simp_all add: shape_def)
      then show ?thesis
        using cells by (simp add: cell_nd_map)
    qed
  qed
  then show ?thesis
    using B(1) by (simp add: relu_backward_def)
qed

lemma row_sums_const:
  "np_sum_axis1_keepdims (tabulate 2 m (\<lambda>i j. f i))
     = NDArray 1 [[real m * f 0], [real m * f 1]]"
  by (simp add: np_sum_axis1_keepdims_def tabulate_def numeral_2_eq_2 sum_list_triv)

lemma bias_net_backward:
  assumes "shape X = (1, m)" "0 < m"
  shows "L_model_backward
           (tabulate 2 m (\<lambda>i j. if i = 0 then first_share \<beta> else 1 - first_share \<beta>))
           (first_class m)
           [((X, NDArray 1 [[0]], NDArray 1 [[0]]), tabulate 1 m (\<lambda>i j. 0)),
            ((tabulate 1 m (\<lambda>i j. 0), NDArray 1 [[0], [0]], NDArray 1 [[\<beta>], [- \<beta>]]),
             tabulate 2 m (\<lambda>i j. if i = 0 then \<beta> else - \<beta>))]
         = Inr [(''dA2'', tabulate 1 m (\<lambda>i j. 0)), (''dW2'', NDArray 1 [[0], [0]]),
                (''db2'', NDArray 1 [[- (1 - first_share \<beta>)], [1 - first_share \<beta>]]),
                (''dA1'', tabulate 1 m (\<lambda>i j. 0)), (''dW1'', NDArray 1 [[0]]),
                (''db1'', NDArray 1 [[0]])]"
proof -
  let ?s = "first_share \<beta>"
  let ?W1 = "NDArray 1 [[0 :: real]]" and ?b1 = "NDArray 1 [[0 :: real]]"
  let ?W2 = "NDArray 1 [[0], [0 :: real]]" and ?b2 = "NDArray 1 [[\<beta>], [- \<beta>]]"
  let ?Z1 = "tabulate 1 m (\<lambda>i j. 0 :: real)"
  let ?Z2 = "tabulate 2 m (\<lambda>i j. if i = 0 then \<beta> else - \<beta>)"
  let ?AL = "tabulate 2 m (\<lambda>i j. if i = 0 then ?s else 1 - ?s)"
  let ?Y = "first_class m"
  let ?dAL = "tabulate 2 m (\<lambda>i j. if i = 0 then - (1 / ?s) else 1 / ?s)"
  let ?dZ2 = "tabulate 2 m (\<lambda>i j. if i = 0 then - (1 - ?s) else 1 - ?s)"
  let ?db2 = "NDArray 1 [[- (1 - ?s)], [1 - ?s]]"
  let ?c1 = "((X, ?W1, ?b1), ?Z1)" and ?c2 = "((?Z1, ?W2, ?b2), ?Z2)"
  have s: "0 < ?s" "?s < 1"
    by (rule first_share_bounds)+
  have m: "real m \<noteq> 0"
    using assms(2) by simp
  have "initial_gradient ?AL ?Y
          = Inr (tabulate 2 m
                  (\<lambda>i j. - (cell ?Y i j / cell ?AL i j - (1 - cell ?Y i j) / (1 - cell ?AL i j))))"
    using s by (intro initial_gradient_cells) (simp_all add: first_class_def)
  also have "tabulate 2 m
                  (\<lambda>i j. - (cell ?Y i j / cell ?AL i j - (1 - cell ?Y i j) / (1 - cell ?AL i j)))
             = ?dAL"
    by (intro tabulate_cong2) (simp_all add: first_class_def)
  finally have g: "initial_gradient ?AL ?Y = Inr ?dAL" .
  have cellsZ: "softmax_cell ?Z2 i j = (if i = 0 then ?s else 1 - ?s)" if "i < 2" "j < m" for i j
    using that by (auto simp: softmax_cell_def two_set less_2_cases_iff first_share_def
        second_share [unfolded first_share_def])
  have "softmax_backward ?dAL ?Z2
          = Inr (tabulate (nrows ?Z2) (ncols ?Z2)
                  (\<lambda>i j. cell ?dAL i j * softmax_cell ?Z2 i j * (1 - softmax_cell ?Z2 i j)))"
    by (intro softmax_backward_cells) simp_all
  also have "tabulate (nrows ?Z2) (ncols ?Z2)
                  (\<lambda>i j. cell ?dAL i j * softmax_cell ?Z2 i j * (1 - softmax_cell ?Z2 i j))
             = ?dZ2"
    using s by (intro tabulate_cong2) (simp_all add: cellsZ field_simps)
  finally have b: "softmax_backward ?dAL ?Z2 = Inr ?dZ2" .
  have "linear_backward ?dZ2 (?Z1, ?W2, ?b2)
          = Inr (tabulate 1 m (\<lambda>i j. \<Sum>l<2. cell ?W2 l i * cell ?dZ2 l j),
                 nd_map (\<lambda>x. 1 / real m * x)
                   (tabulate 2 1 (\<lambda>i j. \<Sum>l<m. cell ?dZ2 i l * cell ?Z1 j l)),
                 nd_map (\<lambda>x. 1 / real m * x) (np_sum_axis1_keepdims ?dZ2))"
    using assms(2) by (intro linear_backward_ok) (simp_all add: shape_def)
  also have "tabulate 1 m (\<lambda>i j. \<Sum>l<2. cell ?W2 l i * cell ?dZ2 l j) = ?Z1"
    by (intro tabulate_cong2) (simp_all add: two_set)
  also have "nd_map (\<lambda>x. 1 / real m * x)
               (tabulate 2 1 (\<lambda>i j. \<Sum>l<m. cell ?dZ2 i l * cell ?Z1 j l)) = ?W2"
    by (simp add: nd_map_tabulate tabulate_2_1 nd_map_def)
  also have "nd_map (\<lambda>x. 1 / real m * x) (np_sum_axis1_keepdims ?dZ2) = ?db2"
    using m by (simp add: row_sums_const nd_map_def)
  finally have lb2: "linear_backward ?dZ2 (?Z1, ?W2, ?b2) = Inr (?Z1, ?W2, ?db2)" .
  have "linear_backward ?Z1 (X, ?W1, ?b1)
          = Inr (tabulate 1 m (\<lambda>i j. \<Sum>l<1. cell ?W1 l i * cell ?Z1 l j),
                 nd_map (\<lambda>x. 1 / real m * x)
                   (tabulate 1 1 (\<lambda>i j. \<Sum>l<m. cell ?Z1 i l * cell X j l)),
                 nd_map (\<lambda>x. 1 / real m * x) (np_sum_axis1_keepdims ?Z1))"
    using assms by (intro linear_backward_ok) (simp_all add: shape_def)
  also have "tabulate 1 m (\<lambda>i j. \<Sum>l<1. cell ?W1 l i * cell ?Z1 l j) = ?Z1"
    by (intro tabulate_cong2) simp_all
  also have "nd_map (\<lambda>x. 1 / real m * x)
               (tabulate 1 1 (\<lambda>i j. \<Sum>l<m. cell ?Z1 i l * cell X j l)) = ?W1"
    by (simp add: nd_map_tabulate tabulate_1_1 nd_map_def)
  also have "nd_map (\<lambda>x. 1 / real m * x) (np_sum_axis1_keepdims ?Z1) = ?b1"
    by (simp add: np_sum_axis1_keepdims_def nd_map_def tabulate_def sum_list_triv)
  finally have lb1: "linear_backward ?Z1 (X, ?W1, ?b1) = Inr (?Z1, ?W1, ?b1)" .
  let ?g = "[(''dA2'', ?Z1), (''dW2'', ?W2), (''db2'', ?db2)]"
  have top: "L_model_backward ?AL ?Y [?c1, ?c2]
               = for_loop [0] (backward_layer [?c1, ?c2]) ?g"
    using L_model_backward_last_layer [OF g b, of "[?c1, ?c2]" "(?Z1, ?W2, ?b2)"] lb2
    by (simp add: setitem_def str_2 str_Suc_Suc_0)
  have "backward_layer [?c1, ?c2] 0 ?g =
           ebind (relu_backward ?Z1 ?Z1) (\<lambda>dZ.
           ebind (linear_backward dZ (X, ?W1, ?b1)) (\<lambda>(dA_prev, dW, db).
           Inr (setitem (setitem (setitem (setitem ?g (''dA'' @ str (0 + 2)) dZ)
                  (''dA'' @ str (0 + 1)) dA_prev) (''dW'' @ str (0 + 1)) dW)
                  (''db'' @ str (0 + 1)) db)))"
    by (intro backward_layer_unfold) (simp_all add: getitem_def str_2 str_Suc_Suc_0)
  then have "backward_layer [?c1, ?c2] 0 ?g
               = Inr [(''dA2'', ?Z1), (''dW2'', ?W2), (''db2'', ?db2),
                      (''dA1'', ?Z1), (''dW1'', ?W1), (''db1'', ?b1)]"
    using lb1 by (simp add: relu_backward_zero setitem_def str_2 str_Suc_0 str_Suc_Suc_0)
  then show ?thesis
    unfolding top by simp
qed

lemma bias_net_update:
  "update_parameters (bias_net \<beta>)
     [(''dA2'', dA2), (''dW2'', NDArray 1 [[0], [0]]),
      (''db2'', NDArray 1 [[- (1 - first_share \<beta>)], [1 - first_share \<beta>]]),
      (''dA1'', dA1), (''dW1'', NDArray 1 [[0]]), (''db1'', NDArray 1 [[0]])] 1 False
   = Inr (bias_net (bias_step \<beta>))"
proof -
  let ?grads = "[(''dA2'', dA2), (''dW2'', NDArray 1 [[0], [0 :: real]]),
      (''db2'', NDArray 1 [[- (1 - first_share \<beta>)], [1 - first_share \<beta>]]),
      (''dA1'', dA1), (''dW1'', NDArray 1 [[0]]), (''db1'', NDArray 1 [[0]])]"
  have l1: "update_layer ?grads 1 False 1 (bias_net \<beta>) = Inr (bias_net \<beta>)"
    by (simp add: update_layer_def getitem_def setitem_def bias_net_def str_Suc_0
          nd_sub_def broadcast2_def nd_map_def tabulate_1_1)
  have l2: "update_layer ?grads 1 False 2 (bias_net \<beta>) = Inr (bias_net (bias_step \<beta>))"
    by (simp add: update_layer_def getitem_def setitem_def bias_net_def str_2
          nd_sub_def broadcast2_def nd_map_def tabulate_2_1 numeral_2_eq_2 [symmetric]
          bidx_def bias_step_def)
  have "[1..<length (bias_net \<beta>) div 2 + 1] = [1, 2]"
    by (simp add: bias_net_def upt_rec)
  then show ?thesis
    using l1 l2 by (simp add: update_parameters_def)
qed

lemma bias_net_train_batch:
  assumes "shape X = (1, m)" "0 < m" "Suc n mod 100 \<noteq> 0"
  shows "train_batch [X] [first_class m] layers_dims 1 bn False 0 (bias_net \<beta>, costs, n)
           = Inr (bias_net (bias_step \<beta>), costs, Suc n)"
  using assms(3) bias_net_forward [OF assms(1), of \<beta> bn] bias_net_backward [OF assms(1,2), of \<beta>]
    bias_net_update [of \<beta> "tabulate 1 m (\<lambda>i j. 0)" "tabulate 1 m (\<lambda>i j. 0)"]
  by (simp add: train_batch_def)

lemma bias_net_epoch:
  assumes "shape X = (1, m)" "0 < m" "Suc n mod 100 \<noteq> 0"
  shows "epoch_pass [X] [first_class m] layers_dims 1 bn False (bias_net \<beta>, costs, n)
           = Inr (bias_net (bias_step \<beta>), costs, Suc n)"
  using bias_net_train_batch [OF assms] by (simp add: epoch_pass_def)

lemma bias_step_nonneg: "0 \<le> \<beta> \<Longrightarrow> 0 \<le> bias_step \<beta>"
  using first_share_bounds(2) [of \<beta>] by (simp add: bias_step_def)

lemma bias_steps_nonneg: "0 \<le> (bias_step ^^ e) 0"
  by (induction e) (simp_all add: bias_step_nonneg)

lemma split_example:
  "split_data [0, 1, 2, 3, 4] (NDArray 5 [[1, 2, 3, 4, 5]])
     (NDArray 5 [[1, 1, 1, 1, 1], [0, 0, 0, 0, 0]])
   = Inr (NDArray 1 [[1], [2], [3], [4], [5]],
          NDArray 2 [[1, 0], [1, 0], [1, 0], [1, 0], [1, 0]],
          NDArray 1 [[1], [2], [3], [4]], NDArray 1 [[5]],
          NDArray 2 [[1, 0], [1, 0], [1, 0], [1, 0]], NDArray 2 [[1, 0]])"
proof -
  have t1: "nd_T (NDArray 5 [[1, 2, 3, 4, 5 :: real]]) = NDArray 1 [[1], [2], [3], [4], [5]]"
    by (simp add: nd_T_def tabulate_def upt_rec)
  have t2: "nd_T (NDArray 5 [[1, 1, 1, 1, 1], [0, 0, 0, 0, 0 :: real]])
              = NDArray 2 [[1, 0], [1, 0], [1, 0], [1, 0], [1, 0]]"
    by (simp add: nd_T_def tabulate_def upt_rec)
  have cut: "nat \<lceil>0.8 * real (nrows (NDArray 1 [[1], [2], [3], [4], [5 :: real]]))\<rceil> = 4"
    by simp
  show ?thesis
    unfolding split_data_def Let_def t1 t2 cut
    by (simp add: take_rows_def)
qed

lemma init_example:
  "initialize_parameters (\<lambda>n. 1 / 2) 0 [1, 1, 2] = Inr (3, bias_net 0)"
proof -
  let ?rnd = "\<lambda>n :: nat. 1 / 2 :: real" and ?l = "[1, 1, 2 :: int]"
  have w1: "initial_W ?rnd 0 ?l 1 = NDArray 1 [[0]]"
    by (simp add: initial_W_def tabulate_1_1)
  have w2: "initial_W ?rnd 1 ?l 2 = NDArray 1 [[0], [0]]"
    by (simp add: initial_W_def tabulate_2_1)
  have s1: "init_layer ?rnd ?l 1 (0, []) = Inr (1, [(''W1'', NDArray 1 [[0]]), (''b1'', NDArray 1 [[0]])])"
    using init_layer_ok [of ?l 1 ?rnd 0 "[]"] w1
    by (simp add: setitem_def str_Suc_0 tabulate_1_1)
  have s2: "init_layer ?rnd ?l 2 (1, [(''W1'', NDArray 1 [[0]]), (''b1'', NDArray 1 [[0]])])
              = Inr (3, bias_net 0)"
    using init_layer_ok [of ?l 2 ?rnd 1 "[(''W1'', NDArray 1 [[0]]), (''b1'', NDArray 1 [[0]])]"] w2
    by (simp add: setitem_def str_2 tabulate_2_1 bias_net_def)
  have loop: "for_loop [1, 2] (init_layer ?rnd ?l) (0, []) = Inr (3, bias_net 0)"
    unfolding for_loop.simps s1 ebind_Inr s2 ..
  have l: "[1..<length ?l] = [1, 2]"
    by (simp add: upt_rec)
  show ?thesis
    unfolding initialize_parameters_def l by (rule loop)
qed

lemma batches_example:
  "cut_batches (NDArray 1 [[1], [2], [3], [4]]) (NDArray 2 [[1, 0], [1, 0], [1, 0], [1, 0]]) 4
     = Inr ([NDArray 4 [[1, 2, 3, 4]]], [first_class 4])"
proof -
  have n: "nat \<lceil>real (nrows (NDArray 1 [[1], [2], [3], [4 :: real]])) / real_of_int 4\<rceil> = 1"
    by simp
  have t1: "nd_T (slice_rows (NDArray 1 [[1], [2], [3], [4 :: real]]) 0 4) = NDArray 4 [[1, 2, 3, 4]]"
    by (simp add: slice_rows_def nd_T_def tabulate_def upt_rec)
  have t2: "nd_T (slice_rows (NDArray 2 [[1, 0], [1, 0], [1, 0], [1, 0 :: real]]) 0 4)
              = first_class 4"
    unfolding first_class_def by (simp add: slice_rows_def nd_T_def tabulate_def upt_rec)
  show ?thesis
    unfolding cut_batches_def Let_def n
    using t1 t2 by simp
qed

lemma validation_example:
  assumes "0 \<le> \<beta>"
  shows "validation (NDArray 1 [[5]]) (NDArray 2 [[1, 0]]) bn (bias_net \<beta>, costs, n)
           = Inr (Some 1)"
proof -
  have t1: "nd_T (NDArray 1 [[5 :: real]]) = NDArray 1 [[5]]"
    by (simp add: nd_T_def tabulate_def upt_rec)
  have t2: "nd_T (NDArray 2 [[1, 0 :: real]]) = first_class 1"
    unfolding first_class_def by (simp add: nd_T_def tabulate_def upt_rec)
  have "shape (NDArray 1 [[5 :: real]]) = (1, 1)"
    by (simp add: shape_def)
  from bias_net_predict [OF this _ assms] show ?thesis
    unfolding validation_def t1 t2 by simp
qed

lemma final_report_example:
  assumes "0 \<le> \<beta>"
  shows "final_report (NDArray 1 [[1], [2], [3], [4], [5]])
           (NDArray 2 [[1, 0], [1, 0], [1, 0], [1, 0], [1, 0]])
           (NDArray 1 [[5]]) (NDArray 2 [[1, 0]]) bn
           \<lparr>trained = (bias_net \<beta>, costs, n), current_accuracy = c, prev_accuracy = p,
            stop_sign = f, iteration = Some e\<rparr>
         = Inr (bias_net \<beta>, costs, Some 1, Some 1)"
proof -
  have t1: "nd_T (NDArray 1 [[1], [2], [3], [4], [5 :: real]]) = NDArray 5 [[1, 2, 3, 4, 5]]"
    by (simp add: nd_T_def tabulate_def upt_rec)
  have t2: "nd_T (NDArray 2 [[1, 0], [1, 0], [1, 0], [1, 0], [1, 0 :: real]]) = first_class 5"
    unfolding first_class_def by (simp add: nd_T_def tabulate_def upt_rec)
  have "shape (NDArray 5 [[1, 2, 3, 4, 5 :: real]]) = (1, 5)"
    by (simp add: shape_def)
  from bias_net_predict [OF this _ assms]
  have tr: "predict (NDArray 5 [[1, 2, 3, 4, 5]]) (first_class 5) (bias_net \<beta>) bn = Inr (Some 1)"
    by simp
  have va: "predict (nd_T (NDArray 1 [[5]])) (nd_T (NDArray 2 [[1, 0]])) (bias_net \<beta>) bn
              = Inr (Some 1)"
    using validation_example [OF assms, of bn costs n] by (simp add: validation_def)
  show ?thesis
    unfolding final_report_def t1 t2 using tr va by simp
qed

section \<open>Training and evaluation with the flag\<close>

lemma softmax_cell_order:
  assumes "nrows Z = 2"
  shows "softmax_cell Z 0 j < softmax_cell Z (Suc 0) j \<longleftrightarrow> cell Z 0 j < cell Z (Suc 0) j"
proof -
  have "(\<Sum>l<nrows Z. exp (cell Z l j)) = exp (cell Z 0 j) + exp (cell Z (Suc 0) j)"
    using assms by (simp add: two_set)
  moreover have "0 < exp (cell Z 0 j) + exp (cell Z (Suc 0) j)"
    by (simp add: add_pos_pos)
  ultimately show ?thesis
    by (simp add: softmax_cell_def divide_less_cancel)
qed

lemma flag_example_forward:
  "L_model_forward (NDArray 2 [[1, 3]])
     [(''W1'', NDArray 1 [[1]]), (''b1'', NDArray 1 [[0]]),
      (''W2'', NDArray 1 [[1], [- 1]]), (''b2'', NDArray 1 [[0], [0]])] True
   = Inr (tabulate 2 2
            (softmax_cell (NDArray 2 [[- (10000 / 10001), 10000 / 10001],
                                      [10000 / 10001, - (10000 / 10001)]])),
          [((NDArray 2 [[1, 3]], NDArray 1 [[1]], NDArray 1 [[0]]), NDArray 2 [[1, 3]]),
           ((NDArray 2 [[- (10000 / 10001), 10000 / 10001]], NDArray 1 [[1], [- 1]],
             NDArray 1 [[0], [0]]),
            NDArray 2 [[- (10000 / 10001), 10000 / 10001],
                       [10000 / 10001, - (10000 / 10001)]])])"
  "L_model_forward (NDArray 2 [[1, 3]])
     [(''W1'', NDArray 1 [[1]]), (''b1'', NDArray 1 [[0]]),
      (''W2'', NDArray 1 [[1], [- 1]]), (''b2'', NDArray 1 [[0], [0]])] False
   = Inr (tabulate 2 2 (softmax_cell (NDArray 2 [[1, 3], [- 1, - 3]])),
          [((NDArray 2 [[1, 3]], NDArray 1 [[1]], NDArray 1 [[0]]), NDArray 2 [[1, 3]]),
           ((NDArray 2 [[1, 3]], NDArray 1 [[1], [- 1]], NDArray 1 [[0], [0]]),
            NDArray 2 [[1, 3], [- 1, - 3]])])"
proof -
  let ?d = "[(''W1'', NDArray 1 [[1 :: real]]), (''b1'', NDArray 1 [[0 :: real]]),
        (''W2'', NDArray 1 [[1], [- 1 :: real]]), (''b2'', NDArray 1 [[0], [0 :: real]])]"
  let ?X = "NDArray 2 [[1, 3 :: real]]"
  let ?N = "NDArray 2 [[- (10000 / 10001), 10000 / 10001 :: real]]"
  let ?W1 = "NDArray 1 [[1 :: real]]" and ?b1 = "NDArray 1 [[0 :: real]]"
  let ?W2 = "NDArray 1 [[1], [- 1 :: real]]" and ?b2 = "NDArray 1 [[0], [0 :: real]]"
  let ?ZN = "NDArray 2 [[- (10000 / 10001), 10000 / 10001],
                        [10000 / 10001, - (10000 / 10001) :: real]]"
  let ?ZX = "NDArray 2 [[1, 3], [- 1, - 3 :: real]]"
  have keys: "getitem ?d (''W'' @ str 1) = Inr ?W1" "getitem ?d (''b'' @ str 1) = Inr ?b1"
    by (simp_all add: getitem_def str_Suc_0)
  have lf1: "linear_forward ?X ?W1 ?b1 = Inr (?X, (?X, ?W1, ?b1))"
    using linear_forward_ok [of ?W1 1 1 ?X 2 ?b1]
    by (simp add: shape_def tabulate_1_2 one_set)
  have relu: "nd_map (max 0) ?X = ?X"
    by (simp add: nd_map_def)
  have bn: "batchnorm ?X = Inr ?N"
    using batchnorm_cells [of ?X] normalized_example by (simp add: wf_array_def)
  have lfN: "linear_forward ?N ?W2 ?b2 = Inr (?ZN, (?N, ?W2, ?b2))"
    using linear_forward_ok [of ?W2 2 1 ?N 2 ?b2]
    by (simp add: shape_def tabulate_2_2 one_set)
  have lfX: "linear_forward ?X ?W2 ?b2 = Inr (?ZX, (?X, ?W2, ?b2))"
    using linear_forward_ok [of ?W2 2 1 ?X 2 ?b2]
    by (simp add: shape_def tabulate_2_2 one_set)
  have stepT: "forward_layer ?d True 1 (?X, []) = Inr (?N, [((?X, ?W1, ?b1), ?X)])"
    using keys lf1 bn relu
    by (simp add: forward_layer_def linear_activation_forward_def relu_Inr shape_def)
  have stepF: "forward_layer ?d False 1 (?X, []) = Inr (?X, [((?X, ?W1, ?b1), ?X)])"
    using keys lf1 relu
    by (simp add: forward_layer_def linear_activation_forward_def relu_Inr shape_def)
  have smN: "softmax ?ZN = Inr (tabulate 2 2 (softmax_cell ?ZN), ?ZN)"
    using softmax_forward_cells [of ?ZN] by (simp add: softmax_def wf_array_def numeral_2_eq_2 [symmetric])
  have smX: "softmax ?ZX = Inr (tabulate 2 2 (softmax_cell ?ZX), ?ZX)"
    using softmax_forward_cells [of ?ZX] by (simp add: softmax_def wf_array_def numeral_2_eq_2 [symmetric])
  show "L_model_forward ?X ?d True
          = Inr (tabulate 2 2 (softmax_cell ?ZN), [((?X, ?W1, ?b1), ?X), ((?N, ?W2, ?b2), ?ZN)])"
    using stepT lfN smN
    by (simp add: L_model_forward_def Let_def linear_activation_forward_def shape_def
          getitem_def str_Suc_Suc_0)
  show "L_model_forward ?X ?d False
          = Inr (tabulate 2 2 (softmax_cell ?ZX), [((?X, ?W1, ?b1), ?X), ((?X, ?W2, ?b2), ?ZX)])"
    using stepF lfX smX
    by (simp add: L_model_forward_def Let_def linear_activation_forward_def shape_def
          getitem_def str_Suc_Suc_0)
qed

lemma flag_example_predict:
  "predict (NDArray 2 [[1, 3]]) (first_class 2)
     [(''W1'', NDArray 1 [[1]]), (''b1'', NDArray 1 [[0]]),
      (''W2'', NDArray 1 [[1], [- 1]]), (''b2'', NDArray 1 [[0], [0]])] True
   = Inr (Some (1 / 2))"
  "predict (NDArray 2 [[1, 3]]) (first_class 2)
     [(''W1'', NDArray 1 [[1]]), (''b1'', NDArray 1 [[0]]),
      (''W2'', NDArray 1 [[1], [- 1]]), (''b2'', NDArray 1 [[0], [0]])] False
   = Inr (Some 1)"
proof -
  let ?ZN = "NDArray 2 [[- (10000 / 10001), 10000 / 10001],
                        [10000 / 10001, - (10000 / 10001) :: real]]"
  let ?ZX = "NDArray 2 [[1, 3], [- 1, - 3 :: real]]"
  have pN: "np_argmax_axis0 (tabulate 2 2 (softmax_cell ?ZN)) = Inr (NDArray 2 [[1, 0]])"
    by (simp add: np_argmax_two_rows softmax_cell_order tabulate_1_2)
  have pX: "np_argmax_axis0 (tabulate 2 2 (softmax_cell ?ZX)) = Inr (NDArray 2 [[0, 0]])"
    by (simp add: np_argmax_two_rows softmax_cell_order tabulate_1_2)
  have q: "np_argmax_axis0 (first_class 2) = Inr (NDArray 2 [[0, 0]])"
    by (simp add: first_class_def np_argmax_two_rows tabulate_1_2)
  have eN: "broadcast2 (=) (NDArray 2 [[1, 0 :: nat]]) (NDArray 2 [[0, 0 :: nat]])
              = Inr (NDArray 2 [[False, True]])"
    by (simp add: broadcast2_def bidx_def tabulate_1_2)
  have eX: "broadcast2 (=) (NDArray 2 [[0, 0 :: nat]]) (NDArray 2 [[0, 0 :: nat]])
              = Inr (NDArray 2 [[True, True]])"
    by (simp add: broadcast2_def bidx_def tabulate_1_2)
  have cnt: "count_true (NDArray 2 [[False, True]]) = 1" "count_true (NDArray 2 [[True, True]]) = 2"
    by (simp_all add: count_true_def)
  show "predict (NDArray 2 [[1, 3]]) (first_class 2)
     [(''W1'', NDArray 1 [[1]]), (''b1'', NDArray 1 [[0]]),
      (''W2'', NDArray 1 [[1], [- 1]]), (''b2'', NDArray 1 [[0], [0]])] True
   = Inr (Some (1 / 2))"
    using flag_example_forward(1) pN q eN cnt by (simp add: predict_def Let_def)
  show "predict (NDArray 2 [[1, 3]]) (first_class 2)
     [(''W1'', NDArray 1 [[1]]), (''b1'', NDArray 1 [[0]]),
      (''W2'', NDArray 1 [[1], [- 1]]), (''b2'', NDArray 1 [[0], [0]])] False
   = Inr (Some 1)"
    using flag_example_forward(2) pX q eX cnt by (simp add: predict_def Let_def)
qed

lemma predict_Inr:
  assumes "predict X Y d bn = Inr acc"
  shows "\<exists>probs cs P Q E.
           L_model_forward X d bn = Inr (probs, cs)
         \<and> np_argmax_axis0 probs = Inr P \<and> np_argmax_axis0 Y = Inr Q
         \<and> broadcast2 (=) P Q = Inr E
         \<and> acc = (if ncols X = 0 then None
                   else Some (real (count_true E) / real (ncols X)))"
proof -
  from assms obtain r where r: "L_model_forward X d bn = Inr r"
    by (cases "L_model_forward X d bn") (simp_all add: predict_def)
  obtain probs cs where pc: "r = (probs, cs)"
    by (cases r)
  from assms r pc obtain P where P: "np_argmax_axis0 probs = Inr P"
    by (cases "np_argmax_axis0 probs") (simp_all add: predict_def)
  from assms r pc P obtain Q where Q: "np_argmax_axis0 Y = Inr Q"
    by (cases "np_argmax_axis0 Y") (simp_all add: predict_def)
  from assms r pc P Q obtain E where E: "broadcast2 (=) P Q = Inr E"
    by (cases "broadcast2 (=) P Q") (simp_all add: predict_def)
  have "acc = (if ncols X = 0 then None else Some (real (count_true E) / real (ncols X)))"
    using assms r pc P Q E by (simp add: predict_def Let_def)
  with r pc P Q E show ?thesis
    by blast
qed

lemma train_batch_Inr:
  assumes "train_batch Xb Yb layers lr bn L2 j (W, costs, n) = Inr (W', costs', n')"
  shows "\<exists>AL cs grads.
           L_model_forward (Xb ! j) W bn = Inr (AL, cs)
         \<and> L_model_backward AL (Yb ! j) cs = Inr grads
         \<and> update_parameters W grads lr L2 = Inr W' \<and> n' = Suc n"
proof -
  from assms obtain r where r: "L_model_forward (Xb ! j) W bn = Inr r"
    by (cases "L_model_forward (Xb ! j) W bn") (simp_all add: train_batch_def)
  obtain AL cs where pc: "r = (AL, cs)"
    by (cases r)
  from assms r pc obtain grads where g: "L_model_backward AL (Yb ! j) cs = Inr grads"
    by (cases "L_model_backward AL (Yb ! j) cs") (simp_all add: train_batch_def)
  from assms r pc g obtain W1 where u: "update_parameters W grads lr L2 = Inr W1"
    by (cases "update_parameters W grads lr L2") (simp_all add: train_batch_def)
  let ?rest = "if Suc n mod 100 = 0 then
          ebind (compute_cost AL (Yb ! j)) (\<lambda>cost.
          ebind (if L2 then
                   for_loop [0..<length layers - 1]
                     (\<lambda>k cost.
                        ebind (getitem W1 (''W'' @ str (k + 1))) (\<lambda>w.
                        ebind (nd_mul w w) (\<lambda>ww.
                        Inr (cost + lr / 2 * np_sum ww))))
                     cost
                 else Inr cost) (\<lambda>cost.
          Inr (W1, costs @ [cost], Suc n)))
        else Inr (W1, costs, Suc n)"
  have eq: "?rest = Inr (W', costs', n')"
    using assms r pc g u by (simp add: train_batch_def Let_def)
  have "W' = W1 \<and> n' = Suc n"
  proof (cases "Suc n mod 100 = 0")
    case False
    with eq show ?thesis by simp
  next
    case True
    with eq obtain c1 where c1: "compute_cost AL (Yb ! j) = Inr c1"
      by (cases "compute_cost AL (Yb ! j)") simp_all
    let ?l2 = "if L2 then
                   for_loop [0..<length layers - 1]
                     (\<lambda>k cost.
                        ebind (getitem W1 (''W'' @ str (k + 1))) (\<lambda>w.
                        ebind (nd_mul w w) (\<lambda>ww.
                        Inr (cost + lr / 2 * np_sum ww))))
                     c1
                 else Inr c1"
    from eq True c1 obtain c2 where "?l2 = Inr c2"
      by (cases ?l2) simp_all
    with eq True c1 show ?thesis
      by simp
  qed
  with r pc g u show ?thesis
    by blast
qed

lemma trainer_example:
  "epoch_loop (epoch_pass [NDArray 4 [[1, 2, 3, 4]]] [first_class 4] [1, 1, 2] 1 bn False)
     (validation (NDArray 1 [[5]]) (NDArray 2 [[1, 0]]) bn) [0..<5]
     \<lparr>trained = (bias_net 0, [], 0), current_accuracy = Some 0, prev_accuracy = Some 0,
      stop_sign = False, iteration = Some 0\<rparr>
   = Inr \<lparr>trained = (bias_net (bias_step (bias_step 0)), [], 2), current_accuracy = Some 1,
          prev_accuracy = Some 1, stop_sign = True, iteration = Some 1\<rparr>"
proof -
  let ?s = "\<lambda>e :: nat. (bias_net ((bias_step ^^ e) 0), [] :: real list, e)"
  let ?a = "\<lambda>e :: nat. if e = 0 then Some 0 else Some (1 :: real)"
  let ?train = "epoch_pass [NDArray 4 [[1, 2, 3, 4]]] [first_class 4] [1, 1, 2] 1 bn False"
  let ?validate = "validation (NDArray 1 [[5]]) (NDArray 2 [[1, 0]]) bn"
  have "epoch_loop ?train ?validate [0..<5]
          \<lparr>trained = ?s 0, current_accuracy = Some 0, prev_accuracy = ?a 0,
           stop_sign = False, iteration = Some 0\<rparr>
        = Inr \<lparr>trained = ?s (Suc 1), current_accuracy = ?a (Suc 1), prev_accuracy = ?a 1,
               stop_sign = True, iteration = Some 1\<rparr>"
  proof (rule epoch_loop_converged)
    show "?train (?s e) = Inr (?s (Suc e)) \<and> ?validate (?s (Suc e)) = Inr (?a (Suc e))"
      if "e \<le> 1" for e
    proof -
      have "shape (NDArray 4 [[1, 2, 3, 4 :: real]]) = (1, 4)"
        by (simp add: shape_def)
      moreover have "Suc e mod 100 \<noteq> 0"
        using that by simp
      ultimately have "?train (?s e) = Inr (?s (Suc e))"
        using bias_net_epoch [where X = "NDArray 4 [[1, 2, 3, 4]]" and m = 4 and n = e
            and layers_dims = "[1, 1, 2]" and \<beta> = "(bias_step ^^ e) 0" and costs = "[]"
            and bn = bn]
        by simp
      moreover have "?validate (?s (Suc e)) = Inr (?a (Suc e))"
        using validation_example [OF bias_steps_nonneg [of "Suc e"], of bn "[]" "Suc e"] by simp
      ultimately show ?thesis by blast
    qed
    show "\<not> not_improving (?a (Suc e)) (?a e)" if "e < 1" for e
      using that by (simp add: not_improving_def)
    show "not_improving (?a (Suc 1)) (?a 1)"
      by (simp add: not_improving_def)
    show "(0 :: nat) \<le> 1" by simp
    show "(1 :: nat) < 5" by simp
  qed
  then show ?thesis
    by (simp add: numeral_2_eq_2)
qed

section \<open>Claims\<close>

text \<open>
  C3. For a gradient \<open>dA\<close> and a cached pre-activation \<open>Z\<close> of the same shape,
  \<open>relu_backward\<close> returns an array of that shape whose entry is 0 exactly at the positions
  where \<open>Z \<le> 0\<close> (the boundary \<open>Z = 0\<close> included) and the entry of \<open>dA\<close> everywhere else.
\<close>

theorem relu_backward_zeroes_nonpositive:
  assumes "shape dA = shape Z" "wf_array dA" "wf_array Z"
  shows "\<exists>dZ. relu_backward dA Z = Inr dZ \<and> shape dZ = shape dA \<and> wf_array dZ
           \<and> (\<forall>i<nrows dA. \<forall>j<ncols dA.
                 cell dZ i j = (if cell Z i j \<le> 0 then 0 else cell dA i j))"
proof -
  let ?M = "nd_map (\<lambda>z. z \<le> 0) Z"
  have sh: "shape ?M = shape dA" and wfM: "wf_array ?M"
    using assms by simp_all
  from mask_assign_ok [OF sh assms(2) wfM, of 0]
  obtain B where B: "mask_assign dA ?M 0 = Inr B" "shape B = shape dA" "wf_array B"
    "\<forall>i<nrows dA. \<forall>j<ncols dA. cell B i j = (if cell ?M i j then 0 else cell dA i j)"
    by blast
  have "cell B i j = (if cell Z i j \<le> 0 then 0 else cell dA i j)"
    if "i < nrows dA" "j < ncols dA" for i j
  proof -
    have "i < nrows Z" "j < ncols Z"
      using that assms(1) by (simp_all add: shape_eq_iff)
    then have "cell ?M i j = (cell Z i j \<le> 0)"
      using assms(3) by (simp add: cell_nd_map)
    with B(4) that show ?thesis by simp
  qed
  with B(1-3) show ?thesis
    by (auto simp: relu_backward_def)
qed

theorem relu_backward_zeroes_nonpositive_witness:
  "relu_backward (NDArray 2 [[1, 1], [1, 1]]) (NDArray 2 [[-3, 0], [2, 5]])
     = Inr (NDArray 2 [[0, 0], [1, 1]])"
proof -
  let ?dA = "NDArray 2 [[1, 1], [1, 1 :: real]]"
  let ?Z = "NDArray 2 [[-3, 0], [2, 5 :: real]]"
  have h: "shape ?dA = shape ?Z" "wf_array ?dA" "wf_array ?Z"
    by (simp_all add: shape_def nrows_def wf_array_def)
  from relu_backward_zeroes_nonpositive [OF h]
  show ?thesis
    by (simp add: relu_backward_def mask_assign_def nd_map_def shape_def nrows_def)
qed

text \<open>
  C2. For a gradient \<open>dZ\<close> of shape \<open>(n, m)\<close> and a forward cache \<open>(A_prev, W, b)\<close> of shapes
  \<open>(k, m)\<close>, \<open>(n, k)\<close> and \<open>(n, 1)\<close>, with \<open>m \<ge> 1\<close> samples, \<open>linear_backward\<close> returns
  \<open>dA_prev = W\<^sup>T dZ\<close>, \<open>dW = (1/m) dZ A_prev\<^sup>T\<close> and \<open>db = (1/m)\<close> times the row sums of \<open>dZ\<close>,
  of the shapes of \<open>A_prev\<close>, \<open>W\<close> and \<open>b\<close>.
\<close>

theorem linear_backward_formulas:
  assumes wf: "wf_array dZ" "wf_array A_prev" "wf_array W"
    and sh: "shape dZ = (n, m)" "shape A_prev = (k, m)" "shape W = (n, k)" "shape b = (n, 1)"
    and m: "0 < m"
  shows "\<exists>dA_prev dW db.
           linear_backward dZ (A_prev, W, b) = Inr (dA_prev, dW, db)
         \<and> shape dA_prev = shape A_prev \<and> shape dW = shape W \<and> shape db = shape b
         \<and> wf_array dA_prev \<and> wf_array dW \<and> wf_array db
         \<and> (\<forall>i<k. \<forall>j<m. cell dA_prev i j = (\<Sum>l<n. cell W l i * cell dZ l j))
         \<and> (\<forall>i<n. \<forall>j<k. cell dW i j = 1 / real m * (\<Sum>l<m. cell dZ i l * cell A_prev j l))
         \<and> (\<forall>i<n. cell db i 0 = 1 / real m * (\<Sum>l<m. cell dZ i l))"
proof -
  from sh have dims: "nrows dZ = n" "ncols dZ = m" "nrows A_prev = k" "ncols A_prev = m"
    "nrows W = n" "ncols W = k" "nrows b = n" "ncols b = 1"
    by (simp_all add: shape_def)
  define c where "c = 1 / real m"
  let ?dA = "tabulate k m (\<lambda>i j. \<Sum>l<n. cell (nd_T W) i l * cell dZ l j)"
  let ?P = "tabulate n k (\<lambda>i j. \<Sum>l<m. cell dZ i l * cell (nd_T A_prev) l j)"
  let ?dW = "nd_map (\<lambda>x. c * x) ?P"
  let ?db = "nd_map (\<lambda>x. c * x) (np_sum_axis1_keepdims dZ)"
  have d1: "np_dot (nd_T W) dZ = Inr ?dA"
    using np_dot_ok [of "nd_T W" dZ] dims by simp
  have d2: "np_dot dZ (nd_T A_prev) = Inr ?P"
    using np_dot_ok [of dZ "nd_T A_prev"] dims by simp
  have d3: "py_truediv 1 m = Inr c"
    using m by (simp add: py_truediv_def c_def)
  have run: "linear_backward dZ (A_prev, W, b) = Inr (?dA, ?dW, ?db)"
    using dims by (simp add: linear_backward_def d1 d2 d3 shape_def)
  have c1: "cell ?dA i j = (\<Sum>l<n. cell W l i * cell dZ l j)" if "i < k" "j < m" for i j
    using that dims by simp
  have c2: "cell ?dW i j = c * (\<Sum>l<m. cell dZ i l * cell A_prev j l)"
    if "i < n" "j < k" for i j
    using that dims by (simp add: cell_nd_map)
  have c3: "cell ?db i 0 = c * (\<Sum>l<m. cell dZ i l)" if "i < n" for i
    using that dims wf(1) by (simp add: cell_nd_map cell_sum_axis1)
  have shapes: "shape ?dA = shape A_prev" "shape ?dW = shape W" "shape ?db = shape b"
    "wf_array ?dA" "wf_array ?dW" "wf_array ?db"
    using dims by (simp_all add: shape_def)
  show ?thesis
    unfolding c_def [symmetric]
    using run c1 c2 c3 shapes by blast
qed


theorem linear_backward_formulas_witness:
  "\<exists>dA_prev dW db.
     linear_backward (NDArray 2 [[1, 2], [3, 4]])
       (NDArray 2 [[1, 0], [0, 1], [1, 1]], NDArray 3 [[1, 2, 3], [4, 5, 6]], NDArray 1 [[0], [0]])
       = Inr (dA_prev, dW, db)
     \<and> shape dA_prev = (3, 2) \<and> shape dW = (2, 3) \<and> shape db = (2, 1)
     \<and> cell dA_prev 0 0 = 13 \<and> cell dW 1 2 = 7 / 2 \<and> cell db 0 0 = 3 / 2"
proof -
  let ?dZ = "NDArray 2 [[1, 2], [3, 4 :: real]]"
  let ?A = "NDArray 2 [[1, 0], [0, 1], [1, 1 :: real]]"
  let ?W = "NDArray 3 [[1, 2, 3], [4, 5, 6 :: real]]"
  let ?b = "NDArray 1 [[0], [0 :: real]]"
  have wf: "wf_array ?dZ" "wf_array ?A" "wf_array ?W"
    by (simp_all add: wf_array_def)
  have sh: "shape ?dZ = (2, 2)" "shape ?A = (3, 2)" "shape ?W = (2, 3)" "shape ?b = (2, 1)"
    by (simp_all add: shape_def nrows_def)
  from linear_backward_formulas [OF wf sh]
  obtain dA_prev dW db where
    run: "linear_backward ?dZ (?A, ?W, ?b) = Inr (dA_prev, dW, db)"
    and shapes: "shape dA_prev = shape ?A" "shape dW = shape ?W" "shape db = shape ?b"
    and dA: "\<forall>i<3. \<forall>j<2. cell dA_prev i j = (\<Sum>l<2. cell ?W l i * cell ?dZ l j)"
    and dW: "\<forall>i<2. \<forall>j<3. cell dW i j = 1 / real 2 * (\<Sum>l<2. cell ?dZ i l * cell ?A j l)"
    and db: "\<forall>i<2. cell db i 0 = 1 / real 2 * (\<Sum>l<2. cell ?dZ i l)"
    by auto
  have two: "{..<2::nat} = {0, 1}" by auto
  have "cell dA_prev 0 0 = 13"
    using dA by (simp add: two cell_def)
  moreover have "cell dW 1 2 = 7 / 2"
    using dW by (simp add: two cell_def)
  moreover have "cell db 0 0 = 3 / 2"
    using db by (simp add: two cell_def)
  ultimately show ?thesis
    using run shapes sh by auto
qed

text \<open>
  C6. On a parameter dictionary and a gradient dictionary that hold, for every layer
  \<open>1 .. L\<close>, arrays of matching shapes, \<open>update_parameters\<close> stores for each layer the weights
  \<open>W - learning_rate * dW\<close> when L2 is off and \<open>W - learning_rate * dW - learning_rate\<^sup>2 * W\<close>
  when it is on, and the bias \<open>b - learning_rate * db\<close> in both cases.
\<close>

theorem update_parameters_formulas:
  assumes "\<And>l. 1 \<le> l \<Longrightarrow> l \<le> length W_b_dict div 2 \<Longrightarrow>
           getitem W_b_dict (''W'' @ str l) = Inr (Ws l)
         \<and> getitem W_b_dict (''b'' @ str l) = Inr (bs l)
         \<and> getitem grads (''dW'' @ str l) = Inr (dWs l)
         \<and> getitem grads (''db'' @ str l) = Inr (dbs l)
         \<and> wf_array (Ws l) \<and> wf_array (dWs l) \<and> wf_array (dbs l)
         \<and> shape (dWs l) = shape (Ws l) \<and> shape (dbs l) = shape (bs l)"
  shows "\<exists>d'. update_parameters W_b_dict grads learning_rate L2_norm = Inr d'
         \<and> (\<forall>l. 1 \<le> l \<and> l \<le> length W_b_dict div 2 \<longrightarrow>
              (\<exists>W' b'. getitem d' (''W'' @ str l) = Inr W' \<and> getitem d' (''b'' @ str l) = Inr b'
                 \<and> shape W' = shape (Ws l) \<and> shape b' = shape (bs l)
                 \<and> (\<forall>i<nrows (Ws l). \<forall>j<ncols (Ws l).
                      cell W' i j =
                        (if L2_norm
                         then cell (Ws l) i j - learning_rate * cell (dWs l) i j
                                - learning_rate\<^sup>2 * cell (Ws l) i j
                         else cell (Ws l) i j - learning_rate * cell (dWs l) i j))
                 \<and> (\<forall>i<nrows (bs l). \<forall>j<ncols (bs l).
                      cell b' i j = cell (bs l) i j - learning_rate * cell (dbs l) i j)))"
proof -
  let ?L = "length W_b_dict div 2"
  have "distinct [1..<?L + 1]" by simp
  moreover have "getitem W_b_dict (''W'' @ str l) = Inr (Ws l)
         \<and> getitem W_b_dict (''b'' @ str l) = Inr (bs l)
         \<and> getitem grads (''dW'' @ str l) = Inr (dWs l)
         \<and> getitem grads (''db'' @ str l) = Inr (dbs l)
         \<and> wf_array (Ws l) \<and> wf_array (dWs l) \<and> wf_array (dbs l)
         \<and> shape (dWs l) = shape (Ws l) \<and> shape (dbs l) = shape (bs l)"
    if "l \<in> set [1..<?L + 1]" for l
    using that assms [of l] by auto
  ultimately obtain d' where
    run: "for_loop [1..<?L + 1] (update_layer grads learning_rate L2_norm) W_b_dict = Inr d'"
    and upd: "\<forall>l\<in>set [1..<?L + 1].
        getitem d' (''W'' @ str l) = Inr (updated_W learning_rate L2_norm (Ws l) (dWs l))
      \<and> getitem d' (''b'' @ str l) = Inr (updated_b learning_rate (bs l) (dbs l))"
    using update_loop [of "[1..<?L + 1]" W_b_dict Ws bs grads dWs dbs learning_rate L2_norm]
    by blast
  have "\<exists>W' b'. getitem d' (''W'' @ str l) = Inr W' \<and> getitem d' (''b'' @ str l) = Inr b'
                 \<and> shape W' = shape (Ws l) \<and> shape b' = shape (bs l)
                 \<and> (\<forall>i<nrows (Ws l). \<forall>j<ncols (Ws l).
                      cell W' i j =
                        (if L2_norm
                         then cell (Ws l) i j - learning_rate * cell (dWs l) i j
                                - learning_rate\<^sup>2 * cell (Ws l) i j
                         else cell (Ws l) i j - learning_rate * cell (dWs l) i j))
                 \<and> (\<forall>i<nrows (bs l). \<forall>j<ncols (bs l).
                      cell b' i j = cell (bs l) i j - learning_rate * cell (dbs l) i j)"
    if "1 \<le> l" "l \<le> ?L" for l
  proof (intro exI conjI)
    show "getitem d' (''W'' @ str l) = Inr (updated_W learning_rate L2_norm (Ws l) (dWs l))"
      "getitem d' (''b'' @ str l) = Inr (updated_b learning_rate (bs l) (dbs l))"
      using upd that by auto
    show "shape (updated_W learning_rate L2_norm (Ws l) (dWs l)) = shape (Ws l)"
      "shape (updated_b learning_rate (bs l) (dbs l)) = shape (bs l)"
      by (simp_all add: updated_W_def updated_b_def shape_def)
    show "\<forall>i<nrows (Ws l). \<forall>j<ncols (Ws l).
            cell (updated_W learning_rate L2_norm (Ws l) (dWs l)) i j =
              (if L2_norm
               then cell (Ws l) i j - learning_rate * cell (dWs l) i j
                      - learning_rate\<^sup>2 * cell (Ws l) i j
               else cell (Ws l) i j - learning_rate * cell (dWs l) i j)"
      by (simp add: updated_W_def power2_eq_square algebra_simps)
    show "\<forall>i<nrows (bs l). \<forall>j<ncols (bs l).
            cell (updated_b learning_rate (bs l) (dbs l)) i j
              = cell (bs l) i j - learning_rate * cell (dbs l) i j"
      by (simp add: updated_b_def)
  qed
  with run show ?thesis
    by (auto simp: update_parameters_def)
qed


theorem update_parameters_formulas_witness:
  "\<exists>d' W' b'.
     update_parameters [(''W1'', NDArray 2 [[1, 2]]), (''b1'', NDArray 1 [[1]])]
       [(''dW1'', NDArray 2 [[10, 20]]), (''db1'', NDArray 1 [[4]])] (1 / 2) True = Inr d'
     \<and> getitem d' ''W1'' = Inr W' \<and> getitem d' ''b1'' = Inr b'
     \<and> cell W' 0 0 = - 17 / 4 \<and> cell W' 0 1 = - 17 / 2 \<and> cell b' 0 0 = - 1"
proof -
  let ?W = "NDArray 2 [[1, 2 :: real]]" and ?b = "NDArray 1 [[1 :: real]]"
  let ?dW = "NDArray 2 [[10, 20 :: real]]" and ?db = "NDArray 1 [[4 :: real]]"
  let ?d = "[(''W1'', ?W), (''b1'', ?b)]" and ?g = "[(''dW1'', ?dW), (''db1'', ?db)]"
  have pre: "getitem ?d (''W'' @ str l) = Inr ?W \<and> getitem ?d (''b'' @ str l) = Inr ?b
         \<and> getitem ?g (''dW'' @ str l) = Inr ?dW \<and> getitem ?g (''db'' @ str l) = Inr ?db
         \<and> wf_array ?W \<and> wf_array ?dW \<and> wf_array ?db
         \<and> shape ?dW = shape ?W \<and> shape ?db = shape ?b"
    if "1 \<le> l" "l \<le> length ?d div 2" for l
  proof -
    from that have "l = 1" by simp
    then show ?thesis
      by (simp add: str_Suc_0 getitem_def wf_array_def shape_def nrows_def)
  qed
  from update_parameters_formulas [of ?d "\<lambda>_. ?W" "\<lambda>_. ?b" ?g "\<lambda>_. ?dW" "\<lambda>_. ?db" "1 / 2" True, OF pre]
  obtain d' where run: "update_parameters ?d ?g (1 / 2) True = Inr d'"
    and all: "\<forall>l. 1 \<le> l \<and> l \<le> length ?d div 2 \<longrightarrow>
              (\<exists>W' b'. getitem d' (''W'' @ str l) = Inr W' \<and> getitem d' (''b'' @ str l) = Inr b'
                 \<and> shape W' = shape ?W \<and> shape b' = shape ?b
                 \<and> (\<forall>i<nrows ?W. \<forall>j<ncols ?W.
                      cell W' i j = (if True then cell ?W i j - 1 / 2 * cell ?dW i j
                                - (1 / 2)\<^sup>2 * cell ?W i j
                         else cell ?W i j - 1 / 2 * cell ?dW i j))
                 \<and> (\<forall>i<nrows ?b. \<forall>j<ncols ?b. cell b' i j = cell ?b i j - 1 / 2 * cell ?db i j))"
    by blast
  from all [rule_format, of 1]
  obtain W' b' where get: "getitem d' ''W1'' = Inr W'" "getitem d' ''b1'' = Inr b'"
    and W': "\<forall>i<nrows ?W. \<forall>j<ncols ?W.
               cell W' i j = cell ?W i j - 1 / 2 * cell ?dW i j - (1 / 2)\<^sup>2 * cell ?W i j"
    and b': "\<forall>i<nrows ?b. \<forall>j<ncols ?b. cell b' i j = cell ?b i j - 1 / 2 * cell ?db i j"
    by (auto simp: str_Suc_0)
  have "cell W' 0 0 = - 17 / 4" "cell W' 0 1 = - 17 / 2"
    using W' by (simp_all add: nrows_def cell_def power2_eq_square)
  moreover have "cell b' 0 0 = - 1"
    using b' by (simp add: nrows_def cell_def)
  ultimately show ?thesis
    using run get by blast
qed

text \<open>
  C4 (amended). For a prediction \<open>AL\<close> and a label matrix \<open>Y\<close> of the same shape \<open>(k, m)\<close> with
  \<open>m \<ge> 1\<close> samples, \<open>compute_cost\<close> returns \<open>-(1/m)\<close> times the sum of \<open>Y * ln(AL clipped)\<close>,
  the clip interval being \<open>[\<epsilon>, 1 - \<epsilon>]\<close> with \<open>\<epsilon> = 10\<^sup>-\<^sup>1\<^sup>0\<close>. Against a one-hot \<open>Y\<close> it equals
  \<open>ln k\<close> when every entry of \<open>AL\<close> is \<open>1/k\<close> and \<open>2 \<le> k \<le> 10\<^sup>1\<^sup>0\<close> (so that \<open>1/k\<close> lies
  inside the clip interval), and it equals \<open>-ln(1 - \<epsilon>)\<close>, a value in \<open>(0, 2\<epsilon>]\<close>, when
  \<open>AL = Y\<close>.

  The statement of the specification (equality with \<open>ln k\<close> for every \<open>k\<close>) fails for a
  single class: there the uniform prediction is 1, the clip lowers it to \<open>1 - \<epsilon>\<close>, and the cost is
  \<open>-ln(1 - \<epsilon>) > 0 = ln 1\<close>.
\<close>

theorem compute_cost_cross_entropy:
  assumes "wf_array AL" "shape AL = (k, m)" "shape Y = (k, m)" "0 < m"
  shows "compute_cost AL Y
           = Inr (- (1 / real m) * (\<Sum>i<k. \<Sum>j<m. cell Y i j * ln (clipped (cell AL i j))))
       \<and> (one_hot Y \<and> 2 \<le> k \<and> k \<le> 10 ^ 10 \<and> (\<forall>i<k. \<forall>j<m. cell AL i j = 1 / real k)
            \<longrightarrow> compute_cost AL Y = Inr (ln (real k)))
       \<and> (one_hot Y \<and> AL = Y
            \<longrightarrow> compute_cost AL Y = Inr (- ln (1 - 1 / 10 ^ 10))
              \<and> 0 < - ln (1 - 1 / 10 ^ 10 :: real) \<and> - ln (1 - 1 / 10 ^ 10 :: real) \<le> 2 / 10 ^ 10)"
proof (intro conjI impI)
  have dims: "nrows AL = k" "ncols AL = m" "nrows Y = k" "ncols Y = m"
    using assms by (simp_all add: shape_def)
  show cost: "compute_cost AL Y
           = Inr (- (1 / real m) * (\<Sum>i<k. \<Sum>j<m. cell Y i j * ln (clipped (cell AL i j))))"
    using assms by (rule compute_cost_sum)
  {
    assume u: "one_hot Y \<and> 2 \<le> k \<and> k \<le> 10 ^ 10 \<and> (\<forall>i<k. \<forall>j<m. cell AL i j = 1 / real k)"
    then have "2 \<le> k" "k \<le> 10 ^ 10"
      by blast+
    then have "real 2 \<le> real k" "real k \<le> real (10 ^ 10)"
      by (simp_all only: of_nat_le_iff)
    then have k: "2 \<le> real k" "real k \<le> 10 ^ 10"
      by simp_all
    have lo: "1 / 10 ^ 10 \<le> 1 / real k"
      using k by (simp add: field_simps)
    have "1 / real k \<le> 1 / 2"
      using k by (simp add: field_simps)
    then have hi: "1 / real k \<le> 1 - 1 / 10 ^ 10"
      by simp
    have inside: "clipped (1 / real k) = 1 / real k"
      using lo hi by (rule clipped_inside)
    have "(\<Sum>i<k. \<Sum>j<m. cell Y i j * ln (clipped (cell AL i j)))
            = (\<Sum>i<k. \<Sum>j<m. cell Y i j * ln (1 / real k))"
      using u inside by (intro sum.cong refl) simp
    also have "\<dots> = (\<Sum>j<m. \<Sum>i<k. cell Y i j * ln (1 / real k))"
      by (rule sum.swap)
    also have "\<dots> = (\<Sum>j<m. ln (1 / real k))"
    proof (intro sum.cong refl)
      fix j assume "j \<in> {..<m}"
      then have "j < ncols Y" using dims by simp
      from one_hot_column_pick [OF _ this, of "\<lambda>_. ln (1 / real k)"] u dims
      show "(\<Sum>i<k. cell Y i j * ln (1 / real k)) = ln (1 / real k)"
        by simp
    qed
    also have "\<dots> = - (real m * ln (real k))"
      using k by (simp add: ln_div)
    finally show "compute_cost AL Y = Inr (ln (real k))"
      using cost assms(4) by simp
  }
  {
    assume p: "one_hot Y \<and> AL = Y"
    have "(\<Sum>i<k. \<Sum>j<m. cell Y i j * ln (clipped (cell AL i j)))
            = (\<Sum>j<m. \<Sum>i<k. cell Y i j * ln (clipped (cell Y i j)))"
      using p by (simp add: sum.swap [of _ "{..<m}"])
    also have "\<dots> = (\<Sum>j<m. ln (clipped 1))"
    proof (intro sum.cong refl)
      fix j assume "j \<in> {..<m}"
      then have "j < ncols Y" using dims by simp
      from one_hot_column_pick [OF _ this, of "\<lambda>y. ln (clipped y)"] p dims
      show "(\<Sum>i<k. cell Y i j * ln (clipped (cell Y i j))) = ln (clipped 1)"
        by simp
    qed
    also have "\<dots> = real m * ln (1 - 1 / 10 ^ 10)"
      by (simp add: clipped_one)
    finally show "compute_cost AL Y = Inr (- ln (1 - 1 / 10 ^ 10))"
      using cost assms(4) by simp
  }
  show "0 < - ln (1 - 1 / 10 ^ 10 :: real)" "- ln (1 - 1 / 10 ^ 10 :: real) \<le> 2 / 10 ^ 10"
    by (rule neg_ln_floor)+
qed


theorem compute_cost_cross_entropy_witness:
  "compute_cost (NDArray 2 [[1 / 2, 1 / 2], [1 / 2, 1 / 2]]) (NDArray 2 [[1, 0], [0, 1]])
     = Inr (ln 2)
   \<and> compute_cost (NDArray 2 [[1, 0], [0, 1]]) (NDArray 2 [[1, 0], [0, 1]])
     = Inr (- ln (1 - 1 / 10 ^ 10))"
proof -
  let ?U = "NDArray 2 [[1 / 2, 1 / 2], [1 / 2, 1 / 2 :: real]]"
  let ?Y = "NDArray 2 [[1, 0], [0, 1 :: real]]"
  have wf: "wf_array ?U" "wf_array ?Y"
    by (simp_all add: wf_array_def)
  have sh: "shape ?U = (2, 2)" "shape ?Y = (2, 2)"
    by (simp_all add: shape_def nrows_def)
  have two: "0 < (2 :: nat)" by simp
  have uniform: "\<forall>i<2. \<forall>j<2. cell ?U i j = 1 / real 2"
    by (auto simp: cell_def less_2_cases_iff)
  have range: "(2 :: nat) \<le> 2" "(2 :: nat) \<le> 10 ^ 10"
    by simp_all
  from compute_cost_cross_entropy [OF wf(1) sh(1) sh(2) two] one_hot_identity2 uniform range
  have a: "compute_cost ?U ?Y = Inr (ln (real 2))"
    by blast
  from compute_cost_cross_entropy [OF wf(2) sh(2) sh(2) two] one_hot_identity2
  have b: "compute_cost ?Y ?Y = Inr (- ln (1 - 1 / 10 ^ 10))"
    by blast
  from a b show ?thesis by simp
qed

theorem compute_cost_single_class_counterexample:
  "one_hot (NDArray 1 [[1]]) \<and> cell (NDArray 1 [[1]]) 0 0 = 1 / real 1
   \<and> compute_cost (NDArray 1 [[1]]) (NDArray 1 [[1]]) \<noteq> Inr (ln (real 1))"
proof -
  let ?Y = "NDArray 1 [[1 :: real]]"
  have "wf_array ?Y" "shape ?Y = (1, 1)" "0 < (1 :: nat)"
    by (simp_all add: wf_array_def shape_def nrows_def)
  from compute_cost_sum [OF this(1,2,2,3)]
  have "compute_cost ?Y ?Y = Inr (- ln (1 - 1 / 10 ^ 10))"
    by (simp add: cell_def clipped_one)
  moreover have "- ln (1 - 1 / 10 ^ 10 :: real) \<noteq> 0"
    using neg_ln_floor(1) by simp
  ultimately show ?thesis
    using one_hot_single by (simp add: cell_def)
qed




text \<open>
  C8. The specification lets a network with a single layer (a list of two widths) complete
  one forward pass, backward pass and update. The code does not: \<open>L_model_forward\<close> addresses
  the last layer through the variable of the loop over the ReLU layers, which a single
  layer leaves unbound. Whatever the input and the flag, a parameter dictionary of at most
  one layer makes the forward pass raise UnboundLocalError, so no gradient and no update
  is ever computed.
\<close>

theorem L_model_forward_single_layer_unbound:
  assumes "length W_b_dict div 2 \<le> 1"
  shows "L_model_forward X W_b_dict use_batchnorm = Inl UnboundLocalError"
proof -
  have "[1..<length W_b_dict div 2] = []"
    using assms by simp
  then show ?thesis
    using assms by (simp add: L_model_forward_def Let_def)
qed

theorem L_model_forward_single_layer_unbound_witness:
  "length [(''W1'', NDArray 2 [[1, 0], [0, 1 :: real]]), (''b1'', NDArray 1 [[0], [0]])] div 2 = 1
   \<and> L_model_forward (NDArray 3 [[1, 2, 3], [4, 5, 6]])
         [(''W1'', NDArray 2 [[1, 0], [0, 1]]), (''b1'', NDArray 1 [[0], [0]])] False
       = Inl UnboundLocalError"
proof -
  let ?d = "[(''W1'', NDArray 2 [[1, 0], [0, 1 :: real]]), (''b1'', NDArray 1 [[0], [0]])]"
  have h: "length ?d div 2 \<le> 1" by simp
  from L_model_forward_single_layer_unbound [OF h] show ?thesis by simp
qed

text \<open>
  C5. \<open>L_layer_model\<close> runs the loop over the epochs from the initial parameters, with both
  accuracies at 0 and the number of iterations as its budget; an epoch is a pass over the
  mini-batches followed by \<open>predict\<close> on the validation set. After every epoch the loop
  compares the validation accuracy with that of the epoch before (0 before the first).
  Along a run whose epochs and validations succeed, with parameters \<open>s 1, s 2, ...\<close> and
  accuracies \<open>a 1, a 2, ...\<close>, training ends after the first epoch whose accuracy exceeds
  the previous one by less than \<open>10\<^sup>-\<^sup>8\<close> (a decrease included): the flag is set and the
  result is computed from the parameters of that epoch, no later epoch being run; when no
  epoch of the budget is such, all of them are run and the flag stays unset. On the
  synthetic accuracies 0.10, 0.50, 0.50000000005 the loop stops after the third epoch for
  every budget of at least 3, and a budget of 1 or 2 is used up without the flag.
\<close>

theorem L_layer_model_convergence:
  assumes split: "split_data indices X Y = Inr (Xt, Yt, X_train, X_val, Y_train, Y_val)"
    and init: "initialize_parameters rnd 0 layers_dims = Inr (pos, W0)"
    and batches: "cut_batches X_train Y_train batch_size = Inr (Xb, Yb)"
  shows "L_layer_model rnd indices X Y layers_dims lr num_iterations batch_size bn L2
           = ebind (epoch_loop (epoch_pass Xb Yb layers_dims lr bn L2)
                      (validation X_val Y_val bn) [0..<nat num_iterations]
                      \<lparr>trained = (W0, [], 0), current_accuracy = Some 0,
                       prev_accuracy = Some 0, stop_sign = False,
                       iteration = (if Xb = [] then None else Some (length Xb - 1))\<rparr>)
               (final_report Xt Yt X_val Y_val bn)
       \<and> (\<forall>s a e0.
             e0 < nat num_iterations \<and> s 0 = (W0, [], 0) \<and> a 0 = Some 0
             \<and> (\<forall>e\<le>e0. epoch_pass Xb Yb layers_dims lr bn L2 (s e) = Inr (s (Suc e))
                      \<and> validation X_val Y_val bn (s (Suc e)) = Inr (a (Suc e)))
             \<and> (\<forall>e<e0. \<not> not_improving (a (Suc e)) (a e))
             \<and> not_improving (a (Suc e0)) (a e0)
             \<longrightarrow> L_layer_model rnd indices X Y layers_dims lr num_iterations batch_size bn L2
                   = final_report Xt Yt X_val Y_val bn
                       \<lparr>trained = s (Suc e0), current_accuracy = a (Suc e0),
                        prev_accuracy = a e0, stop_sign = True, iteration = Some e0\<rparr>)
       \<and> (\<forall>s a.
             0 < nat num_iterations \<and> s 0 = (W0, [], 0) \<and> a 0 = Some 0
             \<and> (\<forall>e<nat num_iterations.
                    epoch_pass Xb Yb layers_dims lr bn L2 (s e) = Inr (s (Suc e))
                  \<and> validation X_val Y_val bn (s (Suc e)) = Inr (a (Suc e))
                  \<and> \<not> not_improving (a (Suc e)) (a e))
             \<longrightarrow> L_layer_model rnd indices X Y layers_dims lr num_iterations batch_size bn L2
                   = final_report Xt Yt X_val Y_val bn
                       \<lparr>trained = s (nat num_iterations),
                        current_accuracy = a (nat num_iterations),
                        prev_accuracy = a (nat num_iterations), stop_sign = False,
                        iteration = Some (nat num_iterations - 1)\<rparr>)
       \<and> (\<forall>c p. not_improving (Some c) (Some p) \<longleftrightarrow> c - p < 1 / 10 ^ 8)
       \<and> (\<forall>m it. 3 \<le> m \<longrightarrow>
             epoch_loop (\<lambda>k. Inr (Suc k)) (\<lambda>k. Inr (Some (synthetic_accuracy k))) [0..<m]
                  \<lparr>trained = 0, current_accuracy = Some 0, prev_accuracy = Some 0,
                   stop_sign = False, iteration = it\<rparr>
                = Inr \<lparr>trained = 3, current_accuracy = Some (synthetic_accuracy 3),
                       prev_accuracy = Some (synthetic_accuracy 2), stop_sign = True,
                       iteration = Some 2\<rparr>)
       \<and> (\<forall>m it. 0 < m \<and> m < 3 \<longrightarrow>
              epoch_loop (\<lambda>k. Inr (Suc k)) (\<lambda>k. Inr (Some (synthetic_accuracy k))) [0..<m]
                  \<lparr>trained = 0, current_accuracy = Some 0, prev_accuracy = Some 0,
                   stop_sign = False, iteration = it\<rparr>
                = Inr \<lparr>trained = m, current_accuracy = Some (synthetic_accuracy m),
                       prev_accuracy = Some (synthetic_accuracy m), stop_sign = False,
                       iteration = Some (m - 1)\<rparr>)"
proof -
  let ?train = "epoch_pass Xb Yb layers_dims lr bn L2"
  let ?validate = "validation X_val Y_val bn"
  let ?n = "nat num_iterations"
  let ?it = "if Xb = [] then None else Some (length Xb - 1)"
  let ?run = "L_layer_model rnd indices X Y layers_dims lr num_iterations batch_size bn L2"
  have run: "?run = ebind (epoch_loop ?train ?validate [0..<?n]
                      \<lparr>trained = (W0, [], 0), current_accuracy = Some 0,
                       prev_accuracy = Some 0, stop_sign = False, iteration = ?it\<rparr>)
               (final_report Xt Yt X_val Y_val bn)"
    by (simp add: L_layer_model_def split init batches)
  have stop: "?run = final_report Xt Yt X_val Y_val bn
                       \<lparr>trained = s (Suc e0), current_accuracy = a (Suc e0),
                        prev_accuracy = a e0, stop_sign = True, iteration = Some e0\<rparr>"
    if h: "e0 < ?n \<and> s 0 = (W0, [], 0) \<and> a 0 = Some 0
             \<and> (\<forall>e\<le>e0. ?train (s e) = Inr (s (Suc e)) \<and> ?validate (s (Suc e)) = Inr (a (Suc e)))
             \<and> (\<forall>e<e0. \<not> not_improving (a (Suc e)) (a e))
             \<and> not_improving (a (Suc e0)) (a e0)"
    for s a e0
  proof -
    have "epoch_loop ?train ?validate [0..<?n]
            \<lparr>trained = s 0, current_accuracy = Some 0, prev_accuracy = a 0,
             stop_sign = False, iteration = ?it\<rparr>
          = Inr \<lparr>trained = s (Suc e0), current_accuracy = a (Suc e0),
                 prev_accuracy = a e0, stop_sign = True, iteration = Some e0\<rparr>"
    proof (rule epoch_loop_converged)
      show "?train (s e) = Inr (s (Suc e)) \<and> ?validate (s (Suc e)) = Inr (a (Suc e))"
        if "e \<le> e0" for e
        using h that by blast
      show "\<not> not_improving (a (Suc e)) (a e)" if "e < e0" for e
        using h that by blast
      show "not_improving (a (Suc e0)) (a e0)" using h by blast
      show "0 \<le> e0" by simp
      show "e0 < ?n" using h by blast
    qed
    moreover have "s 0 = (W0, [], 0)" "a 0 = Some 0"
      using h by blast+
    ultimately show ?thesis
      unfolding run by simp
  qed
  have exhaust: "?run = final_report Xt Yt X_val Y_val bn
                       \<lparr>trained = s ?n, current_accuracy = a ?n, prev_accuracy = a ?n,
                        stop_sign = False, iteration = Some (?n - 1)\<rparr>"
    if h: "0 < ?n \<and> s 0 = (W0, [], 0) \<and> a 0 = Some 0
             \<and> (\<forall>e<?n. ?train (s e) = Inr (s (Suc e)) \<and> ?validate (s (Suc e)) = Inr (a (Suc e))
                  \<and> \<not> not_improving (a (Suc e)) (a e))"
    for s a
  proof -
    have "epoch_loop ?train ?validate [0..<?n]
            \<lparr>trained = s 0, current_accuracy = Some 0, prev_accuracy = a 0,
             stop_sign = False, iteration = ?it\<rparr>
          = Inr \<lparr>trained = s ?n, current_accuracy = a ?n, prev_accuracy = a ?n,
                 stop_sign = False, iteration = Some (?n - 1)\<rparr>"
    proof (rule epoch_loop_exhausted)
      show "?train (s e) = Inr (s (Suc e)) \<and> ?validate (s (Suc e)) = Inr (a (Suc e))"
        if "e < ?n" for e
        using h that by blast
      show "\<not> not_improving (a (Suc e)) (a e)" if "e < ?n" for e
        using h that by blast
      show "0 < ?n" using h by blast
    qed
    moreover have "s 0 = (W0, [], 0)" "a 0 = Some 0"
      using h by blast+
    ultimately show ?thesis
      unfolding run by simp
  qed
  have threshold: "\<forall>c p. not_improving (Some c) (Some p) \<longleftrightarrow> c - p < 1 / 10 ^ 8"
    by (simp add: not_improving_def)
  have long: "\<forall>m it. 3 \<le> m \<longrightarrow>
             epoch_loop (\<lambda>k. Inr (Suc k)) (\<lambda>k. Inr (Some (synthetic_accuracy k))) [0..<m]
                  \<lparr>trained = 0, current_accuracy = Some 0, prev_accuracy = Some 0,
                   stop_sign = False, iteration = it\<rparr>
                = Inr \<lparr>trained = 3, current_accuracy = Some (synthetic_accuracy 3),
                       prev_accuracy = Some (synthetic_accuracy 2), stop_sign = True,
                       iteration = Some 2\<rparr>"
    using synthetic_run by blast
  have short: "\<forall>m it. 0 < m \<and> m < 3 \<longrightarrow>
              epoch_loop (\<lambda>k. Inr (Suc k)) (\<lambda>k. Inr (Some (synthetic_accuracy k))) [0..<m]
                  \<lparr>trained = 0, current_accuracy = Some 0, prev_accuracy = Some 0,
                   stop_sign = False, iteration = it\<rparr>
                = Inr \<lparr>trained = m, current_accuracy = Some (synthetic_accuracy m),
                       prev_accuracy = Some (synthetic_accuracy m), stop_sign = False,
                       iteration = Some (m - 1)\<rparr>"
    using synthetic_short_run by blast
  show ?thesis
    using run stop exhaust threshold long short by blast
qed

theorem L_layer_model_convergence_witness:
  "L_layer_model (\<lambda>n. 1 / 2) [0, 1, 2, 3, 4] (NDArray 5 [[1, 2, 3, 4, 5]])
     (NDArray 5 [[1, 1, 1, 1, 1], [0, 0, 0, 0, 0]]) [1, 1, 2] 1 5 4 False False
   = Inr (bias_net (bias_step (bias_step 0)), [], Some 1, Some 1)
   \<and> L_layer_model (\<lambda>n. 1 / 2) [0, 1, 2, 3, 4] (NDArray 5 [[1, 2, 3, 4, 5]])
       (NDArray 5 [[1, 1, 1, 1, 1], [0, 0, 0, 0, 0]]) [1, 1, 2] 1 1 4 False False
     = Inr (bias_net (bias_step 0), [], Some 1, Some 1)
   \<and> bias_step 0 < bias_step (bias_step 0)"
proof -
  let ?X = "NDArray 5 [[1, 2, 3, 4, 5 :: real]]"
  let ?Y = "NDArray 5 [[1, 1, 1, 1, 1], [0, 0, 0, 0, 0 :: real]]"
  let ?Xb = "[NDArray 4 [[1, 2, 3, 4 :: real]]]" and ?Yb = "[first_class 4]"
  let ?Xv = "NDArray 1 [[5 :: real]]" and ?Yv = "NDArray 2 [[1, 0 :: real]]"
  let ?s = "\<lambda>e :: nat. (bias_net ((bias_step ^^ e) 0), [] :: real list, e)"
  let ?a = "\<lambda>e :: nat. if e = 0 then Some 0 else Some (1 :: real)"
  have epoch: "epoch_pass ?Xb ?Yb [1, 1, 2] 1 False False (?s e) = Inr (?s (Suc e))
                 \<and> validation ?Xv ?Yv False (?s (Suc e)) = Inr (?a (Suc e))"
    if "e \<le> 1" for e
  proof -
    have "shape (NDArray 4 [[1, 2, 3, 4 :: real]]) = (1, 4)"
      by (simp add: shape_def)
    moreover have "Suc e mod 100 \<noteq> 0"
      using that by simp
    ultimately have "epoch_pass ?Xb ?Yb [1, 1, 2] 1 False False (?s e) = Inr (?s (Suc e))"
      using bias_net_epoch [where X = "NDArray 4 [[1, 2, 3, 4]]" and m = 4 and n = e
          and layers_dims = "[1, 1, 2]" and \<beta> = "(bias_step ^^ e) 0" and costs = "[]"
          and bn = False]
      by simp
    moreover have "validation ?Xv ?Yv False (?s (Suc e)) = Inr (?a (Suc e))"
      using validation_example [OF bias_steps_nonneg [of "Suc e"], of False "[]" "Suc e"] by simp
    ultimately show ?thesis by blast
  qed
  have start: "?s 0 = (bias_net 0, [], 0)" "?a 0 = Some 0"
    by simp_all
  have go: "\<not> not_improving (?a (Suc 0)) (?a 0)"
    by (simp add: not_improving_def)
  have stall: "not_improving (?a (Suc 1)) (?a 1)"
    by (simp add: not_improving_def)
  note long = L_layer_model_convergence [OF split_example init_example batches_example,
      of 1 5 False False]
  have h1: "1 < nat 5 \<and> ?s 0 = (bias_net 0, [], 0) \<and> ?a 0 = Some 0
          \<and> (\<forall>e\<le>1. epoch_pass ?Xb ?Yb [1, 1, 2] 1 False False (?s e) = Inr (?s (Suc e))
                   \<and> validation ?Xv ?Yv False (?s (Suc e)) = Inr (?a (Suc e)))
          \<and> (\<forall>e<1. \<not> not_improving (?a (Suc e)) (?a e))
          \<and> not_improving (?a (Suc 1)) (?a 1)"
  proof (intro conjI allI impI)
    show "1 < nat 5" by simp
    show "?s 0 = (bias_net 0, [], 0)" by simp
    show "?a 0 = Some 0" by simp
    show "epoch_pass ?Xb ?Yb [1, 1, 2] 1 False False (?s e) = Inr (?s (Suc e))" if "e \<le> 1" for e
      using epoch [OF that] by (rule conjunct1)
    show "validation ?Xv ?Yv False (?s (Suc e)) = Inr (?a (Suc e))" if "e \<le> 1" for e
      using epoch [OF that] by (rule conjunct2)
    show "\<not> not_improving (?a (Suc e)) (?a e)" if "e < 1" for e
      using that go by simp
    show "not_improving (?a (Suc 1)) (?a 1)" by (rule stall)
  qed
  have "L_layer_model (\<lambda>n. 1 / 2) [0, 1, 2, 3, 4] ?X ?Y [1, 1, 2] 1 5 4 False False
      = final_report (NDArray 1 [[1], [2], [3], [4], [5]])
          (NDArray 2 [[1, 0], [1, 0], [1, 0], [1, 0], [1, 0]]) ?Xv ?Yv False
          \<lparr>trained = ?s (Suc 1), current_accuracy = ?a (Suc 1), prev_accuracy = ?a 1,
           stop_sign = True, iteration = Some 1\<rparr>"
    by (rule long [THEN conjunct2, THEN conjunct1, THEN spec [of _ ?s], THEN spec [of _ ?a],
          THEN spec [of _ 1], THEN mp, OF h1])
  also have "\<dots> = Inr (bias_net (bias_step (bias_step 0)), [], Some 1, Some 1)"
    using final_report_example [OF bias_steps_nonneg [of 2]]
    by (simp add: numeral_2_eq_2)
  finally have first: "L_layer_model (\<lambda>n. 1 / 2) [0, 1, 2, 3, 4] ?X ?Y [1, 1, 2] 1 5 4 False False
      = Inr (bias_net (bias_step (bias_step 0)), [], Some 1, Some 1)" .
  note short = L_layer_model_convergence [OF split_example init_example batches_example,
      of 1 1 False False]
  have h2: "0 < nat 1 \<and> ?s 0 = (bias_net 0, [], 0) \<and> ?a 0 = Some 0
          \<and> (\<forall>e<nat 1. epoch_pass ?Xb ?Yb [1, 1, 2] 1 False False (?s e) = Inr (?s (Suc e))
                   \<and> validation ?Xv ?Yv False (?s (Suc e)) = Inr (?a (Suc e))
                   \<and> \<not> not_improving (?a (Suc e)) (?a e))"
  proof (intro conjI allI impI)
    show "0 < nat 1" by simp
    show "?s 0 = (bias_net 0, [], 0)" by simp
    show "?a 0 = Some 0" by simp
    show "epoch_pass ?Xb ?Yb [1, 1, 2] 1 False False (?s e) = Inr (?s (Suc e))" if "e < nat 1" for e
      using epoch [of e] that by simp
    show "validation ?Xv ?Yv False (?s (Suc e)) = Inr (?a (Suc e))" if "e < nat 1" for e
      using epoch [of e] that by simp
    show "\<not> not_improving (?a (Suc e)) (?a e)" if "e < nat 1" for e
      using that go by simp
  qed
  have "L_layer_model (\<lambda>n. 1 / 2) [0, 1, 2, 3, 4] ?X ?Y [1, 1, 2] 1 1 4 False False
      = final_report (NDArray 1 [[1], [2], [3], [4], [5]])
          (NDArray 2 [[1, 0], [1, 0], [1, 0], [1, 0], [1, 0]]) ?Xv ?Yv False
          \<lparr>trained = ?s (nat 1), current_accuracy = ?a (nat 1), prev_accuracy = ?a (nat 1),
           stop_sign = False, iteration = Some (nat 1 - 1)\<rparr>"
    by (rule short [THEN conjunct2, THEN conjunct2, THEN conjunct1, THEN spec [of _ ?s],
          THEN spec [of _ ?a], THEN mp, OF h2])
  also have "\<dots> = Inr (bias_net (bias_step 0), [], Some 1, Some 1)"
    using final_report_example [OF bias_steps_nonneg [of 1]] by simp
  finally have second: "L_layer_model (\<lambda>n. 1 / 2) [0, 1, 2, 3, 4] ?X ?Y [1, 1, 2] 1 1 4 False False
      = Inr (bias_net (bias_step 0), [], Some 1, Some 1)" .
  have "bias_step 0 < bias_step (bias_step 0)"
    using first_share_bounds(2) [of "bias_step 0"] by (simp add: bias_step_def [of "bias_step 0"])
  with first second show ?thesis by blast
qed

text \<open>
  C1. For an output \<open>AL\<close> and a label matrix \<open>Y\<close> of the same shape, the backward pass starts
  from \<open>dAL = -(Y/AL - (1 - Y)/(1 - AL))\<close>, taken entry by entry, and the softmax backward
  step, on the cached pre-activation \<open>Z\<close> of the last layer, returns
  \<open>dZ = dAL * A * (1 - A)\<close> with \<open>A\<close> the column-wise softmax of \<open>Z\<close>: the surrogate formula.
  \<open>L_model_backward\<close> hands exactly this \<open>dZ\<close> to \<open>linear_backward\<close> on the last cache and
  stores the result under the number of the last layer. The same formula holds for
  \<open>softmax_backward\<close> on any gradient of that shape. The two quotients have a value where no
  entry of \<open>AL\<close> is 0 or 1; at such an entry numpy stores \<open>inf\<close> or \<open>nan\<close> in \<open>dAL\<close>, and the
  gradient of the model is \<open>NonFinite\<close>. The surrogate is not the Jacobian-vector product of the
  softmax: on two equal pre-activations and the gradient \<open>(1, 1)\<close> it returns \<open>1/4\<close> where the
  product is 0.
\<close>

theorem output_gradient_and_softmax_backward:
  assumes "wf_array AL" "wf_array Y" "wf_array Z"
    and "shape AL = (k, m)" "shape Y = (k, m)" "shape Z = (k, m)"
  shows "((\<forall>i<k. \<forall>j<m. cell AL i j \<noteq> 0 \<and> cell AL i j \<noteq> 1) \<longrightarrow>
           (\<exists>dAL dZ.
              initial_gradient AL Y = Inr dAL \<and> shape dAL = (k, m)
            \<and> (\<forall>i<k. \<forall>j<m.
                  cell dAL i j
                    = - (cell Y i j / cell AL i j - (1 - cell Y i j) / (1 - cell AL i j)))
            \<and> softmax_backward dAL Z = Inr dZ \<and> shape dZ = (k, m)
            \<and> (\<forall>i<k. \<forall>j<m.
                  cell dZ i j = cell dAL i j * softmax_cell Z i j * (1 - softmax_cell Z i j))
            \<and> (\<forall>caches linear_cache. caches \<noteq> [] \<and> last caches = (linear_cache, Z) \<longrightarrow>
                  L_model_backward AL Y caches =
                    ebind (linear_backward dZ linear_cache) (\<lambda>(dA_prev, dW, db).
                      for_loop (rev [0..<length caches - 1]) (backward_layer caches)
                        (setitem (setitem (setitem [] (''dA'' @ str (length caches)) dA_prev)
                           (''dW'' @ str (length caches)) dW)
                           (''db'' @ str (length caches)) db)))))
       \<and> ((\<exists>i<k. \<exists>j<m. cell AL i j = 0 \<or> cell AL i j = 1) \<longrightarrow>
             initial_gradient AL Y = Inl NonFinite)
       \<and> (\<forall>dA. shape dA = (k, m) \<longrightarrow>
             (\<exists>dZ'. softmax_backward dA Z = Inr dZ' \<and> shape dZ' = (k, m)
                \<and> (\<forall>i<k. \<forall>j<m.
                      cell dZ' i j = cell dA i j * softmax_cell Z i j * (1 - softmax_cell Z i j))))
       \<and> (\<exists>dA Z' dZ'. softmax_backward dA Z' = Inr dZ'
                \<and> cell dZ' 0 0 \<noteq> softmax_jvp_cell dA Z' 0 0)"
proof -
  let ?dAL = "tabulate k m
                (\<lambda>i j. - (cell Y i j / cell AL i j - (1 - cell Y i j) / (1 - cell AL i j)))"
  have dims: "nrows Z = k" "ncols Z = m"
    using assms(6) by (simp_all add: shape_def)
  have sb: "softmax_backward dA Z
              = Inr (tabulate k m
                      (\<lambda>i j. cell dA i j * softmax_cell Z i j * (1 - softmax_cell Z i j)))"
    if "shape dA = (k, m)" for dA
    using softmax_backward_cells [OF assms(3), of dA] that assms(6) dims by simp
  let ?dZ = "tabulate k m (\<lambda>i j. cell ?dAL i j * softmax_cell Z i j * (1 - softmax_cell Z i j))"
  have b: "softmax_backward ?dAL Z = Inr ?dZ"
    by (rule sb) simp
  have c1: "\<forall>i<k. \<forall>j<m.
               cell ?dAL i j = - (cell Y i j / cell AL i j - (1 - cell Y i j) / (1 - cell AL i j))"
    by simp
  have c2: "\<forall>i<k. \<forall>j<m.
               cell ?dZ i j = cell ?dAL i j * softmax_cell Z i j * (1 - softmax_cell Z i j)"
    by simp
  have s1: "shape ?dAL = (k, m)" "shape ?dZ = (k, m)"
    by simp_all
  have finite: "\<exists>dAL dZ.
              initial_gradient AL Y = Inr dAL \<and> shape dAL = (k, m)
            \<and> (\<forall>i<k. \<forall>j<m.
                  cell dAL i j
                    = - (cell Y i j / cell AL i j - (1 - cell Y i j) / (1 - cell AL i j)))
            \<and> softmax_backward dAL Z = Inr dZ \<and> shape dZ = (k, m)
            \<and> (\<forall>i<k. \<forall>j<m.
                  cell dZ i j = cell dAL i j * softmax_cell Z i j * (1 - softmax_cell Z i j))
            \<and> (\<forall>caches linear_cache. caches \<noteq> [] \<and> last caches = (linear_cache, Z) \<longrightarrow>
                  L_model_backward AL Y caches =
                    ebind (linear_backward dZ linear_cache) (\<lambda>(dA_prev, dW, db).
                      for_loop (rev [0..<length caches - 1]) (backward_layer caches)
                        (setitem (setitem (setitem [] (''dA'' @ str (length caches)) dA_prev)
                           (''dW'' @ str (length caches)) dW)
                           (''db'' @ str (length caches)) db)))"
    if inside: "\<forall>i<k. \<forall>j<m. cell AL i j \<noteq> 0 \<and> cell AL i j \<noteq> 1"
  proof -
    have g: "initial_gradient AL Y = Inr ?dAL"
      using assms(1,2,4,5) inside by (intro initial_gradient_cells) simp_all
    have link: "L_model_backward AL Y caches =
                   ebind (linear_backward ?dZ linear_cache) (\<lambda>(dA_prev, dW, db).
                     for_loop (rev [0..<length caches - 1]) (backward_layer caches)
                       (setitem (setitem (setitem [] (''dA'' @ str (length caches)) dA_prev)
                          (''dW'' @ str (length caches)) dW) (''db'' @ str (length caches)) db))"
      if "caches \<noteq> [] \<and> last caches = (linear_cache, Z)" for caches linear_cache
      using L_model_backward_last_layer [OF g b] that by blast
    show ?thesis
      using g s1 c1 b c2 link by blast
  qed
  have nonfinite: "initial_gradient AL Y = Inl NonFinite"
    if "\<exists>i<k. \<exists>j<m. cell AL i j = 0 \<or> cell AL i j = 1"
  proof -
    from that obtain i j where "i < k" "j < m" "cell AL i j = 0 \<or> cell AL i j = 1"
      by blast
    with assms(1,2,4,5) show ?thesis
      by (rule initial_gradient_nonfinite)
  qed
  have any: "\<exists>dZ'. softmax_backward dA Z = Inr dZ' \<and> shape dZ' = (k, m)
                  \<and> (\<forall>i<k. \<forall>j<m.
                        cell dZ' i j = cell dA i j * softmax_cell Z i j * (1 - softmax_cell Z i j))"
    if "shape dA = (k, m)" for dA
    using sb [OF that] by simp
  have "cell (NDArray 1 [[1 / 4], [1 / 4 :: real]]) 0 0
          \<noteq> softmax_jvp_cell (NDArray 1 [[1], [1]]) (NDArray 1 [[0], [0]]) 0 0"
    unfolding surrogate_is_not_jvp(2) by (simp add: cell_def)
  with surrogate_is_not_jvp(1)
  have jvp: "\<exists>dA Z' dZ'. softmax_backward dA Z' = Inr dZ'
                  \<and> cell dZ' 0 0 \<noteq> softmax_jvp_cell dA Z' 0 0"
    by blast
  show ?thesis
    using finite nonfinite any jvp by blast
qed

theorem output_gradient_and_softmax_backward_witness:
  "\<exists>dAL dZ.
     initial_gradient (NDArray 2 [[1 / 2, 1 / 2], [1 / 2, 1 / 2]]) (NDArray 2 [[1, 0], [0, 1]])
       = Inr dAL
   \<and> cell dAL 0 0 = - 2 \<and> cell dAL 1 0 = 2
   \<and> softmax_backward dAL (NDArray 2 [[0, 0], [0, 0]]) = Inr dZ
   \<and> cell dZ 0 0 = - 1 / 2 \<and> cell dZ 1 0 = 1 / 2
   \<and> L_model_backward (NDArray 2 [[1 / 2, 1 / 2], [1 / 2, 1 / 2]]) (NDArray 2 [[1, 0], [0, 1]])
         [((NDArray 2 [[1, 0], [0, 1]], NDArray 2 [[1, 1], [1, 1]], NDArray 1 [[0], [0]]),
           NDArray 2 [[0, 0], [0, 0]])]
       = ebind (linear_backward dZ
                  (NDArray 2 [[1, 0], [0, 1]], NDArray 2 [[1, 1], [1, 1]], NDArray 1 [[0], [0]]))
           (\<lambda>(dA_prev, dW, db).
              Inr (setitem (setitem (setitem [] ''dA1'' dA_prev) ''dW1'' dW) ''db1'' db))
   \<and> initial_gradient (NDArray 2 [[1, 0], [0, 1]]) (NDArray 2 [[1, 0], [0, 1]]) = Inl NonFinite"
proof -
  let ?AL = "NDArray 2 [[1 / 2, 1 / 2], [1 / 2, 1 / 2 :: real]]"
  let ?Y = "NDArray 2 [[1, 0], [0, 1 :: real]]"
  let ?Z = "NDArray 2 [[0, 0], [0, 0 :: real]]"
  let ?lin = "(NDArray 2 [[1, 0], [0, 1 :: real]], NDArray 2 [[1, 1], [1, 1 :: real]],
               NDArray 1 [[0], [0 :: real]])"
  have wf: "wf_array ?AL" "wf_array ?Y" "wf_array ?Z"
    by (simp_all add: wf_array_def)
  have sh: "shape ?AL = (2, 2)" "shape ?Y = (2, 2)" "shape ?Z = (2, 2)"
    by (simp_all add: shape_def nrows_def)
  have inside: "\<forall>i<2. \<forall>j<2. cell ?AL i j \<noteq> 0 \<and> cell ?AL i j \<noteq> 1"
    by (auto simp: cell_def less_2_cases_iff)
  from output_gradient_and_softmax_backward [OF wf sh] inside
  obtain dAL dZ where g: "initial_gradient ?AL ?Y = Inr dAL"
    and c1: "\<forall>i<2. \<forall>j<2.
               cell dAL i j = - (cell ?Y i j / cell ?AL i j - (1 - cell ?Y i j) / (1 - cell ?AL i j))"
    and b: "softmax_backward dAL ?Z = Inr dZ"
    and c2: "\<forall>i<2. \<forall>j<2.
               cell dZ i j = cell dAL i j * softmax_cell ?Z i j * (1 - softmax_cell ?Z i j)"
    and link: "\<forall>caches linear_cache. caches \<noteq> [] \<and> last caches = (linear_cache, ?Z) \<longrightarrow>
               L_model_backward ?AL ?Y caches =
                 ebind (linear_backward dZ linear_cache) (\<lambda>(dA_prev, dW, db).
                   for_loop (rev [0..<length caches - 1]) (backward_layer caches)
                     (setitem (setitem (setitem [] (''dA'' @ str (length caches)) dA_prev)
                        (''dW'' @ str (length caches)) dW) (''db'' @ str (length caches)) db))"
    by blast
  have two: "{..<2 :: nat} = {0, 1}" by auto
  have sm: "softmax_cell ?Z 0 0 = 1 / 2" "softmax_cell ?Z 1 0 = 1 / 2"
    by (simp_all add: softmax_cell_def nrows_def two cell_def)
  have a: "cell dAL 0 0 = - 2" "cell dAL 1 0 = 2"
    using c1 by (simp_all add: cell_def)
  have z: "cell dZ 0 0 = - 1 / 2" "cell dZ 1 0 = 1 / 2"
  proof -
    from c2 have "cell dZ 0 0 = cell dAL 0 0 * softmax_cell ?Z 0 0 * (1 - softmax_cell ?Z 0 0)"
      "cell dZ 1 0 = cell dAL 1 0 * softmax_cell ?Z 1 0 * (1 - softmax_cell ?Z 1 0)"
      by simp_all
    then show "cell dZ 0 0 = - 1 / 2" "cell dZ 1 0 = 1 / 2"
      unfolding a sm by simp_all
  qed
  have "L_model_backward ?AL ?Y [(?lin, ?Z)] =
          ebind (linear_backward dZ ?lin) (\<lambda>(dA_prev, dW, db).
            Inr (setitem (setitem (setitem [] ''dA1'' dA_prev) ''dW1'' dW) ''db1'' db))"
    using link [rule_format, of "[(?lin, ?Z)]" ?lin] by (simp add: str_Suc_0)
  moreover have "initial_gradient ?Y ?Y = Inl NonFinite"
  proof -
    have "cell ?Y 0 0 = 1"
      by (simp add: cell_def)
    then have "\<exists>i<2. \<exists>j<2. cell ?Y i j = 0 \<or> cell ?Y i j = 1"
      by (intro exI [of _ 0] conjI) simp_all
    with output_gradient_and_softmax_backward [OF wf(2) wf(2) wf(3) sh(2) sh(2) sh(3)]
    show ?thesis by blast
  qed
  ultimately show ?thesis
    using g a b z by blast
qed

text \<open>
  C7 (amended). \<open>batchnorm\<close> maps every entry of a feature row to
  \<open>(entry - population mean) / (population std + 10\<^sup>-\<^sup>4)\<close>, mean and deviation taken across the
  batch. For a batch that is not empty the output row has population mean 0 and population
  deviation \<open>s / (s + 10\<^sup>-\<^sup>4)\<close>, where \<open>s\<close> is the deviation of the input row: a value below 1
  whose distance to 1 is \<open>10\<^sup>-\<^sup>4 / (s + 10\<^sup>-\<^sup>4)\<close>, so it is near 1 only for \<open>s\<close> far above
  \<open>10\<^sup>-\<^sup>4\<close> and it is 0 for a constant row. With batch normalization enabled the forward pass
  hands the normalized output of every ReLU layer to the next layer (the caches keep the
  pre-activations), and the output of the last layer is the plain softmax.

  There is no separate evaluation mode. The accuracy \<open>predict\<close> returns is scored on the
  output of \<open>L_model_forward\<close> run with the flag it is given; a training step is
  \<open>L_model_forward\<close> with its flag on the batch, the backward pass on that output and those
  caches, and the update; and \<open>L_layer_model\<close> hands its one flag to every training step,
  to every validation and to the two final evaluations.

  The statement of the specification (every output row has deviation about 1) fails on a
  constant row, such as the row of a ReLU unit that is off for the whole batch.
\<close>

theorem batchnorm_in_forward_pass:
  "(wf_array A \<longrightarrow>
      (\<exists>B. batchnorm A = Inr B \<and> shape B = shape A
         \<and> (\<forall>i<nrows A. \<forall>j<ncols A.
               cell B i j = (cell A i j - row_mean A i) / (row_std A i + 1 / 10000))
         \<and> (0 < ncols A \<longrightarrow>
               (\<forall>i<nrows A. row_mean B i = 0
                   \<and> row_std B i = row_std A i / (row_std A i + 1 / 10000)
                   \<and> row_std B i < 1
                   \<and> 1 - row_std B i = (1 / 10000) / (row_std A i + 1 / 10000)))))
   \<and> (L_model_forward X d True = Inr (AL, caches) \<longrightarrow>
        (\<exists>cs A' W b Z. caches = cs @ [((A', W, b), Z)] \<and> relu_trace d True 1 X cs A'
           \<and> linear_forward A' W b = Inr (Z, (A', W, b)) \<and> softmax Z = Inr (AL, Z)))
   \<and> (\<forall>Z. relu_output True Z = batchnorm (nd_map (max 0) Z))
   \<and> (predict X Y d use_batchnorm = Inr acc \<longrightarrow>
        (\<exists>probs cs P Q E.
           L_model_forward X d use_batchnorm = Inr (probs, cs)
         \<and> np_argmax_axis0 probs = Inr P \<and> np_argmax_axis0 Y = Inr Q
         \<and> broadcast2 (=) P Q = Inr E
         \<and> acc = (if ncols X = 0 then None
                   else Some (real (count_true E) / real (ncols X)))))
   \<and> (train_batch Xb Yb layers lr use_batchnorm L2_norm j (Wd, costs, n) = Inr (Wd', costs', n') \<longrightarrow>
        (\<exists>AL' cs grads.
           L_model_forward (Xb ! j) Wd use_batchnorm = Inr (AL', cs)
         \<and> L_model_backward AL' (Yb ! j) cs = Inr grads
         \<and> update_parameters Wd grads lr L2_norm = Inr Wd'))
   \<and> (split_data indices X0 Y0 = Inr (Xt, Yt, X_train, X_val, Y_train, Y_val)
        \<and> initialize_parameters rnd 0 layers = Inr (pos, W0)
        \<and> cut_batches X_train Y_train batch_size = Inr (Xbs, Ybs) \<longrightarrow>
        L_layer_model rnd indices X0 Y0 layers lr num_iterations batch_size use_batchnorm L2_norm
          = ebind (epoch_loop
                     (for_loop [0..<length Xbs]
                        (train_batch Xbs Ybs layers lr use_batchnorm L2_norm))
                     (\<lambda>s. predict (nd_T X_val) (nd_T Y_val) (fst s) use_batchnorm)
                     [0..<nat num_iterations]
                     \<lparr>trained = (W0, [], 0), current_accuracy = Some 0,
                      prev_accuracy = Some 0, stop_sign = False,
                      iteration = (if Xbs = [] then None else Some (length Xbs - 1))\<rparr>)
              (\<lambda>fin.
                 ebind (predict (nd_T Xt) (nd_T Yt) (fst (trained fin)) use_batchnorm)
                   (\<lambda>training_accuracy.
                 ebind (predict (nd_T X_val) (nd_T Y_val) (fst (trained fin)) use_batchnorm)
                   (\<lambda>val_accuracy.
                   if iteration fin = None then Inl UnboundLocalError
                   else Inr (fst (trained fin), fst (snd (trained fin)), training_accuracy,
                             val_accuracy)))))"
proof (intro conjI impI allI)
  assume wf: "wf_array A"
  have stats: "row_mean (normalized A) i = 0
                   \<and> row_std (normalized A) i = row_std A i / (row_std A i + 1 / 10000)
                   \<and> row_std (normalized A) i < 1
                   \<and> 1 - row_std (normalized A) i = (1 / 10000) / (row_std A i + 1 / 10000)"
    if "0 < ncols A" "i < nrows A" for i
  proof -
    have s: "0 \<le> row_std A i" by (rule row_std_nonneg)
    have e: "row_std (normalized A) i = row_std A i / (row_std A i + 1 / 10000)"
      using that by (rule normalized_stats)
    have "row_std A i / (row_std A i + 1 / 10000) < 1"
      using s by (simp add: field_simps)
    moreover have "1 - row_std A i / (row_std A i + 1 / 10000)
                     = (1 / 10000) / (row_std A i + 1 / 10000)"
      using s by (simp add: field_simps)
    ultimately show ?thesis
      using normalized_stats(1) [OF that] e by simp
  qed
  have "shape (normalized A) = shape A"
    by (simp add: normalized_def shape_def)
  moreover have "\<forall>i<nrows A. \<forall>j<ncols A.
      cell (normalized A) i j = (cell A i j - row_mean A i) / (row_std A i + 1 / 10000)"
    by (simp add: normalized_def)
  ultimately show "\<exists>B. batchnorm A = Inr B \<and> shape B = shape A
         \<and> (\<forall>i<nrows A. \<forall>j<ncols A.
               cell B i j = (cell A i j - row_mean A i) / (row_std A i + 1 / 10000))
         \<and> (0 < ncols A \<longrightarrow>
               (\<forall>i<nrows A. row_mean B i = 0
                   \<and> row_std B i = row_std A i / (row_std A i + 1 / 10000)
                   \<and> row_std B i < 1
                   \<and> 1 - row_std B i = (1 / 10000) / (row_std A i + 1 / 10000)))"
    using batchnorm_cells [OF wf] stats by blast
next
  assume "L_model_forward X d True = Inr (AL, caches)"
  from L_model_forward_trace [OF this]
  show "\<exists>cs A' W b Z. caches = cs @ [((A', W, b), Z)] \<and> relu_trace d True 1 X cs A'
           \<and> linear_forward A' W b = Inr (Z, (A', W, b)) \<and> softmax Z = Inr (AL, Z)"
    by blast
next
  fix Z show "relu_output True Z = batchnorm (nd_map (max 0) Z)"
    by (simp add: relu_output_def)
next
  assume "predict X Y d use_batchnorm = Inr acc"
  then show "\<exists>probs cs P Q E.
           L_model_forward X d use_batchnorm = Inr (probs, cs)
         \<and> np_argmax_axis0 probs = Inr P \<and> np_argmax_axis0 Y = Inr Q
         \<and> broadcast2 (=) P Q = Inr E
         \<and> acc = (if ncols X = 0 then None
                   else Some (real (count_true E) / real (ncols X)))"
    by (rule predict_Inr)
next
  assume "train_batch Xb Yb layers lr use_batchnorm L2_norm j (Wd, costs, n) = Inr (Wd', costs', n')"
  from train_batch_Inr [OF this]
  show "\<exists>AL' cs grads.
           L_model_forward (Xb ! j) Wd use_batchnorm = Inr (AL', cs)
         \<and> L_model_backward AL' (Yb ! j) cs = Inr grads
         \<and> update_parameters Wd grads lr L2_norm = Inr Wd'"
    by blast
next
  assume "split_data indices X0 Y0 = Inr (Xt, Yt, X_train, X_val, Y_train, Y_val)
        \<and> initialize_parameters rnd 0 layers = Inr (pos, W0)
        \<and> cut_batches X_train Y_train batch_size = Inr (Xbs, Ybs)"
  then show "L_layer_model rnd indices X0 Y0 layers lr num_iterations batch_size use_batchnorm L2_norm
          = ebind (epoch_loop
                     (for_loop [0..<length Xbs]
                        (train_batch Xbs Ybs layers lr use_batchnorm L2_norm))
                     (\<lambda>s. predict (nd_T X_val) (nd_T Y_val) (fst s) use_batchnorm)
                     [0..<nat num_iterations]
                     \<lparr>trained = (W0, [], 0), current_accuracy = Some 0,
                      prev_accuracy = Some 0, stop_sign = False,
                      iteration = (if Xbs = [] then None else Some (length Xbs - 1))\<rparr>)
              (\<lambda>fin.
                 ebind (predict (nd_T Xt) (nd_T Yt) (fst (trained fin)) use_batchnorm)
                   (\<lambda>training_accuracy.
                 ebind (predict (nd_T X_val) (nd_T Y_val) (fst (trained fin)) use_batchnorm)
                   (\<lambda>val_accuracy.
                   if iteration fin = None then Inl UnboundLocalError
                   else Inr (fst (trained fin), fst (snd (trained fin)), training_accuracy,
                             val_accuracy))))"
    by (simp add: L_layer_model_def epoch_pass_def validation_def [abs_def]
          final_report_def [abs_def])
qed

theorem batchnorm_in_forward_pass_witness:
  "(\<exists>B. batchnorm (NDArray 2 [[1, 3]]) = Inr B \<and> row_mean B 0 = 0
        \<and> row_std B 0 = row_std (NDArray 2 [[1, 3]]) 0 / (row_std (NDArray 2 [[1, 3]]) 0 + 1 / 10000))
   \<and> (\<exists>cs A' W b Z.
         [((NDArray 2 [[1, 3]], NDArray 1 [[1]], NDArray 1 [[0]]), NDArray 2 [[1, 3]]),
          ((NDArray 2 [[- (10000 / 10001), 10000 / 10001]], NDArray 1 [[0], [0]],
            NDArray 1 [[0], [0]]), NDArray 2 [[0, 0], [0, 0]])] = cs @ [((A', W, b), Z)]
       \<and> relu_trace [(''W1'', NDArray 1 [[1]]), (''b1'', NDArray 1 [[0]]),
                      (''W2'', NDArray 1 [[0], [0]]), (''b2'', NDArray 1 [[0], [0]])] True 1
            (NDArray 2 [[1, 3]]) cs A'
       \<and> softmax Z = Inr (NDArray 2 [[1 / 2, 1 / 2], [1 / 2, 1 / 2]], Z))
   \<and> predict (NDArray 2 [[1, 3]]) (first_class 2)
         [(''W1'', NDArray 1 [[1]]), (''b1'', NDArray 1 [[0]]),
          (''W2'', NDArray 1 [[1], [- 1]]), (''b2'', NDArray 1 [[0], [0]])] False
       = Inr (Some 1)
   \<and> (\<exists>probs cs P Q E.
         L_model_forward (NDArray 2 [[1, 3]])
           [(''W1'', NDArray 1 [[1]]), (''b1'', NDArray 1 [[0]]),
            (''W2'', NDArray 1 [[1], [- 1]]), (''b2'', NDArray 1 [[0], [0]])] True
         = Inr (probs, cs)
       \<and> np_argmax_axis0 probs = Inr P \<and> np_argmax_axis0 (first_class 2) = Inr Q
       \<and> broadcast2 (=) P Q = Inr E \<and> real (count_true E) / 2 = 1 / 2)
   \<and> (\<exists>AL' cs grads.
         L_model_forward (NDArray 4 [[1, 2, 3, 4]]) (bias_net 0) True = Inr (AL', cs)
       \<and> L_model_backward AL' (first_class 4) cs = Inr grads
       \<and> update_parameters (bias_net 0) grads 1 False = Inr (bias_net (bias_step 0)))
   \<and> L_layer_model (\<lambda>n. 1 / 2) [0, 1, 2, 3, 4] (NDArray 5 [[1, 2, 3, 4, 5]])
       (NDArray 5 [[1, 1, 1, 1, 1], [0, 0, 0, 0, 0]]) [1, 1, 2] 1 5 4 True False
     = Inr (bias_net (bias_step (bias_step 0)), [], Some 1, Some 1)"
proof -
  let ?X = "NDArray 2 [[1, 3 :: real]]"
  let ?Y = "NDArray 2 [[1, 0], [0, 1 :: real]]"
  let ?d = "[(''W1'', NDArray 1 [[1 :: real]]), (''b1'', NDArray 1 [[0 :: real]]),
        (''W2'', NDArray 1 [[0], [0 :: real]]), (''b2'', NDArray 1 [[0], [0 :: real]])]"
  let ?d' = "[(''W1'', NDArray 1 [[1 :: real]]), (''b1'', NDArray 1 [[0 :: real]]),
        (''W2'', NDArray 1 [[1], [- 1 :: real]]), (''b2'', NDArray 1 [[0], [0 :: real]])]"
  let ?AL = "NDArray 2 [[1 / 2, 1 / 2], [1 / 2, 1 / 2 :: real]]"
  let ?caches = "[((?X, NDArray 1 [[1 :: real]], NDArray 1 [[0 :: real]]), ?X),
          ((NDArray 2 [[- (10000 / 10001), 10000 / 10001 :: real]], NDArray 1 [[0], [0 :: real]],
            NDArray 1 [[0], [0 :: real]]), NDArray 2 [[0, 0], [0, 0 :: real]])]"
  let ?Xs = "NDArray 5 [[1, 2, 3, 4, 5 :: real]]"
  let ?Ys = "NDArray 5 [[1, 1, 1, 1, 1], [0, 0, 0, 0, 0 :: real]]"
  let ?Xb = "NDArray 4 [[1, 2, 3, 4 :: real]]"
  let ?Xv = "NDArray 1 [[5 :: real]]" and ?Yv = "NDArray 2 [[1, 0 :: real]]"
  note inst = batchnorm_in_forward_pass [where A = ?X and X = ?X and d = ?d and AL = ?AL
      and caches = ?caches]
  have wf: "wf_array ?X" "0 < ncols ?X" "0 < nrows ?X"
    by (simp_all add: wf_array_def)
  from inst [THEN conjunct1] wf obtain B where "batchnorm ?X = Inr B" "row_mean B 0 = 0"
    "row_std B 0 = row_std ?X 0 / (row_std ?X 0 + 1 / 10000)"
    by blast
  then have a: "\<exists>B. batchnorm ?X = Inr B \<and> row_mean B 0 = 0
        \<and> row_std B 0 = row_std ?X 0 / (row_std ?X 0 + 1 / 10000)"
    by blast
  from inst [THEN conjunct2, THEN conjunct1] forward_example
  have b: "\<exists>cs A' W b Z. ?caches = cs @ [((A', W, b), Z)] \<and> relu_trace ?d True 1 ?X cs A'
       \<and> softmax Z = Inr (?AL, Z)"
    by blast
  note scored = batchnorm_in_forward_pass [where X = ?X and Y = "first_class 2" and d = ?d'
      and use_batchnorm = True and acc = "Some (1 / 2)",
      THEN conjunct2, THEN conjunct2, THEN conjunct2, THEN conjunct1, THEN mp,
      OF flag_example_predict(1)]
  then obtain probs cs P Q E where
    c1: "L_model_forward ?X ?d' True = Inr (probs, cs)" "np_argmax_axis0 probs = Inr P"
      "np_argmax_axis0 (first_class 2) = Inr Q" "broadcast2 (=) P Q = Inr E"
    and c2: "Some (1 / 2) = (if ncols ?X = 0 then None
                             else Some (real (count_true E) / real (ncols ?X)))"
    by blast
  from c2 have "real (count_true E) / 2 = 1 / 2"
    by simp
  with c1 have c: "\<exists>probs cs P Q E. L_model_forward ?X ?d' True = Inr (probs, cs)
       \<and> np_argmax_axis0 probs = Inr P \<and> np_argmax_axis0 (first_class 2) = Inr Q
       \<and> broadcast2 (=) P Q = Inr E \<and> real (count_true E) / 2 = 1 / 2"
    by blast
  have tb: "train_batch [?Xb] [first_class 4] [1, 1, 2] 1 True False 0 (bias_net 0, [], 0)
              = Inr (bias_net (bias_step 0), [], Suc 0)"
    by (rule bias_net_train_batch) (simp_all add: shape_def)
  note step = batchnorm_in_forward_pass [where Xb = "[?Xb]" and Yb = "[first_class 4]"
      and layers = "[1, 1, 2]" and lr = 1 and use_batchnorm = True and L2_norm = False and j = 0
      and Wd = "bias_net 0" and costs = "[]" and n = 0 and Wd' = "bias_net (bias_step 0)"
      and costs' = "[]" and n' = "Suc 0",
      THEN conjunct2, THEN conjunct2, THEN conjunct2, THEN conjunct2, THEN conjunct1,
      THEN mp, OF tb]
  then have e: "\<exists>AL' cs grads. L_model_forward ?Xb (bias_net 0) True = Inr (AL', cs)
       \<and> L_model_backward AL' (first_class 4) cs = Inr grads
       \<and> update_parameters (bias_net 0) grads 1 False = Inr (bias_net (bias_step 0))"
    by simp
  have ready: "split_data [0, 1, 2, 3, 4] ?Xs ?Ys
          = Inr (NDArray 1 [[1], [2], [3], [4], [5]],
                 NDArray 2 [[1, 0], [1, 0], [1, 0], [1, 0], [1, 0]],
                 NDArray 1 [[1], [2], [3], [4]], ?Xv,
                 NDArray 2 [[1, 0], [1, 0], [1, 0], [1, 0]], ?Yv)
        \<and> initialize_parameters (\<lambda>n. 1 / 2) 0 [1, 1, 2] = Inr (3, bias_net 0)
        \<and> cut_batches (NDArray 1 [[1], [2], [3], [4]])
            (NDArray 2 [[1, 0], [1, 0], [1, 0], [1, 0]]) 4
          = Inr ([?Xb], [first_class 4])"
    using split_example init_example batches_example by blast
  note run = batchnorm_in_forward_pass [where use_batchnorm = True and L2_norm = False and lr = 1
      and num_iterations = 5,
      THEN conjunct2, THEN conjunct2, THEN conjunct2, THEN conjunct2, THEN conjunct2,
      THEN mp, OF ready]
  have loop: "epoch_loop
                (for_loop [0..<length [?Xb]]
                   (train_batch [?Xb] [first_class 4] [1, 1, 2] 1 True False))
                (\<lambda>s. predict (nd_T ?Xv) (nd_T ?Yv) (fst s) True) [0..<nat 5]
                \<lparr>trained = (bias_net 0, [], 0), current_accuracy = Some 0,
                 prev_accuracy = Some 0, stop_sign = False,
                 iteration = (if [?Xb] = [] then None else Some (length [?Xb] - 1))\<rparr>
              = Inr \<lparr>trained = (bias_net (bias_step (bias_step 0)), [], 2),
                     current_accuracy = Some 1, prev_accuracy = Some 1, stop_sign = True,
                     iteration = Some 1\<rparr>"
    using trainer_example [of True]
    by (simp add: epoch_pass_def validation_def [abs_def])
  have fin: "final_report (NDArray 1 [[1], [2], [3], [4], [5]])
               (NDArray 2 [[1, 0], [1, 0], [1, 0], [1, 0], [1, 0]]) ?Xv ?Yv True
               \<lparr>trained = (bias_net (bias_step (bias_step 0)), [], 2),
                current_accuracy = Some 1, prev_accuracy = Some 1, stop_sign = True,
                iteration = Some 1\<rparr>
             = Inr (bias_net (bias_step (bias_step 0)), [], Some 1, Some 1)"
    using final_report_example [OF bias_steps_nonneg [of 2], of True]
    by (simp add: numeral_2_eq_2)
  have f: "L_layer_model (\<lambda>n. 1 / 2) [0, 1, 2, 3, 4] ?Xs ?Ys [1, 1, 2] 1 5 4 True False
             = Inr (bias_net (bias_step (bias_step 0)), [], Some 1, Some 1)"
    unfolding run loop ebind_Inr
    using fin by (simp add: final_report_def)
  from a b flag_example_predict(2) c e f show ?thesis
    by blast
qed

theorem batchnorm_constant_row_counterexample:
  "batchnorm (NDArray 2 [[1, 1]]) = Inr (NDArray 2 [[0, 0]])
   \<and> row_std (NDArray 2 [[0, 0]]) 0 = 0"
proof -
  have m: "row_mean (NDArray 2 [[1, 1]]) 0 = 1"
    by (simp add: row_mean_def two_set)
  have "normalized (NDArray 2 [[1, 1]]) = NDArray 2 [[0, 0]]"
    by (simp add: normalized_def tabulate_1_2 m)
  moreover have "wf_array (NDArray 2 [[1, 1 :: real]])"
    by (simp add: wf_array_def)
  ultimately have "batchnorm (NDArray 2 [[1, 1]]) = Inr (NDArray 2 [[0, 0]])"
    using batchnorm_cells by simp
  moreover have "row_std (NDArray 2 [[0, 0]]) 0 = 0"
    by (simp add: row_std_def row_mean_def two_set)
  ultimately show ?thesis by simp
qed

text \<open>
  C10. The backward pass does not differentiate through batch normalization.
  \<open>L_model_backward\<close> has no flag for it: its result is determined by \<open>AL\<close>, \<open>Y\<close> and the
  caches. Whenever a forward pass, with the flag set or not, returns caches and the backward
  pass returns gradients on them: the caches of the ReLU layers hold the pre-activations
  \<open>Z = W A + b\<close> as \<open>linear_forward\<close> computed them, before the normalization (with the flag
  set, what the next layer received is \<open>batchnorm\<close> of \<open>max(0, Z)\<close>, and that is the input its
  cache holds); and the gradients in the dictionary are those of the chain
  \<open>softmax_backward\<close>, \<open>linear_backward\<close>, then \<open>relu_backward\<close> and \<open>linear_backward\<close> for each
  ReLU layer from the top down, each \<open>relu_backward\<close> applied directly to the \<open>dA_prev\<close> of
  the layer above and to the cached \<open>Z\<close>. The entry \<^verbatim>\<open>dA\<close> of a layer above a ReLU layer
  holds the masked gradient, since \<open>relu_backward\<close> writes in place.
\<close>

theorem backward_ignores_batchnorm:
  assumes fwd: "L_model_forward X d use_batchnorm = Inr (AL, caches)"
    and bwd: "L_model_backward AL Y caches = Inr grads"
  shows "\<exists>cs A W b Z dAL dZ dA_prev dW db res.
           caches = cs @ [((A, W, b), Z)] \<and> relu_trace d use_batchnorm 1 X cs A
         \<and> initial_gradient AL Y = Inr dAL \<and> softmax_backward dAL Z = Inr dZ
         \<and> linear_backward dZ (A, W, b) = Inr (dA_prev, dW, db)
         \<and> getitem grads (''dW'' @ str (length caches)) = Inr dW
         \<and> getitem grads (''db'' @ str (length caches)) = Inr db
         \<and> relu_chain dA_prev (rev cs) = Inr res \<and> length res = length cs
         \<and> (\<forall>k<length cs.
                getitem grads (''dA'' @ str (k + 2)) = Inr (grad_dZ (res ! (length cs - 1 - k)))
              \<and> getitem grads (''dW'' @ str (k + 1)) = Inr (grad_dW (res ! (length cs - 1 - k)))
              \<and> getitem grads (''db'' @ str (k + 1)) = Inr (grad_db (res ! (length cs - 1 - k))))"
proof -
  from L_model_forward_trace [OF fwd] obtain cs A W b Z where
    caches: "caches = cs @ [((A, W, b), Z)]" and tr: "relu_trace d use_batchnorm 1 X cs A"
    by blast
  let ?n = "length cs"
  have ne: "caches \<noteq> []" and lst: "last caches = ((A, W, b), Z)"
    and len: "length caches = ?n + 1" and tk: "take ?n caches = cs"
    using caches by simp_all
  from bwd obtain dAL where g: "initial_gradient AL Y = Inr dAL"
    by (cases "initial_gradient AL Y") (simp_all add: L_model_backward_def)
  from bwd g ne lst obtain dZ where z: "softmax_backward dAL Z = Inr dZ"
    by (cases "softmax_backward dAL Z")
       (simp_all add: L_model_backward_def linear_activation_backward_def Let_def)
  note unfold = L_model_backward_last_layer [OF g z ne lst]
  from bwd unfold obtain r where r: "linear_backward dZ (A, W, b) = Inr r"
    by (cases "linear_backward dZ (A, W, b)") simp_all
  obtain dA_prev dW db where r': "r = (dA_prev, dW, db)" by (cases r)
  define g0 where "g0 = setitem (setitem (setitem [] (''dA'' @ str (length caches)) dA_prev)
                  (''dW'' @ str (length caches)) dW) (''db'' @ str (length caches)) db"
  have loop: "for_loop (rev [0..<?n]) (backward_layer caches) g0 = Inr grads"
    using bwd unfold r r' len by (simp add: g0_def)
  have start: "getitem g0 (''dA'' @ str (?n + 1)) = Inr dA_prev"
    using len by (simp add: g0_def getitem_setitem)
  have le: "?n \<le> length caches" using len by simp
  from backward_loop [OF le start] loop tk
  obtain res where res: "relu_chain dA_prev (rev cs) = Inr res"
    and st: "chain_stored ?n res g0 grads"
    by (cases "relu_chain dA_prev (rev cs)") auto
  from st have rl: "length res = ?n"
    and layers: "\<forall>k<?n.
                getitem grads (''dA'' @ str (k + 2)) = Inr (grad_dZ (res ! (?n - 1 - k)))
              \<and> getitem grads (''dW'' @ str (k + 1)) = Inr (grad_dW (res ! (?n - 1 - k)))
              \<and> getitem grads (''db'' @ str (k + 1)) = Inr (grad_db (res ! (?n - 1 - k)))"
    and frame: "\<And>key. (\<forall>k\<le>?n. key \<noteq> ''dA'' @ str (k + 1))
               \<and> (\<forall>k<?n. key \<noteq> ''dW'' @ str (k + 1) \<and> key \<noteq> ''db'' @ str (k + 1))
             \<Longrightarrow> getitem grads key = getitem g0 key"
    by (simp_all add: chain_stored_def)
  have top_dW: "getitem grads (''dW'' @ str (length caches)) = Inr dW"
  proof -
    have "getitem grads (''dW'' @ str (?n + 1)) = getitem g0 (''dW'' @ str (?n + 1))"
      by (rule frame) auto
    then show ?thesis using len by (simp add: g0_def getitem_setitem)
  qed
  have top_db: "getitem grads (''db'' @ str (length caches)) = Inr db"
  proof -
    have "getitem grads (''db'' @ str (?n + 1)) = getitem g0 (''db'' @ str (?n + 1))"
      by (rule frame) auto
    then show ?thesis using len by (simp add: g0_def getitem_setitem)
  qed
  show ?thesis
    using caches tr g z r [unfolded r'] top_dW top_db res rl layers by blast
qed


theorem backward_ignores_batchnorm_witness:
  "\<exists>grads cs A W b Z dA_prev res.
     L_model_forward (NDArray 2 [[1, 3]])
       [(''W1'', NDArray 1 [[1]]), (''b1'', NDArray 1 [[0]]),
        (''W2'', NDArray 1 [[0], [0]]), (''b2'', NDArray 1 [[0], [0]])] True
     = Inr (NDArray 2 [[1 / 2, 1 / 2], [1 / 2, 1 / 2]], cs @ [((A, W, b), Z)])
   \<and> L_model_backward (NDArray 2 [[1 / 2, 1 / 2], [1 / 2, 1 / 2]]) (NDArray 2 [[1, 0], [0, 1]])
       (cs @ [((A, W, b), Z)]) = Inr grads
   \<and> relu_trace [(''W1'', NDArray 1 [[1]]), (''b1'', NDArray 1 [[0]]),
                  (''W2'', NDArray 1 [[0], [0]]), (''b2'', NDArray 1 [[0], [0]])] True 1
        (NDArray 2 [[1, 3]]) cs A
   \<and> relu_chain dA_prev (rev cs) = Inr res \<and> length res = 1
   \<and> getitem grads ''dW1'' = Inr (grad_dW (res ! 0))
   \<and> getitem grads ''dA2'' = Inr (grad_dZ (res ! 0))"
proof -
  let ?X = "NDArray 2 [[1, 3 :: real]]"
  let ?d = "[(''W1'', NDArray 1 [[1 :: real]]), (''b1'', NDArray 1 [[0 :: real]]),
        (''W2'', NDArray 1 [[0], [0 :: real]]), (''b2'', NDArray 1 [[0], [0 :: real]])]"
  let ?AL = "NDArray 2 [[1 / 2, 1 / 2], [1 / 2, 1 / 2 :: real]]"
  let ?Y = "NDArray 2 [[1, 0], [0, 1 :: real]]"
  let ?caches = "[((?X, NDArray 1 [[1 :: real]], NDArray 1 [[0 :: real]]), ?X),
          ((NDArray 2 [[- (10000 / 10001), 10000 / 10001 :: real]], NDArray 1 [[0], [0 :: real]],
            NDArray 1 [[0], [0 :: real]]), NDArray 2 [[0, 0], [0, 0 :: real]])]"
  from backward_example obtain grads where bwd: "L_model_backward ?AL ?Y ?caches = Inr grads"
    by blast
  from backward_ignores_batchnorm [OF forward_example bwd]
  obtain cs A W b Z dA_prev res where
    caches: "?caches = cs @ [((A, W, b), Z)]" and tr: "relu_trace ?d True 1 ?X cs A"
    and res: "relu_chain dA_prev (rev cs) = Inr res" "length res = length cs"
    and layers: "\<forall>k<length cs.
                getitem grads (''dA'' @ str (k + 2)) = Inr (grad_dZ (res ! (length cs - 1 - k)))
              \<and> getitem grads (''dW'' @ str (k + 1)) = Inr (grad_dW (res ! (length cs - 1 - k)))
              \<and> getitem grads (''db'' @ str (k + 1)) = Inr (grad_db (res ! (length cs - 1 - k)))"
    by blast
  from caches have "length ?caches = length cs + 1"
    by (metis length_append_singleton Suc_eq_plus1)
  then have len: "length cs = 1" by simp
  with layers have "getitem grads (''dA'' @ str (0 + 2)) = Inr (grad_dZ (res ! 0))"
    "getitem grads (''dW'' @ str (0 + 1)) = Inr (grad_dW (res ! 0))"
    by simp_all
  then have look: "getitem grads ''dA2'' = Inr (grad_dZ (res ! 0))"
    "getitem grads ''dW1'' = Inr (grad_dW (res ! 0))"
    by (simp_all add: str_Suc_0 str_Suc_Suc_0)
  have f: "L_model_forward ?X ?d True = Inr (?AL, cs @ [((A, W, b), Z)])"
    by (subst caches [symmetric]) (rule forward_example)
  have b: "L_model_backward ?AL ?Y (cs @ [((A, W, b), Z)]) = Inr grads"
    by (subst caches [symmetric]) (rule bwd)
  from f b tr res len look show ?thesis
    by (intro exI conjI) simp_all
qed

end
